theory Spec2Isabelle
  imports Main
begin

section \<open>Python strings\<close>

text \<open>
  The program is \<^verbatim>\<open>src/android_tools.py\<close>. A Python \<^verbatim>\<open>str\<close> is modelled as a
  \<^typ>\<open>string\<close> whose characters are the code points U+0000 to U+00FF (a \<^typ>\<open>char\<close>
  is read as a code point, not as a byte of an encoding). The three character classes the
  program depends on are written out for that range:
  \<^item> \<^verbatim>\<open>str.isspace\<close>, which \<^verbatim>\<open>strip()\<close> and \<^verbatim>\<open>split()\<close> use: U+0009 to U+000D,
    U+001C to U+001F, U+0020, U+0085 and U+00A0;
  \<^item> the decimal digits, which the pattern \<^verbatim>\<open>\d\<close> matches and \<^verbatim>\<open>int()\<close> accepts:
    \<^verbatim>\<open>0\<close> to \<^verbatim>\<open>9\<close>;
  \<^item> \<^verbatim>\<open>str.isdigit\<close>, which is true of the decimal digits and also of the
    superscript digits U+00B2, U+00B3 and U+00B9.
\<close>

definition is_space :: "char \<Rightarrow> bool" where
  "is_space c =
     (c \<in> set [CHR 0x09, CHR 0x0A, CHR 0x0B, CHR 0x0C, CHR 0x0D, CHR 0x1C, CHR 0x1D,
                 CHR 0x1E, CHR 0x1F, CHR 0x20, CHR 0x85, CHR 0xA0])"

definition is_decimal :: "char \<Rightarrow> bool" where
  "is_decimal c = (c \<in> set ''0123456789'')"

definition is_digit :: "char \<Rightarrow> bool" where
  "is_digit c = (is_decimal c \<or> c \<in> set [CHR 0xB2, CHR 0xB3, CHR 0xB9])"

text \<open>\<^verbatim>\<open>s.strip()\<close>: leading and trailing whitespace removed.\<close>

definition py_strip :: "string \<Rightarrow> string" where
  "py_strip s = rev (dropWhile is_space (rev (dropWhile is_space s)))"

text \<open>\<^verbatim>\<open>s.split(sep)\<close> for a one-character separator: never empty, \<^verbatim>\<open>''.split('\n') == ['']\<close>.\<close>

fun py_split_on :: "char \<Rightarrow> string \<Rightarrow> string list" where
  "py_split_on sep [] = [[]]"
| "py_split_on sep (c # cs) =
     (if c = sep then [] # py_split_on sep cs
      else (case py_split_on sep cs of
              [] \<Rightarrow> [[c]]
            | w # ws \<Rightarrow> (c # w) # ws))"

text \<open>
  \<^verbatim>\<open>s.split()\<close> with no argument: the maximal runs of non-whitespace characters, in
  order; \<open>cur\<close> holds the run being read, reversed.
\<close>

fun split_runs :: "string \<Rightarrow> string \<Rightarrow> string list" where
  "split_runs cur [] = (if cur = [] then [] else [rev cur])"
| "split_runs cur (c # cs) =
     (if is_space c
      then (if cur = [] then split_runs [] cs else rev cur # split_runs [] cs)
      else split_runs (c # cur) cs)"

definition py_split :: "string \<Rightarrow> string list" where
  "py_split s = split_runs [] s"

text \<open>\<^verbatim>\<open>s.isdigit()\<close>: non-empty and every character a digit in the sense of \<open>is_digit\<close>.\<close>

definition py_isdigit :: "string \<Rightarrow> bool" where
  "py_isdigit s = (s \<noteq> [] \<and> list_all is_digit s)"

text \<open>
  \<^verbatim>\<open>s.lower()\<close>: in the range U+0000 to U+00FF the letters with a lower-case form are
  \<^verbatim>\<open>A\<close> to \<^verbatim>\<open>Z\<close> and U+00C0 to U+00DE without the multiplication sign U+00D7, and the
  lower-case form is 32 code points further.
\<close>

definition lower_char :: "char \<Rightarrow> char" where
  "lower_char c =
     (let n = (of_char c :: nat)
      in if (65 \<le> n \<and> n \<le> 90) \<or> (192 \<le> n \<and> n \<le> 222 \<and> n \<noteq> 215)
         then char_of (n + 32) else c)"

definition py_lower :: "string \<Rightarrow> string" where
  "py_lower s = map lower_char s"

text \<open>\<^verbatim>\<open>s.strip('"')\<close>: leading and trailing double quotes removed.\<close>

definition strip_quotes :: "string \<Rightarrow> string" where
  "strip_quotes s =
     rev (dropWhile (\<lambda>c. c = CHR 0x22) (rev (dropWhile (\<lambda>c. c = CHR 0x22) s)))"

text \<open>
  \<^verbatim>\<open>str(Path(p))\<close> with POSIX paths: the components between slashes, without the empty
  ones and the ones that are a single dot, joined by one slash each, after the root (one
  slash, or two when \<open>p\<close> starts with exactly two); the path with nothing left is
  \<^verbatim>\<open>.\<close>. Components \<^verbatim>\<open>..\<close> stay.
\<close>

fun join_path :: "string list \<Rightarrow> string" where
  "join_path [] = []"
| "join_path [c] = c"
| "join_path (c # d # cs) = c @ ''/'' @ join_path (d # cs)"

definition path_root :: "string \<Rightarrow> string" where
  "path_root p =
     (if take 2 p = ''//'' \<and> take 3 p \<noteq> ''///'' then ''//''
      else if take 1 p = ''/'' then ''/''
      else [])"

definition path_str :: "string \<Rightarrow> string" where
  "path_str p =
     (let s = path_root p
              @ join_path (filter (\<lambda>c. c \<noteq> [] \<and> c \<noteq> ''.'') (py_split_on (CHR ''/'') p))
      in if s = [] then ''.'' else s)"

text \<open>
  What the program's calls raise. All but \<^verbatim>\<open>KeyboardInterrupt\<close> are instances of
  \<^verbatim>\<open>Exception\<close>, which is what the handlers written \<^verbatim>\<open>except Exception\<close> catch.
\<close>

datatype error =
    CalledProcessError "string list" int
  | ValueError
  | OSError
  | EOFError
  | KeyboardInterrupt

definition is_exception :: "error \<Rightarrow> bool" where
  "is_exception e = (case e of KeyboardInterrupt \<Rightarrow> False | _ \<Rightarrow> True)"

text \<open>
  \<^verbatim>\<open>int(s)\<close> at its one call site, where \<^verbatim>\<open>s.isdigit()\<close> has just held, so that \<open>s\<close>
  has no sign, blank or underscore: the value in base ten when every character is a
  decimal digit, and \<^verbatim>\<open>ValueError\<close> otherwise (a superscript digit is no literal).
  The bound that recent interpreters put on the number of digits is not modelled.
\<close>

definition digit_val :: "char \<Rightarrow> int" where
  "digit_val c = int (of_char c) - 48"

definition py_int :: "string \<Rightarrow> error + int" where
  "py_int s =
     (if s \<noteq> [] \<and> list_all is_decimal s
      then Inr (foldl (\<lambda>n c. 10 * n + digit_val c) 0 s)
      else Inl ValueError)"

section \<open>Architecture resolver and validators\<close>

text \<open>
  \<^verbatim>\<open>mapping.get(abi, 'android-arm64')\<close> on a dictionary literal with distinct keys: an
  association list, looked up by exact key, with the default for a missing key.
\<close>

definition dict_get :: "('k \<times> 'v) list \<Rightarrow> 'k \<Rightarrow> 'v \<Rightarrow> 'v" where
  "dict_get d k dflt = (case map_of d k of None \<Rightarrow> dflt | Some v \<Rightarrow> v)"

definition abi_mapping :: "(string \<times> string) list" where
  "abi_mapping =
     [(''arm64-v8a'', ''android-arm64''),
      (''armeabi-v7a'', ''android-arm''),
      (''armeabi'', ''android-arm''),
      (''x86_64'', ''android-x86_64''),
      (''x86'', ''android-x86'')]"

definition map_abi_to_frida_arch :: "string \<Rightarrow> string" where
  "map_abi_to_frida_arch abi = dict_get abi_mapping abi ''android-arm64''"

text \<open>
  \<^verbatim>\<open>re.match(r'^\d+\.\d+\.\d+$', version)\<close>. Each piece of the pattern consumes a prefix
  of what is left of the string: \<^verbatim>\<open>\d+\<close> a non-empty run of decimal digits, which must
  be the whole run since the piece that follows cannot start with a digit, and \<^verbatim>\<open>\.\<close>
  one full stop. Without the \<^verbatim>\<open>MULTILINE\<close> flag \<^verbatim>\<open>$\<close> matches at the end of the string
  and also just before a newline that is the string's last character.
\<close>

definition re_digits :: "string \<Rightarrow> string option" where
  "re_digits s =
     (if takeWhile is_decimal s = [] then None else Some (dropWhile is_decimal s))"

definition re_dot :: "string \<Rightarrow> string option" where
  "re_dot s = (case s of [] \<Rightarrow> None | c # r \<Rightarrow> if c = CHR ''.'' then Some r else None)"

definition re_dollar :: "string \<Rightarrow> bool" where
  "re_dollar s = (s = [] \<or> s = [CHR 0x0A])"

definition validate_frida_version :: "string \<Rightarrow> bool" where
  "validate_frida_version version =
     (case Option.bind (Option.bind (Option.bind (Option.bind
             (re_digits version) re_dot) re_digits) re_dot) re_digits of
        None \<Rightarrow> False
      | Some r \<Rightarrow> re_dollar r)"

definition valid_archs :: "string list" where
  "valid_archs = [''android-arm64'', ''android-arm'', ''android-x86_64'', ''android-x86'']"

definition validate_frida_arch :: "string \<Rightarrow> bool" where
  "validate_frida_arch arch = (arch \<in> set valid_archs)"

text \<open>
  The format the validator documents (\<^verbatim>\<open>x.y.z\<close>): three non-empty runs of decimal
  digits separated by full stops, and nothing else.
\<close>

definition version_format :: "string \<Rightarrow> bool" where
  "version_format s =
     (\<exists>x y z. x \<noteq> [] \<and> y \<noteq> [] \<and> z \<noteq> [] \<and>
        list_all is_decimal x \<and> list_all is_decimal y \<and> list_all is_decimal z \<and>
        s = x @ ''.'' @ y @ ''.'' @ z)"

section \<open>Device listing and selection\<close>

text \<open>
  The loop of \<^verbatim>\<open>choose_device\<close> over the lines of the listing: a line whose second
  whitespace-delimited column is \<^verbatim>\<open>device\<close> appends its first column to \<open>devices\<close>.
\<close>

fun devices_loop :: "string list \<Rightarrow> string list \<Rightarrow> string list" where
  "devices_loop [] devices = devices"
| "devices_loop (line # lines) devices =
     (let parts = py_split (py_strip line)
      in if length parts \<ge> 2 \<and> parts ! 1 = ''device''
         then devices_loop lines (devices @ [parts ! 0])
         else devices_loop lines devices)"

text \<open>
  \<^verbatim>\<open>result.stdout.strip().split('\n')[1:]\<close> and the loop: the devices listed by the
  output of \<^verbatim>\<open>adb devices\<close>.
\<close>

definition parse_devices :: "string \<Rightarrow> string list" where
  "parse_devices out = devices_loop (tl (py_split_on (CHR 0x0A) (py_strip out))) []"

text \<open>
  The selection at the end of \<^verbatim>\<open>choose_device\<close>, from the stripped answer. Python's
  \<^verbatim>\<open>and\<close> evaluates \<^verbatim>\<open>int(choice)\<close> only when \<^verbatim>\<open>choice.isdigit()\<close> holds, and an
  exception of \<^verbatim>\<open>int\<close> leaves the function.
\<close>

definition select_devices :: "string list \<Rightarrow> string \<Rightarrow> error + string list" where
  "select_devices devices choice =
     (if choice = ''0'' then Inr devices
      else if py_isdigit choice
      then (case py_int choice of
              Inl e \<Rightarrow> Inl e
            | Inr n \<Rightarrow>
                if 1 \<le> n \<and> n \<le> int (length devices)
                then Inr [devices ! nat (n - 1)]
                else Inr [])
      else Inr [])"

text \<open>
  The listing in the specification's words: of the lines after the header, those whose
  state column is \<^verbatim>\<open>device\<close>, each giving its serial, in the order of the output.
\<close>

definition columns :: "string \<Rightarrow> string list" where
  "columns line = py_split (py_strip line)"

definition is_device_entry :: "string \<Rightarrow> bool" where
  "is_device_entry line = (case columns line of _ # state # _ \<Rightarrow> state = ''device'' | _ \<Rightarrow> False)"

definition serial_of :: "string \<Rightarrow> string" where
  "serial_of line = (case columns line of serial # _ \<Rightarrow> serial | [] \<Rightarrow> [])"

definition listed_devices :: "string \<Rightarrow> string list" where
  "listed_devices out =
     map serial_of (filter is_device_entry (tl (py_split_on (CHR 0x0A) (py_strip out))))"

section \<open>External world\<close>

text \<open>
  The program's effects are made explicit. A \<open>state\<close> holds the module's global
  variables as \<^verbatim>\<open>main\<close> and \<^verbatim>\<open>setup_frida_server\<close> assign them (\<open>LOCAL_DIR\<close> and
  \<open>LOCAL_BIN\<close> are assigned once, when the module is loaded), the local files the
  program reads and writes (\<open>fs\<close>, from a path as \<^verbatim>\<open>pathlib\<close> writes it to the file's
  content), the lines the
  operator will type (\<open>stdin\<close>) and the \<open>trace\<close> of what the program has done to the
  outside: each external command it ran, each download it started and each line it asked
  the operator for. Printing is not modelled; where the source tells its exits apart only
  by the message it prints, the model returns a tag naming the exit.
\<close>

record cmd_result =
  returncode :: int
  stdout :: string

datatype event =
    Run "string list"
  | Urlretrieve string string
  | Input

record state =
  CERT_FILE :: string
  FRIDA_VER :: string
  FRIDA_ARCH :: string
  FRIDA_URL :: string
  AUTO_DETECT_ARCH :: bool
  LOCAL_DIR :: string
  LOCAL_XZ :: string
  LOCAL_BIN :: string
  fs :: "string \<rightharpoonup> string"
  stdin :: "string list"
  trace :: "event list"

text \<open>
  What a server answers to the download: the whole body, a body shorter than announced
  (\<^verbatim>\<open>urlretrieve\<close> writes it to the target and then raises), or no answer at all (it
  raises before the target is opened).
\<close>

datatype http_response = Body string | Short string | Unreachable

text \<open>
  An \<open>env\<close> fixes how the outside answers during one operation: which tools are on the
  path, what each command exits with and prints, what an \<^verbatim>\<open>openssl\<close> command writes to
  the file named after \<^verbatim>\<open>-out\<close> (\<open>None\<close>: nothing), what the server answers, how an
  \<^verbatim>\<open>.xz\<close> content decompresses (\<open>None\<close>: \<^verbatim>\<open>LZMAError\<close>), and whether creating the cache
  directory and renaming a file succeed; for module 3, what \<^verbatim>\<open>platform.system()\<close>
  returns and the lines of \<^verbatim>\<open>/etc/os-release\<close> (\<open>None\<close>: the file cannot be read). No
  external command writes any other local file.
\<close>

record env =
  which :: "string \<Rightarrow> bool"
  run :: "string list \<Rightarrow> cmd_result"
  written :: "string list \<Rightarrow> string option"
  http_get :: "string \<Rightarrow> http_response"
  xz_decode :: "string \<Rightarrow> string option"
  mkdir_ok :: bool
  rename_ok :: bool
  platform_system :: string
  os_release :: "string list option"

text \<open>
  Sequencing of steps that may raise: the first exception ends the sequence and is the
  result, with the state reached.
\<close>

definition and_then ::
  "('s \<Rightarrow> (error + 'a) \<times> 's) \<Rightarrow> ('a \<Rightarrow> 's \<Rightarrow> (error + 'b) \<times> 's) \<Rightarrow> 's \<Rightarrow> (error + 'b) \<times> 's" where
  "and_then m f st = (case m st of (Inl e, st') \<Rightarrow> (Inl e, st') | (Inr x, st') \<Rightarrow> f x st')"

definition return :: "'a \<Rightarrow> 's \<Rightarrow> (error + 'a) \<times> 's" where
  "return x st = (Inr x, st)"

definition check_tool :: "env \<Rightarrow> string \<Rightarrow> bool" where
  "check_tool env tool_name = which env tool_name"

text \<open>
  The file an \<^verbatim>\<open>openssl x509\<close> command writes to: its options are read from the left,
  \<^verbatim>\<open>-inform\<close>, \<^verbatim>\<open>-in\<close> and \<^verbatim>\<open>-out\<close> each taking the argument that follows, whatever it
  looks like.
\<close>

fun x509_out :: "string list \<Rightarrow> string option" where
  "x509_out (opt # arg # rest) =
     (if opt = ''-out'' then Some arg
      else if opt = ''-inform'' \<or> opt = ''-in'' then x509_out rest
      else x509_out (arg # rest))"
| "x509_out _ = None"

definition out_option :: "string list \<Rightarrow> string option" where
  "out_option cmd =
     (case cmd of
        [] \<Rightarrow> None
      | tool # args \<Rightarrow> if tool = ''openssl'' then x509_out args else None)"

text \<open>The state once the external process has run.\<close>

definition executed :: "env \<Rightarrow> string list \<Rightarrow> state \<Rightarrow> state" where
  "executed env cmd st =
     st\<lparr>trace := trace st @ [Run cmd],
        fs := (case out_option cmd of
                 None \<Rightarrow> fs st
               | Some path \<Rightarrow>
                   (case written env cmd of
                      None \<Rightarrow> fs st
                    | Some content \<Rightarrow> (fs st)(path \<mapsto> content)))\<rparr>"

text \<open>
  \<^verbatim>\<open>run_command(cmd, check)\<close>: \<^verbatim>\<open>subprocess.run\<close> raises \<^verbatim>\<open>CalledProcessError\<close> when
  \<open>check\<close> is set and the exit status is not zero, and \<^verbatim>\<open>run_command\<close> re-raises it.
\<close>

definition run_command ::
  "env \<Rightarrow> string list \<Rightarrow> bool \<Rightarrow> state \<Rightarrow> (error + cmd_result) \<times> state" where
  "run_command env cmd check st =
     (let result = run env cmd
      in if check \<and> returncode result \<noteq> 0
         then (Inl (CalledProcessError cmd (returncode result)), executed env cmd st)
         else (Inr result, executed env cmd st))"

text \<open>\<^verbatim>\<open>input(prompt)\<close>: the next line typed, \<^verbatim>\<open>EOFError\<close> when there is none.\<close>

definition input :: "state \<Rightarrow> (error + string) \<times> state" where
  "input st =
     (case stdin st of
        [] \<Rightarrow> (Inl EOFError, st\<lparr>trace := trace st @ [Input]\<rparr>)
      | line # rest \<Rightarrow> (Inr line, st\<lparr>stdin := rest, trace := trace st @ [Input]\<rparr>))"

definition show_menu :: "state \<Rightarrow> (error + string) \<times> state" where
  "show_menu = and_then input (\<lambda>line. return (py_strip line))"

section \<open>Module 2: device selection and deployment\<close>

definition choose_device :: "env \<Rightarrow> state \<Rightarrow> (error + string list) \<times> state" where
  "choose_device env =
     and_then (run_command env [''adb'', ''devices''] True) (\<lambda>result.
       let devices = parse_devices (stdout result)
       in if devices = [] then return []
          else and_then input (\<lambda>line st. (select_devices devices (py_strip line), st)))"

definition REMOTE_BIN :: string where
  "REMOTE_BIN = ''/data/local/tmp/frida-server''"

definition frida_url :: "string \<Rightarrow> string \<Rightarrow> string" where
  "frida_url ver arch =
     ''https://github.com/frida/frida/releases/download/'' @ ver
       @ ''/frida-server-'' @ ver @ ''-'' @ arch @ ''.xz''"

definition xz_name :: "string \<Rightarrow> string \<Rightarrow> string" where
  "xz_name ver arch = ''frida-server-'' @ ver @ ''-'' @ arch @ ''.xz''"

text \<open>\<^verbatim>\<open>directory / name\<close> of \<^verbatim>\<open>pathlib\<close>, for a relative \<open>name\<close> (POSIX separator).\<close>

definition path_join :: "string \<Rightarrow> string \<Rightarrow> string" where
  "path_join directory name = directory @ ''/'' @ name"

definition sq :: string where
  "sq = [CHR 0x27]"

definition adb_shell :: "string \<Rightarrow> string \<Rightarrow> string list" where
  "adb_shell serial script = [''adb'', ''-s'', serial, ''shell'', script]"

definition getprop_cmd :: "string \<Rightarrow> string list" where
  "getprop_cmd serial = [''adb'', ''-s'', serial, ''shell'', ''getprop'', ''ro.product.cpu.abi'']"

definition push_cmd :: "string \<Rightarrow> string \<Rightarrow> string list" where
  "push_cmd serial local_bin = [''adb'', ''-s'', serial, ''push'', local_bin, REMOTE_BIN]"

definition chmod_cmd :: "string \<Rightarrow> string list" where
  "chmod_cmd serial = adb_shell serial (''chmod 755 '' @ sq @ REMOTE_BIN @ sq)"

definition kill_su_cmd :: "string \<Rightarrow> string list" where
  "kill_su_cmd serial = adb_shell serial (''su -c '' @ sq @ ''pkill -f '' @ REMOTE_BIN @ sq)"

definition kill_cmd :: "string \<Rightarrow> string list" where
  "kill_cmd serial = adb_shell serial (''pkill -f '' @ REMOTE_BIN)"

definition setenforce_cmd :: "string \<Rightarrow> string list" where
  "setenforce_cmd serial = adb_shell serial (''su -c '' @ sq @ ''setenforce 0'' @ sq)"

definition root_cmd :: "string \<Rightarrow> string list" where
  "root_cmd serial = [''adb'', ''-s'', serial, ''root'']"

definition launch_su_cmd :: "string \<Rightarrow> string list" where
  "launch_su_cmd serial =
     adb_shell serial (''su -c '' @ sq @ ''nohup '' @ REMOTE_BIN @ '' >/dev/null 2>&1 &'' @ sq)"

definition launch_cmd :: "string \<Rightarrow> string list" where
  "launch_cmd serial = adb_shell serial (''nohup '' @ REMOTE_BIN @ '' >/dev/null 2>&1 &'')"

definition ps_cmd :: "string \<Rightarrow> string list" where
  "ps_cmd serial = adb_shell serial ''ps -A | grep -i frida-server''"

text \<open>
  How one call of \<^verbatim>\<open>setup_frida_server\<close> ended when it returned: at the \<^verbatim>\<open>return\<close> of
  the download handler, of the extraction handler or of the failed push, or at the end,
  with the process list either empty (\<open>Unverified\<close>) or printed (\<open>Verified\<close>).
\<close>

datatype attempt =
    DownloadFailed
  | ExtractFailed
  | PushFailed
  | Unverified
  | Verified string

text \<open>
  Lines 294 to 312: with \<open>auto_detect\<close> the three globals are reassigned from the
  device's ABI; without it the branch only prints a warning.
\<close>

definition resolve_arch :: "bool \<Rightarrow> string \<Rightarrow> state \<Rightarrow> state" where
  "resolve_arch auto_detect device_abi st =
     (if auto_detect
      then (let st1 = st\<lparr>FRIDA_ARCH := map_abi_to_frida_arch device_abi\<rparr>;
                st2 = st1\<lparr>FRIDA_URL := frida_url (FRIDA_VER st1) (FRIDA_ARCH st1)\<rparr>
            in st2\<lparr>LOCAL_XZ := path_join (LOCAL_DIR st2) (xz_name (FRIDA_VER st2) (FRIDA_ARCH st2))\<rparr>)
      else st)"

text \<open>
  Lines 318 to 322, \<^verbatim>\<open>urllib.request.urlretrieve(FRIDA_URL, LOCAL_XZ)\<close> in its \<^verbatim>\<open>try\<close>:
  the target is opened for writing, so what was there is replaced. The result says
  whether the download succeeded.
\<close>

definition download :: "env \<Rightarrow> state \<Rightarrow> bool \<times> state" where
  "download env st =
     (let st1 = st\<lparr>trace := trace st @ [Urlretrieve (FRIDA_URL st) (LOCAL_XZ st)]\<rparr>
      in case http_get env (FRIDA_URL st) of
           Body content \<Rightarrow> (True, st1\<lparr>fs := (fs st1)(LOCAL_XZ st \<mapsto> content)\<rparr>)
         | Short content \<Rightarrow> (False, st1\<lparr>fs := (fs st1)(LOCAL_XZ st \<mapsto> content)\<rparr>)
         | Unreachable \<Rightarrow> (False, st1))"

text \<open>
  Lines 326 to 336: \<^verbatim>\<open>lzma.open\<close> fails on a missing file; \<^verbatim>\<open>open(LOCAL_BIN, 'wb')\<close>
  empties the target before \<^verbatim>\<open>f_in.read()\<close> decompresses, so a content that does not
  decompress leaves the target empty. File modes (\<^verbatim>\<open>chmod(0o755)\<close>) are not modelled.
\<close>

definition extract_xz :: "env \<Rightarrow> state \<Rightarrow> bool \<times> state" where
  "extract_xz env st =
     (case fs st (LOCAL_XZ st) of
        None \<Rightarrow> (False, st)
      | Some content \<Rightarrow>
          (case xz_decode env content of
             None \<Rightarrow> (False, st\<lparr>fs := (fs st)(LOCAL_BIN st \<mapsto> [])\<rparr>)
           | Some binary \<Rightarrow> (True, st\<lparr>fs := (fs st)(LOCAL_BIN st \<mapsto> binary)\<rparr>)))"

text \<open>Lines 345 to 377: every command runs with \<^verbatim>\<open>check=False\<close>.\<close>

definition start_server :: "env \<Rightarrow> string \<Rightarrow> state \<Rightarrow> (error + attempt) \<times> state" where
  "start_server env serial =
     and_then (run_command env (chmod_cmd serial) False) (\<lambda>_.
     and_then (run_command env (kill_su_cmd serial) False) (\<lambda>_.
     and_then (run_command env (kill_cmd serial) False) (\<lambda>_.
     and_then (run_command env (setenforce_cmd serial) False) (\<lambda>_.
     and_then (run_command env (root_cmd serial) False) (\<lambda>_.
     and_then (run_command env (launch_su_cmd serial) False) (\<lambda>result.
     and_then (if returncode result \<noteq> 0
               then run_command env (launch_cmd serial) False
               else return result) (\<lambda>_.
     and_then (run_command env (ps_cmd serial) False) (\<lambda>result.
       if returncode result \<noteq> 0 then return Unverified
       else if py_strip (stdout result) = [] then return Unverified
       else return (Verified (py_strip (stdout result)))))))))))"

definition setup_frida_server ::
  "env \<Rightarrow> string \<Rightarrow> bool \<Rightarrow> state \<Rightarrow> (error + attempt) \<times> state" where
  "setup_frida_server env serial auto_detect =
     and_then (run_command env (getprop_cmd serial) True) (\<lambda>result st.
       let st1 = resolve_arch auto_detect (py_strip (stdout result)) st
       in if \<not> mkdir_ok env then (Inl OSError, st1)
          else (case download env st1 of
                  (False, st2) \<Rightarrow> (Inr DownloadFailed, st2)
                | (True, st2) \<Rightarrow>
                    (case extract_xz env st2 of
                       (False, st3) \<Rightarrow> (Inr ExtractFailed, st3)
                     | (True, st3) \<Rightarrow>
                         and_then (run_command env (push_cmd serial (LOCAL_BIN st3)) False)
                           (\<lambda>result.
                              if returncode result \<noteq> 0 then return PushFailed
                              else start_server env serial) st3)))"

text \<open>
  The loop of \<^verbatim>\<open>run_frida_server\<close> over the selected devices; \<open>AUTO_DETECT_ARCH\<close> is read
  at each iteration.
\<close>

fun deploy_all :: "env \<Rightarrow> string list \<Rightarrow> state \<Rightarrow> (error + unit) \<times> state" where
  "deploy_all env [] st = (Inr (), st)"
| "deploy_all env (serial # rest) st =
     (case setup_frida_server env serial (AUTO_DETECT_ARCH st) st of
        (Inl e, st1) \<Rightarrow> (Inl e, st1)
      | (Inr _, st1) \<Rightarrow>
          (if check_tool env ''frida-ps''
           then (case run_command env [''frida-ps'', ''-D'', serial] False st1 of
                   (Inl e, st2) \<Rightarrow> (Inl e, st2)
                 | (Inr _, st2) \<Rightarrow> deploy_all env rest st2)
           else deploy_all env rest st1))"

definition run_frida_server :: "env \<Rightarrow> state \<Rightarrow> (error + unit) \<times> state" where
  "run_frida_server env st =
     (if \<not> check_tool env ''adb'' then (Inr (), st)
      else and_then (choose_device env) (\<lambda>selected.
             if selected = [] then return () else deploy_all env selected) st)"

section \<open>Module 1: certificate push\<close>

text \<open>
  The program handles the certificate and the hash-named file through \<^verbatim>\<open>Path\<close> objects:
  \<^verbatim>\<open>cert_path = Path(CERT_FILE)\<close> and \<^verbatim>\<open>hash_path = Path(hash_name)\<close>. What it tests,
  renames and removes is the file at \<open>path_str\<close> of the string, and the command lines
  carry \<^verbatim>\<open>str(cert_path)\<close> and \<^verbatim>\<open>str(hash_path)\<close>; the remote name of the push is built
  from \<^verbatim>\<open>hash_name\<close> itself. \<^verbatim>\<open>Path("temp.pem")\<close> is written as it is.
\<close>

definition DEVICE_CERT_DIR :: string where
  "DEVICE_CERT_DIR = ''/system/etc/security/cacerts''"

definition temp_pem :: string where
  "temp_pem = ''temp.pem''"

definition der_cmd :: "string \<Rightarrow> string list" where
  "der_cmd cert_file =
     [''openssl'', ''x509'', ''-inform'', ''DER'', ''-in'', path_str cert_file, ''-out'', temp_pem]"

definition pem_cmd :: "string \<Rightarrow> string list" where
  "pem_cmd cert_file =
     [''openssl'', ''x509'', ''-inform'', ''PEM'', ''-in'', path_str cert_file, ''-out'', temp_pem]"

definition hash_cmd :: "string list" where
  "hash_cmd = [''openssl'', ''x509'', ''-inform'', ''PEM'', ''-subject_hash_old'', ''-in'', temp_pem]"

definition cert_push_cmd :: "string \<Rightarrow> string list" where
  "cert_push_cmd hash_name =
     [''adb'', ''push'', path_str hash_name, DEVICE_CERT_DIR @ ''/'' @ hash_name]"

definition cert_chmod_cmd :: "string \<Rightarrow> string list" where
  "cert_chmod_cmd hash_name = [''adb'', ''shell'', ''chmod 644 '' @ DEVICE_CERT_DIR @ ''/'' @ hash_name]"

text \<open>\<^verbatim>\<open>path.unlink()\<close> guarded by \<^verbatim>\<open>path.exists()\<close>.\<close>

definition unlink_if_exists :: "string \<Rightarrow> state \<Rightarrow> state" where
  "unlink_if_exists path st = (if fs st path \<noteq> None then st\<lparr>fs := (fs st)(path := None)\<rparr> else st)"

text \<open>
  \<^verbatim>\<open>temp_pem.rename(hash_path)\<close>: raises when the source is missing or the system
  refuses; otherwise the content moves to the new name, replacing what was there.
\<close>

definition rename :: "env \<Rightarrow> string \<Rightarrow> string \<Rightarrow> state \<Rightarrow> (error + unit) \<times> state" where
  "rename env src dst st =
     (case fs st src of
        None \<Rightarrow> (Inl OSError, st)
      | Some content \<Rightarrow>
          if rename_ok env
          then (Inr (), st\<lparr>fs := ((fs st)(src := None))(dst \<mapsto> content)\<rparr>)
          else (Inl OSError, st))"

text \<open>
  Lines 189 to 210, up to the assignment of \<^verbatim>\<open>hash_name\<close>: the DER conversion with
  \<^verbatim>\<open>check=False\<close>, the PEM conversion with the default \<^verbatim>\<open>check=True\<close> when the first
  exits non-zero, and the hash, the first line of the stripped output followed by \<^verbatim>\<open>.0\<close>.
\<close>

definition convert_cert :: "env \<Rightarrow> state \<Rightarrow> (error + string) \<times> state" where
  "convert_cert env st =
     and_then (run_command env (der_cmd (CERT_FILE st)) False) (\<lambda>result.
     and_then (if returncode result \<noteq> 0
               then run_command env (pem_cmd (CERT_FILE st)) True
               else return result) (\<lambda>_.
     and_then (run_command env hash_cmd True) (\<lambda>result.
       return (hd (py_split_on (CHR 0x0A) (py_strip (stdout result))) @ ''.0'')))) st"

text \<open>Lines 213 to 236, which run with \<^verbatim>\<open>hash_name\<close> bound.\<close>

definition install_cert :: "env \<Rightarrow> string \<Rightarrow> state \<Rightarrow> (error + unit) \<times> state" where
  "install_cert env hash_name =
     and_then (rename env temp_pem (path_str hash_name)) (\<lambda>_.
     and_then (run_command env [''adb'', ''root''] False) (\<lambda>_.
     and_then (run_command env [''adb'', ''remount''] False) (\<lambda>_.
     and_then (run_command env (cert_push_cmd hash_name) True) (\<lambda>_.
     and_then (run_command env (cert_chmod_cmd hash_name) True) (\<lambda>_.
     and_then (\<lambda>st. (Inr (), unlink_if_exists (path_str hash_name) st)) (\<lambda>_.
     and_then (run_command env [''adb'', ''reboot''] True) (\<lambda>_.
       return ())))))))"

text \<open>
  The handler of \<^verbatim>\<open>except Exception\<close>: it removes \<^verbatim>\<open>temp.pem\<close>, and the file at
  \<^verbatim>\<open>Path(hash_name)\<close> when that local is bound.
\<close>

definition cleanup :: "string option \<Rightarrow> state \<Rightarrow> state" where
  "cleanup hash_name st =
     (let st1 = unlink_if_exists temp_pem st
      in case hash_name of None \<Rightarrow> st1 | Some name \<Rightarrow> unlink_if_exists (path_str name) st1)"

datatype cert_outcome =
    NoAdb
  | NoOpenssl
  | NoCertFile
  | CertFailed error
  | CertInstalled

text \<open>
  \<^verbatim>\<open>push_burp_cert\<close>, in a run that the operator does not interrupt: every exception
  that a step raises is then an \<^verbatim>\<open>Exception\<close>, and the handler catches it. The one \<^verbatim>\<open>try\<close>
  of the source is written as two, split where \<^verbatim>\<open>hash_name\<close> becomes bound, so that each
  handler knows what the source's handler reads from \<^verbatim>\<open>locals()\<close>.
\<close>

definition push_burp_cert :: "env \<Rightarrow> state \<Rightarrow> cert_outcome \<times> state" where
  "push_burp_cert env st =
     (if \<not> check_tool env ''adb'' then (NoAdb, st)
      else if \<not> check_tool env ''openssl'' then (NoOpenssl, st)
      else if fs st (path_str (CERT_FILE st)) = None then (NoCertFile, st)
      else (case convert_cert env st of
              (Inl e, st1) \<Rightarrow> (CertFailed e, cleanup None st1)
            | (Inr hash_name, st1) \<Rightarrow>
                (case install_cert env hash_name st1 of
                   (Inl e, st2) \<Rightarrow> (CertFailed e, cleanup (Some hash_name) st2)
                 | (Inr _, st2) \<Rightarrow> (CertInstalled, st2))))"

section \<open>Module 1 under an operator interrupt\<close>

text \<open>
  The operator can press Ctrl-C while the program waits for an external command:
  \<^verbatim>\<open>subprocess.run\<close> then raises \<^verbatim>\<open>KeyboardInterrupt\<close>, which the handler of
  \<^verbatim>\<open>run_command\<close> (for \<^verbatim>\<open>CalledProcessError\<close>) lets pass whatever \<open>check\<close> is. \<open>irq cmd\<close>
  says that the operator interrupts the command \<open>cmd\<close>. The interrupted command has been
  started, and is taken to have written nothing. An interrupt during \<^verbatim>\<open>time.sleep(1)\<close>
  leaves the files as an interrupt of the command that follows it does.
\<close>

definition begun :: "string list \<Rightarrow> state \<Rightarrow> state" where
  "begun cmd st = st\<lparr>trace := trace st @ [Run cmd]\<rparr>"

definition run_command_irq ::
  "(string list \<Rightarrow> bool) \<Rightarrow> env \<Rightarrow> string list \<Rightarrow> bool \<Rightarrow> state
     \<Rightarrow> (error + cmd_result) \<times> state" where
  "run_command_irq irq env cmd check st =
     (if irq cmd then (Inl KeyboardInterrupt, begun cmd st)
      else run_command env cmd check st)"

text \<open>Lines 189 to 210 and lines 213 to 236 again, each command open to the interrupt.\<close>

definition convert_cert_irq ::
  "(string list \<Rightarrow> bool) \<Rightarrow> env \<Rightarrow> state \<Rightarrow> (error + string) \<times> state" where
  "convert_cert_irq irq env st =
     and_then (run_command_irq irq env (der_cmd (CERT_FILE st)) False) (\<lambda>result.
     and_then (if returncode result \<noteq> 0
               then run_command_irq irq env (pem_cmd (CERT_FILE st)) True
               else return result) (\<lambda>_.
     and_then (run_command_irq irq env hash_cmd True) (\<lambda>result.
       return (hd (py_split_on (CHR 0x0A) (py_strip (stdout result))) @ ''.0'')))) st"

definition install_cert_irq ::
  "(string list \<Rightarrow> bool) \<Rightarrow> env \<Rightarrow> string \<Rightarrow> state \<Rightarrow> (error + unit) \<times> state" where
  "install_cert_irq irq env hash_name =
     and_then (rename env temp_pem (path_str hash_name)) (\<lambda>_.
     and_then (run_command_irq irq env [''adb'', ''root''] False) (\<lambda>_.
     and_then (run_command_irq irq env [''adb'', ''remount''] False) (\<lambda>_.
     and_then (run_command_irq irq env (cert_push_cmd hash_name) True) (\<lambda>_.
     and_then (run_command_irq irq env (cert_chmod_cmd hash_name) True) (\<lambda>_.
     and_then (\<lambda>st. (Inr (), unlink_if_exists (path_str hash_name) st)) (\<lambda>_.
     and_then (run_command_irq irq env [''adb'', ''reboot''] True) (\<lambda>_.
       return ())))))))"

text \<open>
  \<^verbatim>\<open>push_burp_cert\<close> with its handler as it is written, \<^verbatim>\<open>except Exception\<close>: an
  exception that is not an \<^verbatim>\<open>Exception\<close> leaves the function, past the handler and its
  removal of the temporary files. The result is \<open>Inl\<close> when the function is left by an
  exception and \<open>Inr\<close> when it returns.
\<close>

definition push_burp_cert_irq ::
  "(string list \<Rightarrow> bool) \<Rightarrow> env \<Rightarrow> state \<Rightarrow> (error + cert_outcome) \<times> state" where
  "push_burp_cert_irq irq env st =
     (if \<not> check_tool env ''adb'' then (Inr NoAdb, st)
      else if \<not> check_tool env ''openssl'' then (Inr NoOpenssl, st)
      else if fs st (path_str (CERT_FILE st)) = None then (Inr NoCertFile, st)
      else (case convert_cert_irq irq env st of
              (Inl e, st1) \<Rightarrow>
                if is_exception e then (Inr (CertFailed e), cleanup None st1)
                else (Inl e, st1)
            | (Inr hash_name, st1) \<Rightarrow>
                (case install_cert_irq irq env hash_name st1 of
                   (Inl e, st2) \<Rightarrow>
                     if is_exception e then (Inr (CertFailed e), cleanup (Some hash_name) st2)
                     else (Inl e, st2)
                 | (Inr _, st2) \<Rightarrow> (Inr CertInstalled, st2))))"

section \<open>Module 3: tool installation\<close>

text \<open>
  \<^verbatim>\<open>detect_os\<close>: the loop over the lines of \<^verbatim>\<open>/etc/os-release\<close> stops at the first line that
  starts with \<^verbatim>\<open>ID=\<close>; the bare \<^verbatim>\<open>except\<close> turns every failure into the name \<^verbatim>\<open>unknown\<close>.
\<close>

fun os_release_id :: "string list \<Rightarrow> string" where
  "os_release_id [] = []"
| "os_release_id (line # lines) =
     (if take 3 line = ''ID=''
      then (case py_split_on (CHR ''='') line of
              _ # v # _ \<Rightarrow> strip_quotes (py_strip v)
            | _ \<Rightarrow> ''unknown'')
      else os_release_id lines)"

definition detect_os :: "env \<Rightarrow> string \<times> string" where
  "detect_os env =
     (let os_type = platform_system env
      in (os_type,
          if os_type = ''Linux''
          then (case os_release env of None \<Rightarrow> ''unknown'' | Some lines \<Rightarrow> os_release_id lines)
          else []))"

definition check_package_manager :: "env \<Rightarrow> string \<Rightarrow> bool" where
  "check_package_manager env manager = check_tool env manager"

text \<open>The question \<^verbatim>\<open>(y/n)\<close>: \<^verbatim>\<open>input(...).strip().lower() == 'y'\<close>.\<close>

definition ask_install :: "state \<Rightarrow> (error + bool) \<times> state" where
  "ask_install = and_then input (\<lambda>line. return (py_lower (py_strip line) = ''y''))"

text \<open>
  The two installations that every branch ends with, each for the tool that is missing
  and each with \<^verbatim>\<open>check=False\<close>.
\<close>

definition install_missing ::
  "env \<Rightarrow> bool \<Rightarrow> bool \<Rightarrow> string list \<Rightarrow> string list \<Rightarrow> state \<Rightarrow> (error + unit) \<times> state" where
  "install_missing env adb_installed openssl_installed adb_cmd openssl_cmd =
     and_then (if \<not> adb_installed
               then and_then (run_command env adb_cmd False) (\<lambda>_. return ())
               else return ()) (\<lambda>_.
       if \<not> openssl_installed
       then and_then (run_command env openssl_cmd False) (\<lambda>_. return ())
       else return ())"

text \<open>
  \<^verbatim>\<open>install_tools\<close>. It assigns no global. On Windows the package manager used is the
  first of \<^verbatim>\<open>choco\<close>, \<^verbatim>\<open>scoop\<close> and \<^verbatim>\<open>winget\<close> that is installed; on Debian and Ubuntu the
  package list is updated whichever tool is missing.
\<close>

definition install_tools :: "env \<Rightarrow> state \<Rightarrow> (error + unit) \<times> state" where
  "install_tools env st =
     (let os_type = fst (detect_os env);
          os_name = snd (detect_os env);
          adb_installed = check_tool env ''adb'';
          openssl_installed = check_tool env ''openssl'';
          missing = install_missing env adb_installed openssl_installed
      in if adb_installed \<and> openssl_installed then return () st
         else if os_type = ''Windows''
         then (case filter (check_package_manager env) [''choco'', ''scoop'', ''winget''] of
                 [] \<Rightarrow> return () st
               | cmd # _ \<Rightarrow>
                   and_then ask_install (\<lambda>yes.
                     if \<not> yes then return ()
                     else if cmd = ''choco''
                     then missing [''choco'', ''install'', ''adb'', ''-y'']
                            [''choco'', ''install'', ''openssl'', ''-y'']
                     else if cmd = ''scoop''
                     then missing [''scoop'', ''install'', ''adb'']
                            [''scoop'', ''install'', ''openssl'']
                     else if cmd = ''winget''
                     then missing [''winget'', ''install'', ''Google.AndroidStudio.PlatformTools'']
                            [''winget'', ''install'', ''OpenSSL.Light'']
                     else return ()) st)
         else if os_type = ''Darwin''
         then (if check_package_manager env ''brew''
               then and_then ask_install (\<lambda>yes.
                      if \<not> yes then return ()
                      else missing [''brew'', ''install'', ''android-platform-tools'']
                             [''brew'', ''install'', ''openssl'']) st
               else return () st)
         else if os_type = ''Linux''
         then (if os_name \<in> set [''ubuntu'', ''debian'']
               then and_then ask_install (\<lambda>yes.
                      if \<not> yes then return ()
                      else and_then (run_command env [''sudo'', ''apt-get'', ''update''] False) (\<lambda>_.
                             missing [''sudo'', ''apt-get'', ''install'', ''-y'', ''adb'']
                               [''sudo'', ''apt-get'', ''install'', ''-y'', ''openssl''])) st
               else if os_name \<in> set [''fedora'', ''rhel'', ''centos'']
               then and_then ask_install (\<lambda>yes.
                      if \<not> yes then return ()
                      else missing [''sudo'', ''yum'', ''install'', ''-y'', ''android-tools'']
                             [''sudo'', ''yum'', ''install'', ''-y'', ''openssl'']) st
               else if os_name \<in> set [''arch'', ''manjaro'']
               then and_then ask_install (\<lambda>yes.
                      if \<not> yes then return ()
                      else missing [''sudo'', ''pacman'', ''-S'', ''--noconfirm'', ''android-tools'']
                             [''sudo'', ''pacman'', ''-S'', ''--noconfirm'', ''openssl'']) st
               else return () st)
         else return () st)"

section \<open>Start-up and menu\<close>

record args =
  frida_version :: string
  frida_arch :: "string option"
  cert_file :: string
  auto_detect_arch :: bool

text \<open>
  Lines 666 to 689 of \<^verbatim>\<open>main\<close>: validation and the assignment of the globals. The
  first component is the status of \<^verbatim>\<open>sys.exit(1)\<close> when a validation fails. An
  architecture that is absent or the empty string is falsy and takes the \<^verbatim>\<open>else\<close>
  branch.
\<close>

definition configure :: "args \<Rightarrow> state \<Rightarrow> int option \<times> state" where
  "configure a st =
     (if \<not> validate_frida_version (frida_version a) then (Some 1, st)
      else
        (let st1 = st\<lparr>CERT_FILE := cert_file a, FRIDA_VER := frida_version a,
                       AUTO_DETECT_ARCH := auto_detect_arch a\<rparr>;
             explicit = (case frida_arch a of None \<Rightarrow> [] | Some arch \<Rightarrow> arch)
         in if explicit \<noteq> [] \<and> \<not> validate_frida_arch explicit then (Some 1, st1)
            else
              (let st2 = (if explicit \<noteq> [] then st1\<lparr>FRIDA_ARCH := explicit\<rparr>
                          else if \<not> auto_detect_arch a
                          then st1\<lparr>FRIDA_ARCH := ''android-arm64'', AUTO_DETECT_ARCH := True\<rparr>
                          else st1\<lparr>FRIDA_ARCH := ''android-arm64''\<rparr>);
                   st3 = st2\<lparr>FRIDA_URL := frida_url (FRIDA_VER st2) (FRIDA_ARCH st2)\<rparr>
               in (None, st3\<lparr>LOCAL_XZ :=
                     path_join (LOCAL_DIR st3) (xz_name (FRIDA_VER st3) (FRIDA_ARCH st3))\<rparr>))))"

text \<open>
  The menu of \<^verbatim>\<open>main\<close>, inside its \<^verbatim>\<open>try\<close>. \<open>irq\<close> is the operator's interrupt of
  module 1; modules 2 and 3 are modelled for runs that the operator does not interrupt.
\<close>

definition dispatch ::
  "(string list \<Rightarrow> bool) \<Rightarrow> env \<Rightarrow> state \<Rightarrow> (error + unit) \<times> state" where
  "dispatch irq env =
     and_then show_menu (\<lambda>choice.
       if choice = ''1'' then and_then (push_burp_cert_irq irq env) (\<lambda>_. return ())
       else if choice = ''2'' then run_frida_server env
       else if choice = ''3'' then install_tools env
       else return ())"

text \<open>
  \<^verbatim>\<open>main\<close>, with the status the process exits with. Its two handlers,
  \<^verbatim>\<open>except KeyboardInterrupt\<close> and \<^verbatim>\<open>except Exception\<close>, print what a module raised, and
  \<^verbatim>\<open>main\<close> returns: the status is 0 however the module ended.
\<close>

definition main :: "(string list \<Rightarrow> bool) \<Rightarrow> env \<Rightarrow> args \<Rightarrow> state \<Rightarrow> int \<times> state" where
  "main irq env a st =
     (case configure a st of
        (Some status, st1) \<Rightarrow> (status, st1)
      | (None, st1) \<Rightarrow> (0, snd (dispatch irq env st1)))"

section \<open>Vocabulary of the properties\<close>

text \<open>
  The globals that no operation after start-up assigns, and the three that
  \<^verbatim>\<open>setup_frida_server\<close> declares \<^verbatim>\<open>global\<close> and assigns when it detects the architecture.
\<close>

definition fixed_config :: "state \<Rightarrow> string \<times> string \<times> bool \<times> string \<times> string" where
  "fixed_config st = (CERT_FILE st, FRIDA_VER st, AUTO_DETECT_ARCH st, LOCAL_DIR st, LOCAL_BIN st)"

definition arch_config :: "state \<Rightarrow> string \<times> string \<times> string" where
  "arch_config st = (FRIDA_ARCH st, FRIDA_URL st, LOCAL_XZ st)"

definition config ::
  "state \<Rightarrow> (string \<times> string \<times> bool \<times> string \<times> string) \<times> (string \<times> string \<times> string)" where
  "config st = (fixed_config st, arch_config st)"

text \<open>
  The URL and the path of the compressed artifact are the ones derived from the version
  and the architecture in use.
\<close>

definition keyed :: "state \<Rightarrow> bool" where
  "keyed st =
     (FRIDA_URL st = frida_url (FRIDA_VER st) (FRIDA_ARCH st) \<and>
      LOCAL_XZ st = path_join (LOCAL_DIR st) (xz_name (FRIDA_VER st) (FRIDA_ARCH st)))"

text \<open>
  The architecture that the start-up code takes from the arguments: the one given, or
  \<^verbatim>\<open>android-arm64\<close> when none is given.
\<close>

definition chosen_arch :: "args \<Rightarrow> string" where
  "chosen_arch a =
     (case frida_arch a of
        None \<Rightarrow> ''android-arm64''
      | Some arch \<Rightarrow> if arch = [] then ''android-arm64'' else arch)"

text \<open>What an operation that took \<open>st\<close> to \<open>st'\<close> added to the trace.\<close>

definition new_events :: "state \<Rightarrow> state \<Rightarrow> event list" where
  "new_events st st' = drop (length (trace st)) (trace st')"

text \<open>How often the download function has been invoked so far.\<close>

definition is_download :: "event \<Rightarrow> bool" where
  "is_download e = (case e of Urlretrieve _ _ \<Rightarrow> True | _ \<Rightarrow> False)"

definition downloads :: "state \<Rightarrow> nat" where
  "downloads st = length (filter is_download (trace st))"

text \<open>
  Names for intermediate states of \<^verbatim>\<open>setup_frida_server\<close>: after the ABI query and
  lines 294 to 312 (\<open>resolved\<close>), and after lines 345 to 373 (\<open>started\<close>); and the
  result of lines 374 to 377 (\<open>verdict\<close>).
\<close>

definition resolved :: "env \<Rightarrow> string \<Rightarrow> bool \<Rightarrow> state \<Rightarrow> state" where
  "resolved env serial auto_detect st =
     resolve_arch auto_detect (py_strip (stdout (run env (getprop_cmd serial))))
       (executed env (getprop_cmd serial) st)"

definition started :: "env \<Rightarrow> string \<Rightarrow> state \<Rightarrow> state" where
  "started env serial st =
     (let st1 = executed env (launch_su_cmd serial) (executed env (root_cmd serial)
                  (executed env (setenforce_cmd serial) (executed env (kill_cmd serial)
                  (executed env (kill_su_cmd serial) (executed env (chmod_cmd serial) st)))));
          st2 = (if returncode (run env (launch_su_cmd serial)) \<noteq> 0
                 then executed env (launch_cmd serial) st1 else st1)
      in executed env (ps_cmd serial) st2)"

definition verdict :: "cmd_result \<Rightarrow> attempt" where
  "verdict result =
     (if returncode result \<noteq> 0 then Unverified
      else if py_strip (stdout result) = [] then Unverified
      else Verified (py_strip (stdout result)))"

section \<open>Concrete environments\<close>

text \<open>
  The state when the module has been loaded from \<^verbatim>\<open>/home/user/android-tools\<close> (the
  globals that are \<^verbatim>\<open>None\<close> there are empty) with the certificate \<^verbatim>\<open>burp.cer\<close> in the
  working directory, the default arguments, and the state that \<^verbatim>\<open>main\<close> configures from
  them.
\<close>

definition st_loaded :: state where
  "st_loaded =
     \<lparr>CERT_FILE = [], FRIDA_VER = [], FRIDA_ARCH = [], FRIDA_URL = [],
      AUTO_DETECT_ARCH = False, LOCAL_DIR = ''/home/user/tmp'', LOCAL_XZ = [],
      LOCAL_BIN = ''/home/user/tmp/frida-server'',
      fs = [''burp.cer'' \<mapsto> ''DER''], stdin = [], trace = []\<rparr>"

definition args_default :: args where
  "args_default =
     \<lparr>frida_version = ''17.5.2'', frida_arch = None, cert_file = ''./burp.cer'',
      auto_detect_arch = False\<rparr>"

definition st_default :: state where
  "st_default =
     \<lparr>CERT_FILE = ''./burp.cer'', FRIDA_VER = ''17.5.2'', FRIDA_ARCH = ''android-arm64'',
      FRIDA_URL = frida_url ''17.5.2'' ''android-arm64'',
      AUTO_DETECT_ARCH = True, LOCAL_DIR = ''/home/user/tmp'',
      LOCAL_XZ = path_join ''/home/user/tmp'' (xz_name ''17.5.2'' ''android-arm64''),
      LOCAL_BIN = ''/home/user/tmp/frida-server'',
      fs = [''burp.cer'' \<mapsto> ''DER''], stdin = [], trace = []\<rparr>"

text \<open>
  The loaded state with the lines that the operator is going to type, and the arguments
  that name the architecture \<^verbatim>\<open>android-x86\<close>.
\<close>

definition typing :: "string list \<Rightarrow> state" where
  "typing lines = st_loaded\<lparr>stdin := lines\<rparr>"

definition args_x86 :: args where
  "args_x86 = args_default\<lparr>frida_arch := Some ''android-x86''\<rparr>"

text \<open>The operator who interrupts nothing, and the one who interrupts the command \<open>cmd\<close>.\<close>

definition no_interrupt :: "string list \<Rightarrow> bool" where
  "no_interrupt c = False"

definition during :: "string list \<Rightarrow> string list \<Rightarrow> bool" where
  "during cmd c = (c = cmd)"

text \<open>The configured state with both forms of the artifact already in the cache.\<close>

definition st_cached :: state where
  "st_cached =
     st_default\<lparr>fs := (fs st_default)(LOCAL_XZ st_default \<mapsto> ''xz-17.5.2-arm64'',
                                         LOCAL_BIN st_default \<mapsto> ''elf-17.5.2-arm64'')\<rparr>"

text \<open>
  An environment in which every tool is installed, the server answers each URL with a
  body (the URL itself, so that the bodies of two artifacts differ), every content
  decompresses to itself, and \<^verbatim>\<open>openssl\<close> writes its output file; the commands answer as
  \<open>r\<close> says. The system is an Ubuntu.
\<close>

definition reply :: "int \<Rightarrow> string \<Rightarrow> cmd_result" where
  "reply code out = \<lparr>returncode = code, stdout = out\<rparr>"

definition env_of :: "(string list \<Rightarrow> cmd_result) \<Rightarrow> env" where
  "env_of r =
     \<lparr>which = (\<lambda>_. True), run = r, written = (\<lambda>_. Some ''PEM''),
      http_get = (\<lambda>url. Body url), xz_decode = (\<lambda>content. Some content),
      mkdir_ok = True, rename_ok = True, platform_system = ''Linux'',
      os_release = Some [''NAME=Ubuntu\<newline>'', ''ID=ubuntu\<newline>'']\<rparr>"

text \<open>
  An unrooted device: the ABI query and the push succeed, every other command exits
  with status 1 and prints nothing.
\<close>

definition env_unrooted :: env where
  "env_unrooted =
     env_of (\<lambda>cmd.
       if cmd = getprop_cmd ''emulator-5554'' then reply 0 ''x86_64\<newline>''
       else if cmd = push_cmd ''emulator-5554'' ''/home/user/tmp/frida-server'' then reply 0 []
       else reply 1 [])"

text \<open>Two healthy devices of different architectures; every command exits with 0.\<close>

definition env_two :: env where
  "env_two =
     env_of (\<lambda>cmd.
       if cmd = getprop_cmd ''emulator-5554'' then reply 0 ''x86\<newline>''
       else if cmd = getprop_cmd ''R58N'' then reply 0 ''arm64-v8a\<newline>''
       else reply 0 [])"

text \<open>
  The states after one deployment from the default configuration, to the \<^verbatim>\<open>arm64-v8a\<close>
  device and to the \<^verbatim>\<open>x86\<close> device.
\<close>

definition st_arm64 :: state where
  "st_arm64 = snd (setup_frida_server env_two ''R58N'' True st_default)"

definition st_x86 :: state where
  "st_x86 = snd (setup_frida_server env_two ''emulator-5554'' True st_default)"

text \<open>
  Certificate tools: \<open>env_not_a_cert\<close> rejects the input in both formats;
  \<open>env_no_hash\<close> converts it and then fails to hash it; \<open>env_no_push\<close> converts and
  hashes it and then fails to push it; \<open>env_cert_ok\<close> succeeds throughout.
\<close>

definition env_not_a_cert :: env where
  "env_not_a_cert = env_of (\<lambda>cmd. reply 1 [])"

definition env_no_hash :: env where
  "env_no_hash = env_of (\<lambda>cmd. if cmd = hash_cmd then reply 1 [] else reply 0 [])"

definition env_no_push :: env where
  "env_no_push =
     env_of (\<lambda>cmd.
       if cmd = hash_cmd then reply 0 ''9a5ba575\<newline>''
       else if cmd = cert_push_cmd ''9a5ba575.0'' then reply 1 []
       else reply 0 [])"

definition env_cert_ok :: env where
  "env_cert_ok =
     env_of (\<lambda>cmd. if cmd = hash_cmd then reply 0 ''9a5ba575\<newline>'' else reply 0 [])"

text \<open>
  The listing of \<^verbatim>\<open>adb devices\<close> with one device ready and one offline, and an
  environment that prints it; and a listing with two devices ready, the first of which
  stops answering before its deployment starts.
\<close>

definition adb_listing :: string where
  "adb_listing =
     ''List of devices attached\<newline>emulator-5554'' @ [CHR 0x09] @ ''device\<newline>R58N''
       @ [CHR 0x09] @ ''offline\<newline>\<newline>''"

definition env_listing :: env where
  "env_listing = env_of (\<lambda>cmd. if cmd = [''adb'', ''devices''] then reply 0 adb_listing else reply 0 [])"

definition adb_listing_two :: string where
  "adb_listing_two =
     ''List of devices attached\<newline>emulator-5554'' @ [CHR 0x09] @ ''device\<newline>R58N''
       @ [CHR 0x09] @ ''device\<newline>\<newline>''"

definition env_first_gone :: env where
  "env_first_gone =
     env_of (\<lambda>cmd.
       if cmd = [''adb'', ''devices''] then reply 0 adb_listing_two
       else if cmd = getprop_cmd ''emulator-5554'' then reply 1 []
       else if cmd = getprop_cmd ''R58N'' then reply 0 ''arm64-v8a\<newline>''
       else reply 0 [])"

section \<open>Properties of the pure functions\<close>

text \<open>The string functions on the examples of the Python documentation.\<close>

lemma py_examples:
  "py_split [CHR 0x20, CHR ''a'', CHR 0x09, CHR ''b'', CHR 0x20, CHR 0x20, CHR ''c'', CHR 0x20]
     = [''a'', ''b'', ''c'']"
  "py_split_on (CHR 0x0A) [] = [[]]"
  "py_split_on (CHR 0x0A) ''a\<newline>\<newline>b'' = [''a'', [], ''b'']"
  "py_strip [CHR 0x1F, CHR ''a'', CHR 0xA0] = ''a''"
  "py_int ''042'' = Inr 42"
  by (simp_all add: py_split_def py_strip_def is_space_def py_int_def is_decimal_def digit_val_def)

lemma devices_loop_eq:
  "devices_loop lines devices = devices @ map serial_of (filter is_device_entry lines)"
proof (induction lines arbitrary: devices)
  case Nil
  show ?case by simp
next
  case (Cons line lines)
  show ?case
  proof (cases "columns line")
    case Nil
    then show ?thesis
      using Cons.IH by (simp add: is_device_entry_def columns_def)
  next
    case (Cons a as)
    note outer = this
    show ?thesis
    proof (cases as)
      case Nil
      then show ?thesis
        using outer Cons.IH by (simp add: is_device_entry_def columns_def)
    next
      case (Cons b bs)
      then show ?thesis
        using outer Cons.IH
        by (simp add: is_device_entry_def serial_of_def columns_def)
    qed
  qed
qed

lemma parse_devices_listed: "parse_devices out = listed_devices out"
  by (simp add: parse_devices_def listed_devices_def devices_loop_eq)

lemma not_decimal_dot [simp]: "\<not> is_decimal (CHR ''.'')" "\<not> is_decimal (CHR 0x0A)"
  by (simp_all add: is_decimal_def)

lemma re_digits_Some:
  "re_digits s = Some r \<longleftrightarrow> (takeWhile is_decimal s \<noteq> [] \<and> r = dropWhile is_decimal s)"
  by (auto simp: re_digits_def)

lemma re_dot_Some: "re_dot s = Some r \<longleftrightarrow> s = CHR ''.'' # r"
  by (auto simp: re_dot_def split: list.splits)

lemma re_digits_run:
  assumes "x \<noteq> []" "list_all is_decimal x" "\<not> is_decimal c"
  shows "re_digits (x @ c # r) = Some (c # r)"
  using assms by (simp add: re_digits_def list_all_iff)

lemma re_digits_run_end:
  assumes "x \<noteq> []" "list_all is_decimal x"
  shows "re_digits x = Some []"
  using assms by (cases x) (simp_all add: re_digits_def list_all_iff)

lemma validate_of_format:
  assumes "version_format s"
  shows "validate_frida_version s" "validate_frida_version (s @ [CHR 0x0A])"
proof -
  from assms obtain x y z where
    h: "x \<noteq> []" "y \<noteq> []" "z \<noteq> []" "list_all is_decimal x" "list_all is_decimal y"
       "list_all is_decimal z" "s = x @ ''.'' @ y @ ''.'' @ z"
    unfolding version_format_def by blast
  show "validate_frida_version s"
    using h
    by (simp add: validate_frida_version_def re_digits_run re_digits_run_end re_dot_def
        re_dollar_def)
  show "validate_frida_version (s @ [CHR 0x0A])"
    using h by (simp add: validate_frida_version_def re_digits_run re_dot_def re_dollar_def)
qed

lemma format_of_validate:
  assumes "validate_frida_version s"
  shows "version_format s \<or> (\<exists>t. version_format t \<and> s = t @ [CHR 0x0A])"
proof -
  from assms obtain r1 r2 r3 r4 r5 where
    a: "re_digits s = Some r1" "re_dot r1 = Some r2" "re_digits r2 = Some r3"
       "re_dot r3 = Some r4" "re_digits r4 = Some r5" "re_dollar r5"
    by (auto simp: validate_frida_version_def split: option.splits Option.bind_splits)
  define x where "x = takeWhile is_decimal s"
  define y where "y = takeWhile is_decimal r2"
  define z where "z = takeWhile is_decimal r4"
  have x: "x \<noteq> []" "s = x @ r1" "list_all is_decimal x"
    using a(1) by (auto simp: re_digits_Some x_def list_all_iff dest: set_takeWhileD)
  have y: "y \<noteq> []" "r2 = y @ r3" "list_all is_decimal y"
    using a(3) by (auto simp: re_digits_Some y_def list_all_iff dest: set_takeWhileD)
  have z: "z \<noteq> []" "r4 = z @ r5" "list_all is_decimal z"
    using a(5) by (auto simp: re_digits_Some z_def list_all_iff dest: set_takeWhileD)
  have s: "s = (x @ ''.'' @ y @ ''.'' @ z) @ r5"
    using x(2) y(2) z(2) a(2,4) by (simp add: re_dot_Some)
  have f: "version_format (x @ ''.'' @ y @ ''.'' @ z)"
    unfolding version_format_def using x y z by blast
  from a(6) show ?thesis
    unfolding re_dollar_def
  proof
    assume "r5 = []"
    with s f show ?thesis by simp
  next
    assume "r5 = [CHR 0x0A]"
    with s f show ?thesis by blast
  qed
qed

section \<open>Steps of the deployment\<close>

lemma run_command_unchecked [simp]:
  "run_command env cmd False st = (Inr (run env cmd), executed env cmd st)"
  by (simp add: run_command_def)

lemma run_command_checked:
  "run_command env cmd True st =
     (if returncode (run env cmd) \<noteq> 0
      then (Inl (CalledProcessError cmd (returncode (run env cmd))), executed env cmd st)
      else (Inr (run env cmd), executed env cmd st))"
  by (simp add: run_command_def)

lemma executed_fixed [simp]: "fixed_config (executed env cmd st) = fixed_config st"
  by (simp add: executed_def fixed_config_def)

lemma executed_arch [simp]: "arch_config (executed env cmd st) = arch_config st"
  by (simp add: executed_def arch_config_def)

lemma executed_fields [simp]:
  "LOCAL_BIN (executed env cmd st) = LOCAL_BIN st"
  "LOCAL_XZ (executed env cmd st) = LOCAL_XZ st"
  "FRIDA_URL (executed env cmd st) = FRIDA_URL st"
  "CERT_FILE (executed env cmd st) = CERT_FILE st"
  "FRIDA_VER (executed env cmd st) = FRIDA_VER st"
  "FRIDA_ARCH (executed env cmd st) = FRIDA_ARCH st"
  "LOCAL_DIR (executed env cmd st) = LOCAL_DIR st"
  "AUTO_DETECT_ARCH (executed env cmd st) = AUTO_DETECT_ARCH st"
  "stdin (executed env cmd st) = stdin st"
  by (simp_all add: executed_def)

lemma executed_trace [simp]: "trace (executed env cmd st) = trace st @ [Run cmd]"
  by (simp add: executed_def)

lemma executed_fs_adb [simp]: "fs (executed env (''adb'' # args) st) = fs st"
  by (simp add: executed_def out_option_def)

lemma resolve_arch_fixed [simp]: "fixed_config (resolve_arch a abi st) = fixed_config st"
  by (simp add: resolve_arch_def fixed_config_def Let_def)

lemma resolve_arch_arch:
  "arch_config (resolve_arch a abi st) =
     (if a then (map_abi_to_frida_arch abi,
                 frida_url (FRIDA_VER st) (map_abi_to_frida_arch abi),
                 path_join (LOCAL_DIR st) (xz_name (FRIDA_VER st) (map_abi_to_frida_arch abi)))
      else arch_config st)"
  by (simp add: resolve_arch_def arch_config_def Let_def)

lemma resolve_arch_frame [simp]:
  "trace (resolve_arch a abi st) = trace st"
  "fs (resolve_arch a abi st) = fs st"
  "LOCAL_BIN (resolve_arch a abi st) = LOCAL_BIN st"
  by (simp_all add: resolve_arch_def Let_def)

lemma download_frame [simp]:
  "fixed_config (snd (download env st)) = fixed_config st"
  "arch_config (snd (download env st)) = arch_config st"
  "LOCAL_BIN (snd (download env st)) = LOCAL_BIN st"
  "LOCAL_XZ (snd (download env st)) = LOCAL_XZ st"
  "trace (snd (download env st)) = trace st @ [Urlretrieve (FRIDA_URL st) (LOCAL_XZ st)]"
  by (simp_all add: download_def fixed_config_def arch_config_def Let_def
      split: http_response.splits)

lemma extract_xz_frame [simp]:
  "fixed_config (snd (extract_xz env st)) = fixed_config st"
  "arch_config (snd (extract_xz env st)) = arch_config st"
  "LOCAL_BIN (snd (extract_xz env st)) = LOCAL_BIN st"
  "LOCAL_XZ (snd (extract_xz env st)) = LOCAL_XZ st"
  "trace (snd (extract_xz env st)) = trace st"
  by (simp_all add: extract_xz_def fixed_config_def arch_config_def split: option.splits)

lemma start_server_eq:
  "start_server env serial st = (Inr (verdict (run env (ps_cmd serial))), started env serial st)"
  by (simp add: start_server_def started_def verdict_def and_then_def return_def Let_def)

lemma started_frame [simp]:
  "fixed_config (started env serial st) = fixed_config st"
  "arch_config (started env serial st) = arch_config st"
  by (simp_all add: started_def Let_def)

lemma started_trace:
  "trace (started env serial st) =
     trace st @ [Run (chmod_cmd serial), Run (kill_su_cmd serial), Run (kill_cmd serial),
                 Run (setenforce_cmd serial), Run (root_cmd serial), Run (launch_su_cmd serial)]
       @ (if returncode (run env (launch_su_cmd serial)) \<noteq> 0 then [Run (launch_cmd serial)] else [])
       @ [Run (ps_cmd serial)]"
  by (simp add: started_def Let_def)

lemma started_fs [simp]: "fs (started env serial st) = fs st"
  by (simp add: started_def Let_def chmod_cmd_def kill_su_cmd_def kill_cmd_def setenforce_cmd_def
      root_cmd_def launch_su_cmd_def launch_cmd_def ps_cmd_def adb_shell_def)

lemma resolved_frame [simp]:
  "fixed_config (resolved env serial a st) = fixed_config st"
  "trace (resolved env serial a st) = trace st @ [Run (getprop_cmd serial)]"
  "LOCAL_BIN (resolved env serial a st) = LOCAL_BIN st"
  by (simp_all add: resolved_def)

lemma resolved_arch:
  "arch_config (resolved env serial a st) =
     (if a then (let arch = map_abi_to_frida_arch (py_strip (stdout (run env (getprop_cmd serial))))
                 in (arch, frida_url (FRIDA_VER st) arch,
                     path_join (LOCAL_DIR st) (xz_name (FRIDA_VER st) arch)))
      else arch_config st)"
  by (simp add: resolved_def resolve_arch_arch Let_def)

text \<open>\<^verbatim>\<open>setup_frida_server\<close>, exit by exit.\<close>

lemma setup_frida_server_eq:
  "setup_frida_server env serial auto_detect st =
     (if returncode (run env (getprop_cmd serial)) \<noteq> 0
      then (Inl (CalledProcessError (getprop_cmd serial) (returncode (run env (getprop_cmd serial)))),
            executed env (getprop_cmd serial) st)
      else if \<not> mkdir_ok env then (Inl OSError, resolved env serial auto_detect st)
      else if \<not> fst (download env (resolved env serial auto_detect st))
      then (Inr DownloadFailed, snd (download env (resolved env serial auto_detect st)))
      else if \<not> fst (extract_xz env (snd (download env (resolved env serial auto_detect st))))
      then (Inr ExtractFailed, snd (extract_xz env (snd (download env (resolved env serial auto_detect st)))))
      else if returncode (run env (push_cmd serial (LOCAL_BIN st))) \<noteq> 0
      then (Inr PushFailed,
            executed env (push_cmd serial (LOCAL_BIN st))
              (snd (extract_xz env (snd (download env (resolved env serial auto_detect st))))))
      else (Inr (verdict (run env (ps_cmd serial))),
            started env serial (executed env (push_cmd serial (LOCAL_BIN st))
              (snd (extract_xz env (snd (download env (resolved env serial auto_detect st))))))))"
proof -
  obtain b1 s1 where d: "download env (resolved env serial auto_detect st) = (b1, s1)"
    by (cases "download env (resolved env serial auto_detect st)")
  obtain b2 s2 where e: "extract_xz env s1 = (b2, s2)"
    by (cases "extract_xz env s1")
  have bin: "LOCAL_BIN s2 = LOCAL_BIN st"
  proof -
    have "LOCAL_BIN s2 = LOCAL_BIN (snd (extract_xz env s1))" using e by simp
    also have "\<dots> = LOCAL_BIN s1" by simp
    also have "\<dots> = LOCAL_BIN (snd (download env (resolved env serial auto_detect st)))"
      using d by simp
    also have "\<dots> = LOCAL_BIN st" by simp
    finally show ?thesis .
  qed
  show ?thesis
    using d e bin
    by (simp add: setup_frida_server_def and_then_def run_command_checked return_def
        resolved_def [symmetric] start_server_eq Let_def)
qed

lemma new_events_append: "trace st' = trace st @ xs \<Longrightarrow> new_events st st' = xs"
  by (simp add: new_events_def)

lemma cmd_distinct [simp]:
  "kill_su_cmd s \<noteq> getprop_cmd s'"
  "kill_su_cmd s \<noteq> push_cmd s' b"
  by (simp_all add: kill_su_cmd_def getprop_cmd_def push_cmd_def adb_shell_def)

lemma setup_trace:
  "trace (snd (setup_frida_server env serial a st)) =
     trace st @ Run (getprop_cmd serial) #
       (if returncode (run env (getprop_cmd serial)) \<noteq> 0 \<or> \<not> mkdir_ok env then []
        else Urlretrieve (FRIDA_URL (resolved env serial a st)) (LOCAL_XZ (resolved env serial a st)) #
          (if \<not> fst (download env (resolved env serial a st)) then []
           else if \<not> fst (extract_xz env (snd (download env (resolved env serial a st)))) then []
           else Run (push_cmd serial (LOCAL_BIN st)) #
             (if returncode (run env (push_cmd serial (LOCAL_BIN st))) \<noteq> 0 then []
              else [Run (chmod_cmd serial), Run (kill_su_cmd serial), Run (kill_cmd serial),
                    Run (setenforce_cmd serial), Run (root_cmd serial), Run (launch_su_cmd serial)]
                @ (if returncode (run env (launch_su_cmd serial)) \<noteq> 0
                   then [Run (launch_cmd serial)] else [])
                @ [Run (ps_cmd serial)])))"
  by (simp add: setup_frida_server_eq started_trace)

lemma setup_fixed_config:
  "fixed_config (snd (setup_frida_server env serial a st)) = fixed_config st"
  by (simp add: setup_frida_server_eq)

lemma setup_arch_config:
  "arch_config (snd (setup_frida_server env serial a st)) =
     (if a \<and> returncode (run env (getprop_cmd serial)) = 0
      then (let arch = map_abi_to_frida_arch (py_strip (stdout (run env (getprop_cmd serial))))
            in (arch, frida_url (FRIDA_VER st) arch,
                path_join (LOCAL_DIR st) (xz_name (FRIDA_VER st) arch)))
      else arch_config st)"
  by (simp add: setup_frida_server_eq resolved_arch)

lemma downloads_append:
  "trace st' = trace st @ xs \<Longrightarrow> downloads st' = downloads st + length (filter is_download xs)"
  by (simp add: downloads_def)

lemma downloads_setup:
  "downloads (snd (setup_frida_server env serial a st)) =
     downloads st + (if returncode (run env (getprop_cmd serial)) = 0 \<and> mkdir_ok env then 1 else 0)"
  by (simp add: downloads_append [OF setup_trace] is_download_def)

lemma env_of_simps [simp]:
  "which (env_of r) tool"
  "run (env_of r) = r"
  "written (env_of r) cmd = Some ''PEM''"
  "http_get (env_of r) url = Body url"
  "xz_decode (env_of r) content = Some content"
  "mkdir_ok (env_of r)"
  "rename_ok (env_of r)"
  by (simp_all add: env_of_def)

lemma reply_simps [simp]:
  "returncode (reply code out) = code"
  "stdout (reply code out) = out"
  by (simp_all add: reply_def)

lemma download_Body:
  assumes "http_get env (FRIDA_URL st) = Body content"
  shows "fst (download env st)"
    and "fs (snd (download env st)) = (fs st)(LOCAL_XZ st \<mapsto> content)"
  using assms by (simp_all add: download_def Let_def)

lemma extract_xz_Some:
  assumes "fs st (LOCAL_XZ st) = Some content" and "xz_decode env content = Some binary"
  shows "fst (extract_xz env st)"
    and "fs (snd (extract_xz env st)) = (fs st)(LOCAL_BIN st \<mapsto> binary)"
  using assms by (simp_all add: extract_xz_def)

text \<open>With the test server every download and every extraction succeeds.\<close>

lemma env_of_fetches [simp]:
  "fst (download (env_of r) st)"
  "fst (extract_xz (env_of r) (snd (download (env_of r) st)))"
proof -
  show "fst (download (env_of r) st)"
    by (rule download_Body(1) [of _ _ "FRIDA_URL st"]) simp
  have "fs (snd (download (env_of r) st)) (LOCAL_XZ (snd (download (env_of r) st))) = Some (FRIDA_URL st)"
    by (simp add: download_Body(2) [of _ _ "FRIDA_URL st"])
  then show "fst (extract_xz (env_of r) (snd (download (env_of r) st)))"
    by (rule extract_xz_Some(1)) simp
qed

section \<open>What the operations leave unchanged\<close>

lemma keeps_and_then:
  assumes "\<And>st. g (snd (m st)) = g st" and "\<And>x st. g (snd (f x st)) = g st"
  shows "g (snd (and_then m f st)) = g st"
proof (cases "m st")
  case (Pair r st1)
  have "g st1 = g st"
    using assms(1) [of st] Pair by simp
  then show ?thesis
    using Pair assms(2) by (cases r) (simp_all add: and_then_def)
qed

lemmas config_and_then = keeps_and_then [where g = config]

lemma config_fixed: "config st' = config st \<Longrightarrow> fixed_config st' = fixed_config st"
  by (simp add: config_def)

lemma config_arch: "config st' = config st \<Longrightarrow> arch_config st' = arch_config st"
  by (simp add: config_def)

lemma executed_config [simp]: "config (executed env cmd st) = config st"
  by (simp add: config_def)

lemma run_command_config [simp]: "config (snd (run_command env cmd check st)) = config st"
  by (simp add: run_command_def Let_def config_def)

lemma input_config [simp]: "config (snd (input st)) = config st"
  by (simp add: input_def config_def fixed_config_def arch_config_def split: list.splits)

lemma return_snd [simp]: "snd (return x st) = st"
  by (simp add: return_def)

lemma choose_device_config [simp]: "config (snd (choose_device env st)) = config st"
proof -
  have ask: "config (snd (and_then input (\<lambda>line st. (select_devices ds (py_strip line), st)) st))
      = config st" for ds st
    by (rule config_and_then) simp_all
  have inner: "config (snd ((if ds = [] then return []
        else and_then input (\<lambda>line st. (select_devices ds (py_strip line), st))) st)) = config st"
    for ds st
    by (cases "ds = []") (simp_all add: ask)
  show ?thesis
    unfolding choose_device_def
    by (rule config_and_then) (simp_all add: Let_def inner)
qed

lemma choose_device_fixed [simp]:
  "fixed_config (snd (choose_device env st)) = fixed_config st"
  by (rule config_fixed) simp

lemma deploy_all_fixed [simp]: "fixed_config (snd (deploy_all env serials st)) = fixed_config st"
proof (induction serials arbitrary: st)
  case Nil
  show ?case by simp
next
  case (Cons serial rest)
  obtain r st1 where s: "setup_frida_server env serial (AUTO_DETECT_ARCH st) st = (r, st1)"
    by (cases "setup_frida_server env serial (AUTO_DETECT_ARCH st) st")
  have st1: "fixed_config st1 = fixed_config st"
    using setup_fixed_config [of env serial "AUTO_DETECT_ARCH st" st] s by simp
  show ?case
    using s st1 Cons.IH by (cases r) (simp_all add: check_tool_def)
qed

lemma run_frida_server_fixed [simp]:
  "fixed_config (snd (run_frida_server env st)) = fixed_config st"
proof (cases "check_tool env ''adb''")
  case False
  then show ?thesis by (simp add: run_frida_server_def)
next
  case True
  have inner: "fixed_config (snd ((if selected = [] then return ()
        else deploy_all env selected) st)) = fixed_config st" for selected st
    by (cases "selected = []") simp_all
  have "fixed_config (snd (and_then (choose_device env) (\<lambda>selected.
             if selected = [] then return () else deploy_all env selected) st)) = fixed_config st"
    by (rule keeps_and_then [where g = fixed_config]) (simp_all add: inner)
  with True show ?thesis by (simp add: run_frida_server_def)
qed

lemma unlink_if_exists_frame [simp]:
  "config (unlink_if_exists path st) = config st"
  "trace (unlink_if_exists path st) = trace st"
  by (simp_all add: unlink_if_exists_def config_def fixed_config_def arch_config_def)

lemma cleanup_frame [simp]:
  "config (cleanup h st) = config st"
  "trace (cleanup h st) = trace st"
  by (simp_all add: cleanup_def Let_def split: option.splits)

lemma rename_frame [simp]:
  "config (snd (rename env src dst st)) = config st"
  "trace (snd (rename env src dst st)) = trace st"
  by (simp_all add: rename_def config_def fixed_config_def arch_config_def split: option.splits)

lemma convert_cert_config [simp]: "config (snd (convert_cert env st)) = config st"
proof -
  have inner: "config (snd ((if c then run_command env cmd True else return result) st)) = config st"
    for c cmd result st
    by (cases c) simp_all
  show ?thesis
    unfolding convert_cert_def
    apply (rule config_and_then, simp)
    apply (rule config_and_then, rule inner)
    apply (rule config_and_then, simp)
    apply simp
    done
qed

lemma install_cert_config [simp]: "config (snd (install_cert env h st)) = config st"
  unfolding install_cert_def
  apply (rule config_and_then, simp)+
  apply simp
  done

lemma push_burp_cert_config [simp]: "config (snd (push_burp_cert env st)) = config st"
proof -
  obtain r1 st1 where c: "convert_cert env st = (r1, st1)"
    by (cases "convert_cert env st")
  have 1: "config st1 = config st"
    using convert_cert_config [of env st] c by simp
  have 2: "config (snd (install_cert env h st1)) = config st" for h
    using 1 by simp
  show ?thesis
  proof (cases r1)
    case (Inl e)
    then show ?thesis using c 1 by (simp add: push_burp_cert_def)
  next
    case (Inr h)
    obtain r2 st2 where i: "install_cert env h st1 = (r2, st2)"
      by (cases "install_cert env h st1")
    have "config st2 = config st"
      using 2 [of h] i by simp
    then show ?thesis
      using c Inr i by (cases r2) (simp_all add: push_burp_cert_def)
  qed
qed

section \<open>The concrete environments, evaluated\<close>

lemma version_17_5_2 [simp]: "validate_frida_version ''17.5.2''"
  by (simp add: validate_frida_version_def re_digits_def re_dot_def re_dollar_def is_decimal_def)

lemma configure_default: "configure args_default st_loaded = (None, st_default)"
  by (simp add: configure_def args_default_def st_loaded_def st_default_def Let_def)

lemma st_default_fields [simp]:
  "FRIDA_VER st_default = ''17.5.2''"
  "FRIDA_ARCH st_default = ''android-arm64''"
  "LOCAL_DIR st_default = ''/home/user/tmp''"
  "LOCAL_BIN st_default = ''/home/user/tmp/frida-server''"
  "AUTO_DETECT_ARCH st_default"
  "trace st_default = []"
  by (simp_all add: st_default_def)

lemma st_cached_fields [simp]:
  "FRIDA_VER st_cached = ''17.5.2''"
  "FRIDA_ARCH st_cached = ''android-arm64''"
  "LOCAL_DIR st_cached = ''/home/user/tmp''"
  "LOCAL_BIN st_cached = ''/home/user/tmp/frida-server''"
  "trace st_cached = []"
  by (simp_all add: st_cached_def)

lemma env_two_simps [simp]:
  "mkdir_ok env_two"
  "run env_two (getprop_cmd ''emulator-5554'') = reply 0 ''x86\<newline>''"
  "run env_two (getprop_cmd ''R58N'') = reply 0 ''arm64-v8a\<newline>''"
  by (simp_all add: env_two_def getprop_cmd_def)

lemma abi_of_output [simp]:
  "map_abi_to_frida_arch (py_strip ''x86\<newline>'') = ''android-x86''"
  "map_abi_to_frida_arch (py_strip ''arm64-v8a\<newline>'') = ''android-arm64''"
  by (simp_all add: py_strip_def is_space_def map_abi_to_frida_arch_def dict_get_def
      abi_mapping_def)

lemma st_arm64_config:
  "fixed_config st_arm64 = fixed_config st_default"
  "arch_config st_arm64 =
     (''android-arm64'', frida_url ''17.5.2'' ''android-arm64'',
      path_join ''/home/user/tmp'' (xz_name ''17.5.2'' ''android-arm64''))"
  by (simp_all add: st_arm64_def setup_fixed_config setup_arch_config Let_def)

lemma st_x86_config:
  "fixed_config st_x86 = fixed_config st_default"
  "arch_config st_x86 =
     (''android-x86'', frida_url ''17.5.2'' ''android-x86'',
      path_join ''/home/user/tmp'' (xz_name ''17.5.2'' ''android-x86''))"
  by (simp_all add: st_x86_def setup_fixed_config setup_arch_config Let_def)

lemma st_default_keyed: "keyed st_default"
  by (simp add: keyed_def st_default_def)

lemma env_unrooted_run:
  "returncode (run env_unrooted (getprop_cmd ''emulator-5554'')) = 0"
  "returncode (run env_unrooted (push_cmd ''emulator-5554'' ''/home/user/tmp/frida-server'')) = 0"
  "returncode (run env_unrooted (kill_su_cmd ''emulator-5554'')) = 1"
  "returncode (run env_unrooted (kill_cmd ''emulator-5554'')) = 1"
  "returncode (run env_unrooted (setenforce_cmd ''emulator-5554'')) = 1"
  "returncode (run env_unrooted (root_cmd ''emulator-5554'')) = 1"
  "returncode (run env_unrooted (launch_su_cmd ''emulator-5554'')) = 1"
  "run env_unrooted (ps_cmd ''emulator-5554'') = reply 1 []"
  by (simp_all add: env_unrooted_def st_default_def getprop_cmd_def push_cmd_def kill_su_cmd_def
      kill_cmd_def setenforce_cmd_def root_cmd_def launch_su_cmd_def ps_cmd_def adb_shell_def)

section \<open>Names and files of the cache\<close>

lemma decimal_run_avoids:
  assumes "list_all is_decimal x" and "\<not> is_decimal c"
  shows "c \<notin> set x"
  using assms by (auto simp: list_all_iff)

lemma format_avoids:
  assumes "version_format s" and "\<not> is_decimal c" and "c \<noteq> CHR ''.''"
  shows "c \<notin> set s"
proof -
  from assms(1) obtain x y z where
    "list_all is_decimal x" "list_all is_decimal y" "list_all is_decimal z"
    "s = x @ ''.'' @ y @ ''.'' @ z"
    unfolding version_format_def by blast
  then show ?thesis
    using assms(2,3) by (auto dest: decimal_run_avoids)
qed

lemma version_avoids_char:
  assumes "validate_frida_version v"
    and "\<not> is_decimal c" and "c \<noteq> CHR ''.''" and "c \<noteq> CHR 0x0A"
  shows "c \<notin> set v"
proof -
  from format_of_validate [OF assms(1)] show ?thesis
  proof
    assume "version_format v"
    then show ?thesis by (rule format_avoids) (fact assms(2,3))+
  next
    assume "\<exists>t. version_format t \<and> v = t @ [CHR 0x0A]"
    then obtain t where t: "version_format t" "v = t @ [CHR 0x0A]" by blast
    have "c \<notin> set t"
      using t(1) by (rule format_avoids) (fact assms(2,3))+
    then show ?thesis
      using t(2) assms(4) by simp
  qed
qed

lemma version_avoids:
  assumes "validate_frida_version v"
  shows "CHR ''-'' \<notin> set v" and "CHR ''/'' \<notin> set v"
  by (rule version_avoids_char [OF assms]; simp add: is_decimal_def)+

lemma split_at_first:
  assumes "c \<notin> set x" and "c \<notin> set x'" and "x @ c # r = x' @ c # r'"
  shows "x = x' \<and> r = r'"
  using assms
proof (induction x arbitrary: x')
  case Nil
  then show ?case by (cases x') auto
next
  case (Cons a x)
  then show ?case by (cases x') auto
qed

lemma xz_name_inj:
  assumes "validate_frida_version v" and "validate_frida_version v'"
    and "xz_name v a = xz_name v' a'"
  shows "v = v' \<and> a = a'"
proof -
  from assms(3) have "v @ CHR ''-'' # (a @ ''.xz'') = v' @ CHR ''-'' # (a' @ ''.xz'')"
    by (simp add: xz_name_def)
  from split_at_first [OF version_avoids(1) [OF assms(1)] version_avoids(1) [OF assms(2)] this]
  show ?thesis by simp
qed

lemma path_join_inj: "path_join d n = path_join d n' \<longleftrightarrow> n = n'"
  by (simp add: path_join_def)

lemma frida_url_inj:
  assumes "validate_frida_version v" and "validate_frida_version v'"
    and "frida_url v a = frida_url v' a'"
  shows "v = v' \<and> a = a'"
proof -
  from assms(3) have "v @ CHR ''/'' # (''frida-server-'' @ v @ ''-'' @ a @ ''.xz'')
      = v' @ CHR ''/'' # (''frida-server-'' @ v' @ ''-'' @ a' @ ''.xz'')"
    by (simp add: frida_url_def)
  from split_at_first [OF version_avoids(2) [OF assms(1)] version_avoids(2) [OF assms(2)] this]
  show ?thesis by auto
qed

lemma xz_is_not_bin: "path_join d (xz_name v a) \<noteq> path_join d ''frida-server''"
  by (simp add: path_join_def xz_name_def)

lemma keyed_arch_config:
  "keyed st \<longleftrightarrow>
     arch_config st = (FRIDA_ARCH st, frida_url (FRIDA_VER st) (FRIDA_ARCH st),
                       path_join (LOCAL_DIR st) (xz_name (FRIDA_VER st) (FRIDA_ARCH st)))"
  by (simp add: keyed_def arch_config_def)

lemma fixed_config_fields:
  assumes "fixed_config st' = fixed_config st"
  shows "FRIDA_VER st' = FRIDA_VER st" "LOCAL_DIR st' = LOCAL_DIR st" "LOCAL_BIN st' = LOCAL_BIN st"
    "CERT_FILE st' = CERT_FILE st" "AUTO_DETECT_ARCH st' = AUTO_DETECT_ARCH st"
  using assms by (simp_all add: fixed_config_def)

lemma setup_keyed:
  assumes "keyed st"
  shows "keyed (snd (setup_frida_server env serial a st))"
proof -
  let ?st' = "snd (setup_frida_server env serial a st)"
  have f: "FRIDA_VER ?st' = FRIDA_VER st" "LOCAL_DIR ?st' = LOCAL_DIR st"
    by (rule fixed_config_fields [OF setup_fixed_config])+
  have "arch_config ?st' = (FRIDA_ARCH ?st', frida_url (FRIDA_VER st) (FRIDA_ARCH ?st'),
      path_join (LOCAL_DIR st) (xz_name (FRIDA_VER st) (FRIDA_ARCH ?st')))"
  proof (cases "a \<and> returncode (run env (getprop_cmd serial)) = 0")
    case True
    then have "arch_config ?st' =
        (let arch = map_abi_to_frida_arch (py_strip (stdout (run env (getprop_cmd serial))))
         in (arch, frida_url (FRIDA_VER st) arch,
             path_join (LOCAL_DIR st) (xz_name (FRIDA_VER st) arch)))"
      by (simp add: setup_arch_config)
    then show ?thesis
      by (simp add: arch_config_def Let_def)
  next
    case False
    then have "arch_config ?st' = arch_config st"
      by (auto simp: setup_arch_config)
    then show ?thesis
      using assms by (simp add: keyed_def arch_config_def)
  qed
  then show ?thesis
    by (simp add: keyed_arch_config f)
qed

lemma configure_keyed:
  assumes "configure a st = (None, st')"
  shows "keyed st'"
  using assms by (auto simp: configure_def keyed_def Let_def split: if_splits)

text \<open>The files after a deployment whose download got the whole body.\<close>

lemma resolved_fs [simp]: "fs (resolved env serial a st) = fs st"
  by (simp add: resolved_def getprop_cmd_def)

lemma setup_fs_other:
  assumes "p \<noteq> LOCAL_XZ (snd (setup_frida_server env serial a st))" and "p \<noteq> LOCAL_BIN st"
  shows "fs (snd (setup_frida_server env serial a st)) p = fs st p"
proof -
  let ?st1 = "resolved env serial a st"
  let ?st2 = "snd (download env ?st1)"
  let ?st3 = "snd (extract_xz env ?st2)"
  have xz: "LOCAL_XZ (snd (setup_frida_server env serial a st)) = LOCAL_XZ ?st1
      \<or> returncode (run env (getprop_cmd serial)) \<noteq> 0"
    by (simp add: setup_frida_server_eq started_def Let_def)
  have d: "p \<noteq> LOCAL_XZ ?st1 \<Longrightarrow> fs ?st2 p = fs st p"
    by (simp add: download_def Let_def split: http_response.splits)
  have e: "fs ?st3 p = fs ?st2 p"
    using assms(2) by (simp add: extract_xz_def split: option.splits)
  show ?thesis
  proof (cases "returncode (run env (getprop_cmd serial)) \<noteq> 0")
    case True
    then show ?thesis
      by (simp add: setup_frida_server_eq getprop_cmd_def)
  next
    case False
    with xz assms(1) have "p \<noteq> LOCAL_XZ ?st1" by auto
    with d e have "fs ?st3 p = fs st p" "fs ?st2 p = fs st p" by simp_all
    then show ?thesis
      using False by (simp add: setup_frida_server_eq push_cmd_def)
  qed
qed

lemma setup_fs_xz:
  assumes "returncode (run env (getprop_cmd serial)) = 0" and "mkdir_ok env"
    and "http_get env (FRIDA_URL (snd (setup_frida_server env serial a st))) = Body content"
    and "LOCAL_XZ (snd (setup_frida_server env serial a st)) \<noteq> LOCAL_BIN st"
  shows "fs (snd (setup_frida_server env serial a st))
           (LOCAL_XZ (snd (setup_frida_server env serial a st))) = Some content"
proof -
  let ?st' = "snd (setup_frida_server env serial a st)"
  let ?st1 = "resolved env serial a st"
  let ?st2 = "snd (download env ?st1)"
  let ?st3 = "snd (extract_xz env ?st2)"
  have "arch_config ?st' = arch_config ?st1"
    using assms(1) by (simp add: setup_frida_server_eq)
  then have same: "FRIDA_URL ?st' = FRIDA_URL ?st1" "LOCAL_XZ ?st' = LOCAL_XZ ?st1"
    by (simp_all add: arch_config_def)
  have body: "http_get env (FRIDA_URL ?st1) = Body content"
    using assms(3) same(1) by simp
  have differ: "LOCAL_XZ ?st1 \<noteq> LOCAL_BIN st"
    using assms(4) same(2) by simp
  have d: "fs ?st2 (LOCAL_XZ ?st1) = Some content"
    by (simp add: download_Body(2) [OF body])
  have "fs ?st3 (LOCAL_XZ ?st1) = fs ?st2 (LOCAL_XZ ?st1)"
    using differ by (simp add: extract_xz_def split: option.splits)
  with d have e: "fs ?st3 (LOCAL_XZ ?st1) = Some content" by simp
  have "fs ?st' = fs ?st3"
    using assms(1,2) download_Body(1) [OF body]
    by (simp add: setup_frida_server_eq push_cmd_def)
  with e show ?thesis by (simp only: same)
qed

lemma setup_fs_bin:
  assumes "returncode (run env (getprop_cmd serial)) = 0" and "mkdir_ok env"
    and "http_get env (FRIDA_URL (snd (setup_frida_server env serial a st))) = Body content"
    and "LOCAL_XZ (snd (setup_frida_server env serial a st)) \<noteq> LOCAL_BIN st"
  shows "fs (snd (setup_frida_server env serial a st)) (LOCAL_BIN st) =
     Some (case xz_decode env content of None \<Rightarrow> [] | Some binary \<Rightarrow> binary)"
proof -
  let ?st' = "snd (setup_frida_server env serial a st)"
  let ?st1 = "resolved env serial a st"
  let ?st2 = "snd (download env ?st1)"
  let ?st3 = "snd (extract_xz env ?st2)"
  have "arch_config ?st' = arch_config ?st1"
    using assms(1) by (simp add: setup_frida_server_eq)
  then have same: "FRIDA_URL ?st' = FRIDA_URL ?st1" "LOCAL_XZ ?st' = LOCAL_XZ ?st1"
    by (simp_all add: arch_config_def)
  have body: "http_get env (FRIDA_URL ?st1) = Body content"
    using assms(3) same(1) by simp
  have d: "fs ?st2 (LOCAL_XZ ?st2) = Some content"
    by (simp add: download_Body(2) [OF body])
  have bin: "LOCAL_BIN ?st2 = LOCAL_BIN st"
    by simp
  have e: "fs ?st3 (LOCAL_BIN st) =
      Some (case xz_decode env content of None \<Rightarrow> [] | Some binary \<Rightarrow> binary)"
    using d bin by (simp add: extract_xz_def split: option.splits)
  have "fs ?st' = fs ?st3"
    using assms(1,2) download_Body(1) [OF body]
    by (simp add: setup_frida_server_eq push_cmd_def)
  with e show ?thesis by simp
qed
section \<open>Steps of the certificate push\<close>

lemma unlink_if_exists_fs [simp]:
  "fs (unlink_if_exists path st) p = (if p = path then None else fs st p)"
  by (simp add: unlink_if_exists_def)

lemma cleanup_fs:
  "fs (cleanup None st) temp_pem = None"
  "fs (cleanup (Some h) st) temp_pem = None"
  "fs (cleanup (Some h) st) (path_str h) = None"
  by (simp_all add: cleanup_def Let_def)

text \<open>\<^verbatim>\<open>convert_cert\<close> and \<^verbatim>\<open>install_cert\<close>, exit by exit.\<close>

lemma convert_cert_eq:
  "convert_cert env st =
     (let der = der_cmd (CERT_FILE st); pem = pem_cmd (CERT_FILE st);
          st1 = executed env der st;
          st2 = (if returncode (run env der) \<noteq> 0 then executed env pem st1 else st1)
      in if returncode (run env der) \<noteq> 0 \<and> returncode (run env pem) \<noteq> 0
         then (Inl (CalledProcessError pem (returncode (run env pem))), st2)
         else if returncode (run env hash_cmd) \<noteq> 0
         then (Inl (CalledProcessError hash_cmd (returncode (run env hash_cmd))),
               executed env hash_cmd st2)
         else (Inr (hd (py_split_on (CHR 0x0A) (py_strip (stdout (run env hash_cmd)))) @ ''.0''),
               executed env hash_cmd st2))"
  by (simp add: convert_cert_def and_then_def run_command_checked return_def Let_def)

lemma install_cert_eq:
  "install_cert env h st =
     (case fs st temp_pem of
        None \<Rightarrow> (Inl OSError, st)
      | Some content \<Rightarrow>
          if \<not> rename_ok env then (Inl OSError, st)
          else
            (let st1 = st\<lparr>fs := ((fs st)(temp_pem := None))(path_str h \<mapsto> content)\<rparr>;
                 st2 = executed env [''adb'', ''remount''] (executed env [''adb'', ''root''] st1);
                 st3 = executed env (cert_push_cmd h) st2;
                 st4 = executed env (cert_chmod_cmd h) st3;
                 st5 = executed env [''adb'', ''reboot''] (unlink_if_exists (path_str h) st4)
             in if returncode (run env (cert_push_cmd h)) \<noteq> 0
                then (Inl (CalledProcessError (cert_push_cmd h)
                             (returncode (run env (cert_push_cmd h)))), st3)
                else if returncode (run env (cert_chmod_cmd h)) \<noteq> 0
                then (Inl (CalledProcessError (cert_chmod_cmd h)
                             (returncode (run env (cert_chmod_cmd h)))), st4)
                else if returncode (run env [''adb'', ''reboot'']) \<noteq> 0
                then (Inl (CalledProcessError [''adb'', ''reboot'']
                             (returncode (run env [''adb'', ''reboot'']))), st5)
                else (Inr (), st5)))"
  by (simp add: install_cert_def and_then_def rename_def run_command_checked return_def Let_def
      split: option.splits)

lemma install_cert_done:
  assumes "install_cert env h st = (Inr u, st')"
  shows "fs st' temp_pem = None" and "fs st' (path_str h) = None"
  using assms
  by (auto simp: install_cert_eq Let_def cert_push_cmd_def cert_chmod_cmd_def
      split: option.splits if_splits)

lemma push_burp_cert_entered:
  assumes "check_tool env ''adb''" and "check_tool env ''openssl''"
    and "fs st (path_str (CERT_FILE st)) \<noteq> None"
  shows "push_burp_cert env st =
     (case convert_cert env st of
        (Inl e, st1) \<Rightarrow> (CertFailed e, cleanup None st1)
      | (Inr hash_name, st1) \<Rightarrow>
          (case install_cert env hash_name st1 of
             (Inl e, st2) \<Rightarrow> (CertFailed e, cleanup (Some hash_name) st2)
           | (Inr _, st2) \<Rightarrow> (CertInstalled, st2)))"
  using assms by (auto simp: push_burp_cert_def)

lemma push_burp_cert_not_entered:
  assumes "\<not> (check_tool env ''adb'' \<and> check_tool env ''openssl'' \<and> fs st (path_str (CERT_FILE st)) \<noteq> None)"
  shows "snd (push_burp_cert env st) = st"
    and "fst (push_burp_cert env st) \<in> {NoAdb, NoOpenssl, NoCertFile}"
  using assms by (auto simp: push_burp_cert_def)

lemma push_burp_cert_outcome:
  assumes "check_tool env ''adb''" and "check_tool env ''openssl''"
    and "fs st (path_str (CERT_FILE st)) \<noteq> None"
  shows "fst (push_burp_cert env st) = CertInstalled \<or> (\<exists>e. fst (push_burp_cert env st) = CertFailed e)"
  by (auto simp: push_burp_cert_entered [OF assms] split: prod.splits sum.splits)

lemma push_burp_cert_clean:
  assumes "check_tool env ''adb''" and "check_tool env ''openssl''"
    and "fs st (path_str (CERT_FILE st)) \<noteq> None"
  shows "fs (snd (push_burp_cert env st)) temp_pem = None"
    and "fst (convert_cert env st) = Inr h \<Longrightarrow> fs (snd (push_burp_cert env st)) (path_str h) = None"
proof -
  obtain r1 st1 where c: "convert_cert env st = (r1, st1)"
    by (cases "convert_cert env st")
  show "fs (snd (push_burp_cert env st)) temp_pem = None"
  proof (cases r1)
    case (Inl e)
    then show ?thesis
      using c by (simp add: push_burp_cert_entered [OF assms] cleanup_fs)
  next
    case (Inr name)
    obtain r2 st2 where i: "install_cert env name st1 = (r2, st2)"
      by (cases "install_cert env name st1")
    show ?thesis
    proof (cases r2)
      case (Inl e)
      then show ?thesis
        using c Inr i by (simp add: push_burp_cert_entered [OF assms] cleanup_fs)
    next
      case (Inr u)
      with i have "install_cert env name st1 = (Inr u, st2)" by simp
      from install_cert_done(1) [OF this]
      have "fs st2 temp_pem = None" .
      then show ?thesis
        using c \<open>r1 = Inr name\<close> i Inr by (simp add: push_burp_cert_entered [OF assms])
    qed
  qed
  show "fs (snd (push_burp_cert env st)) (path_str h) = None" if h: "fst (convert_cert env st) = Inr h"
  proof -
    from h c have r1: "r1 = Inr h" by simp
    obtain r2 st2 where i: "install_cert env h st1 = (r2, st2)"
      by (cases "install_cert env h st1")
    show ?thesis
    proof (cases r2)
      case (Inl e)
      then show ?thesis
        using c r1 i by (simp add: push_burp_cert_entered [OF assms] cleanup_fs)
    next
      case (Inr u)
      with i have "install_cert env h st1 = (Inr u, st2)" by simp
      from install_cert_done(2) [OF this]
      have "fs st2 (path_str h) = None" .
      then show ?thesis
        using c r1 i Inr by (simp add: push_burp_cert_entered [OF assms])
    qed
  qed
qed

lemma push_burp_cert_fst:
  assumes "check_tool env ''adb''" and "check_tool env ''openssl''"
    and "fs st (path_str (CERT_FILE st)) \<noteq> None"
  shows "fst (push_burp_cert env st) =
     (case fst (convert_cert env st) of
        Inl e \<Rightarrow> CertFailed e
      | Inr h \<Rightarrow>
          (case fst (install_cert env h (snd (convert_cert env st))) of
             Inl e \<Rightarrow> CertFailed e
           | Inr _ \<Rightarrow> CertInstalled))"
  by (simp add: push_burp_cert_entered [OF assms] split: prod.splits sum.splits)

lemma install_cert_trace_eq:
  "trace (snd (install_cert env h st)) =
     trace st @
       (case fs st temp_pem of
          None \<Rightarrow> []
        | Some _ \<Rightarrow>
            if \<not> rename_ok env then []
            else [Run [''adb'', ''root''], Run [''adb'', ''remount''], Run (cert_push_cmd h)]
              @ (if returncode (run env (cert_push_cmd h)) \<noteq> 0 then []
                 else Run (cert_chmod_cmd h) #
                   (if returncode (run env (cert_chmod_cmd h)) \<noteq> 0 then []
                    else [Run [''adb'', ''reboot'']])))"
  by (simp add: install_cert_eq Let_def split: option.splits)

lemma pem_is_not_adb [simp]:
  "pem_cmd c \<noteq> [''adb'', ''root'']"
  "pem_cmd c \<noteq> [''adb'', ''remount'']"
  "pem_cmd c \<noteq> [''adb'', ''reboot'']"
  "pem_cmd c \<noteq> cert_push_cmd h"
  "pem_cmd c \<noteq> cert_chmod_cmd h"
  "pem_cmd c \<noteq> hash_cmd"
  by (simp_all add: pem_cmd_def cert_push_cmd_def cert_chmod_cmd_def hash_cmd_def)

lemma install_cert_trace:
  "\<exists>xs. trace (snd (install_cert env h st)) = trace st @ xs \<and> Run (pem_cmd c) \<notin> set xs"
proof -
  let ?xs = "(case fs st temp_pem of
          None \<Rightarrow> []
        | Some _ \<Rightarrow>
            if \<not> rename_ok env then []
            else [Run [''adb'', ''root''], Run [''adb'', ''remount''], Run (cert_push_cmd h)]
              @ (if returncode (run env (cert_push_cmd h)) \<noteq> 0 then []
                 else Run (cert_chmod_cmd h) #
                   (if returncode (run env (cert_chmod_cmd h)) \<noteq> 0 then []
                    else [Run [''adb'', ''reboot'']])))"
  have "Run (pem_cmd c) \<notin> set ?xs"
    by (simp split: option.splits)
  with install_cert_trace_eq [of env h st] show ?thesis
    by blast
qed


lemma convert_cert_trace:
  "trace (snd (convert_cert env st)) =
     trace st @ Run (der_cmd (CERT_FILE st)) #
       (if returncode (run env (der_cmd (CERT_FILE st))) \<noteq> 0
        then [Run (pem_cmd (CERT_FILE st))] else [])
       @ (if returncode (run env (der_cmd (CERT_FILE st))) \<noteq> 0 \<and>
             returncode (run env (pem_cmd (CERT_FILE st))) \<noteq> 0
          then [] else [Run hash_cmd])"
  by (simp add: convert_cert_eq Let_def)

lemma convert_cert_abort:
  assumes "returncode (run env (der_cmd (CERT_FILE st))) \<noteq> 0"
    and "returncode (run env (pem_cmd (CERT_FILE st))) \<noteq> 0"
  shows "fst (convert_cert env st) =
     Inl (CalledProcessError (pem_cmd (CERT_FILE st))
            (returncode (run env (pem_cmd (CERT_FILE st)))))"
  using assms by (simp add: convert_cert_eq Let_def)

lemma convert_cert_Inr:
  assumes "fst (convert_cert env st) = Inr h"
  shows "\<not> (returncode (run env (der_cmd (CERT_FILE st))) \<noteq> 0 \<and>
            returncode (run env (pem_cmd (CERT_FILE st))) \<noteq> 0)"
  using assms convert_cert_abort [of env st] by auto

lemma push_burp_cert_snd_trace:
  assumes "check_tool env ''adb''" and "check_tool env ''openssl''"
    and "fs st (path_str (CERT_FILE st)) \<noteq> None"
  shows "trace (snd (push_burp_cert env st)) =
     (case fst (convert_cert env st) of
        Inl e \<Rightarrow> trace (snd (convert_cert env st))
      | Inr h \<Rightarrow> trace (snd (install_cert env h (snd (convert_cert env st)))))"
  by (simp add: push_burp_cert_entered [OF assms] split: prod.splits sum.splits)

lemma push_burp_cert_trace:
  assumes "check_tool env ''adb''" and "check_tool env ''openssl''"
    and "fs st (path_str (CERT_FILE st)) \<noteq> None"
  shows "\<exists>more.
     trace (snd (push_burp_cert env st)) =
       trace st @ Run (der_cmd (CERT_FILE st)) #
         (if returncode (run env (der_cmd (CERT_FILE st))) \<noteq> 0
          then [Run (pem_cmd (CERT_FILE st))] else []) @ more \<and>
     Run (pem_cmd (CERT_FILE st)) \<notin> set more \<and>
     (returncode (run env (der_cmd (CERT_FILE st))) \<noteq> 0 \<and>
      returncode (run env (pem_cmd (CERT_FILE st))) \<noteq> 0 \<longrightarrow> more = [])"
proof (cases "fst (convert_cert env st)")
  case (Inl e)
  then have "trace (snd (push_burp_cert env st)) = trace (snd (convert_cert env st))"
    by (simp add: push_burp_cert_snd_trace [OF assms])
  then show ?thesis
    by (intro exI [of _ "if returncode (run env (der_cmd (CERT_FILE st))) \<noteq> 0 \<and>
             returncode (run env (pem_cmd (CERT_FILE st))) \<noteq> 0
          then [] else [Run hash_cmd]"]) (simp add: convert_cert_trace)
next
  case (Inr h)
  obtain xs where xs:
    "trace (snd (install_cert env h (snd (convert_cert env st))))
       = trace (snd (convert_cert env st)) @ xs"
    "Run (pem_cmd (CERT_FILE st)) \<notin> set xs"
    using install_cert_trace by blast
  have "trace (snd (push_burp_cert env st))
      = trace (snd (install_cert env h (snd (convert_cert env st))))"
    using Inr by (simp add: push_burp_cert_snd_trace [OF assms])
  then show ?thesis
    using xs convert_cert_Inr [OF Inr]
    by (intro exI [of _ "Run hash_cmd # xs"]) (auto simp: convert_cert_trace)
qed


section \<open>The certificate environments, evaluated\<close>

lemma path_str_examples [simp]:
  "path_str ''./burp.cer'' = ''burp.cer''"
  "path_str ''9a5ba575.0'' = ''9a5ba575.0''"
  by (simp_all add: path_str_def path_root_def)

lemma st_default_cert [simp]:
  "CERT_FILE st_default = ''./burp.cer''"
  "fs st_default ''burp.cer'' = Some ''DER''"
  "fs st_default temp_pem = None"
  "fs st_default ''9a5ba575.0'' = None"
  by (simp_all add: st_default_def temp_pem_def)

lemma hash_of_output [simp]:
  "hd (py_split_on (CHR 0x0A) (py_strip ''9a5ba575\<newline>'')) @ ''.0'' = ''9a5ba575.0''"
  by (simp add: py_strip_def is_space_def)

lemma out_option_openssl:
  "out_option (der_cmd c) = Some temp_pem"
  "out_option (pem_cmd c) = Some temp_pem"
  "out_option hash_cmd = None"
  by (simp_all add: out_option_def der_cmd_def pem_cmd_def hash_cmd_def temp_pem_def)

lemma convert_cert_writes_temp:
  assumes "returncode (run env (der_cmd (CERT_FILE st))) = 0"
    and "written env (der_cmd (CERT_FILE st)) = Some content"
  shows "fs (executed env (der_cmd (CERT_FILE st)) st) temp_pem = Some content"
    and "fs (snd (convert_cert env st)) temp_pem = Some content"
  using assms by (simp_all add: convert_cert_eq Let_def executed_def out_option_openssl)

lemma convert_cert_hash:
  assumes "returncode (run env (der_cmd (CERT_FILE st))) = 0"
  shows "fst (convert_cert env st) =
     (if returncode (run env hash_cmd) \<noteq> 0
      then Inl (CalledProcessError hash_cmd (returncode (run env hash_cmd)))
      else Inr (hd (py_split_on (CHR 0x0A) (py_strip (stdout (run env hash_cmd)))) @ ''.0''))"
  using assms by (simp add: convert_cert_eq Let_def)

lemma install_cert_push_fails:
  assumes "fs st temp_pem = Some content" and "rename_ok env"
    and "returncode (run env (cert_push_cmd h)) \<noteq> 0"
  shows "fst (install_cert env h st) =
     Inl (CalledProcessError (cert_push_cmd h) (returncode (run env (cert_push_cmd h))))"
  using assms by (simp add: install_cert_eq Let_def)

lemma install_cert_succeeds:
  assumes "fs st temp_pem = Some content" and "rename_ok env"
    and "returncode (run env (cert_push_cmd h)) = 0"
    and "returncode (run env (cert_chmod_cmd h)) = 0"
    and "returncode (run env [''adb'', ''reboot'']) = 0"
  shows "fst (install_cert env h st) = Inr ()"
  using assms by (simp add: install_cert_eq Let_def)

lemma cert_env_simps:
  "returncode (run env_no_hash (der_cmd c)) = 0"
  "run env_no_hash hash_cmd = reply 1 []"
  "returncode (run env_no_push (der_cmd c)) = 0"
  "run env_no_push hash_cmd = reply 0 ''9a5ba575\<newline>''"
  "returncode (run env_no_push (cert_push_cmd ''9a5ba575.0'')) = 1"
  "returncode (run env_cert_ok (der_cmd c)) = 0"
  "run env_cert_ok hash_cmd = reply 0 ''9a5ba575\<newline>''"
  "returncode (run env_cert_ok (cert_push_cmd h)) = 0"
  "returncode (run env_cert_ok (cert_chmod_cmd h)) = 0"
  "returncode (run env_cert_ok [''adb'', ''reboot'']) = 0"
  by (simp_all add: env_no_hash_def env_no_push_def env_cert_ok_def der_cmd_def hash_cmd_def
      cert_push_cmd_def cert_chmod_cmd_def)

lemma cert_env_tools:
  "check_tool env_no_hash tool" "written env_no_hash cmd = Some ''PEM''" "rename_ok env_no_hash"
  "check_tool env_no_push tool" "written env_no_push cmd = Some ''PEM''" "rename_ok env_no_push"
  "check_tool env_cert_ok tool" "written env_cert_ok cmd = Some ''PEM''" "rename_ok env_cert_ok"
  by (simp_all add: check_tool_def env_no_hash_def env_no_push_def env_cert_ok_def)

section \<open>Listing, selection and the loop over the devices\<close>

lemma adb_listing_devices:
  "parse_devices adb_listing = [''emulator-5554'']"
  "parse_devices adb_listing_two = [''emulator-5554'', ''R58N'']"
  by (simp_all add: parse_devices_def adb_listing_def adb_listing_two_def py_strip_def
      py_split_def is_space_def)

lemma choose_device_eq:
  assumes "returncode (run env [''adb'', ''devices'']) = 0"
    and "parse_devices (stdout (run env [''adb'', ''devices''])) \<noteq> []"
    and "stdin st = line # rest"
  shows "choose_device env st =
     (select_devices (parse_devices (stdout (run env [''adb'', ''devices'']))) (py_strip line),
      (executed env [''adb'', ''devices''] st)\<lparr>stdin := rest,
         trace := trace st @ [Run [''adb'', ''devices''], Input]\<rparr>)"
  using assms
  by (simp add: choose_device_def and_then_def run_command_checked Let_def input_def)

lemma superscript_is_digit: "py_isdigit [CHR 0xB2]" "py_int [CHR 0xB2] = Inl ValueError"
  by (simp_all add: py_isdigit_def is_digit_def py_int_def is_decimal_def)

lemma decimal_is_digit: "list_all is_decimal s \<Longrightarrow> list_all is_digit s"
  by (induction s) (simp_all add: is_digit_def)

lemma py_int_Inr: "py_int s = Inr n \<Longrightarrow> py_isdigit s"
  by (auto simp: py_int_def py_isdigit_def decimal_is_digit split: if_splits)

lemma py_int_Inl: "py_int s = Inl e \<longleftrightarrow> e = ValueError \<and> \<not> (s \<noteq> [] \<and> list_all is_decimal s)"
  by (auto simp: py_int_def)

lemma select_devices_all: "select_devices devices ''0'' = Inr devices"
  by (simp add: select_devices_def)

lemma select_devices_index:
  assumes "choice \<noteq> ''0''" and "py_int choice = Inr n"
    and "1 \<le> n" and "n \<le> int (length devices)"
  shows "select_devices devices choice = Inr [devices ! nat (n - 1)]"
  using assms py_int_Inr [OF assms(2)] by (simp add: select_devices_def)

lemma select_devices_other:
  assumes "choice \<noteq> ''0''"
    and "\<not> py_isdigit choice \<or> (\<exists>n. py_int choice = Inr n \<and> \<not> (1 \<le> n \<and> n \<le> int (length devices)))"
  shows "select_devices devices choice = Inr []"
  using assms by (auto simp: select_devices_def)

lemma select_devices_raises:
  "select_devices devices choice = Inl e \<longleftrightarrow>
     e = ValueError \<and> py_isdigit choice \<and> \<not> list_all is_decimal choice"
proof (cases "choice = ''0''")
  case True
  then show ?thesis by (simp add: select_devices_def is_decimal_def)
next
  case False
  show ?thesis
  proof (cases "py_isdigit choice")
    case False
    with \<open>choice \<noteq> ''0''\<close> show ?thesis by (simp add: select_devices_def)
  next
    case True
    then have ne: "choice \<noteq> []" by (simp add: py_isdigit_def)
    show ?thesis
    proof (cases "py_int choice")
      case (Inl e')
      then have "select_devices devices choice = Inl e'"
        using \<open>choice \<noteq> ''0''\<close> True by (simp add: select_devices_def)
      moreover have "e' = ValueError" "\<not> list_all is_decimal choice"
        using Inl ne by (simp_all add: py_int_Inl)
      ultimately show ?thesis
        using True by auto
    next
      case (Inr n)
      then have "list_all is_decimal choice"
        by (auto simp: py_int_def split: if_splits)
      then show ?thesis
        using \<open>choice \<noteq> ''0''\<close> True Inr by (simp add: select_devices_def)
    qed
  qed
qed

lemma setup_returns:
  assumes "returncode (run env (getprop_cmd serial)) = 0" and "mkdir_ok env"
  shows "\<exists>a. fst (setup_frida_server env serial auto_detect st) = Inr a"
  using assms by (simp add: setup_frida_server_eq)

lemma setup_extends:
  "\<exists>xs. trace (snd (setup_frida_server env serial auto_detect st))
     = trace st @ Run (getprop_cmd serial) # xs"
  using setup_trace [of env serial auto_detect st] by blast

lemma deploy_all_extends: "\<exists>xs. trace (snd (deploy_all env serials st)) = trace st @ xs"
proof (induction serials arbitrary: st)
  case Nil
  show ?case by simp
next
  case (Cons serial rest)
  obtain r st1 where s: "setup_frida_server env serial (AUTO_DETECT_ARCH st) st = (r, st1)"
    by (cases "setup_frida_server env serial (AUTO_DETECT_ARCH st) st")
  from setup_extends [of env serial "AUTO_DETECT_ARCH st" st] s
  obtain xs where xs: "trace st1 = trace st @ Run (getprop_cmd serial) # xs"
    by auto
  show ?case
  proof (cases r)
    case (Inl e)
    then show ?thesis using s xs by simp
  next
    case (Inr a)
    let ?st2 = "if check_tool env ''frida-ps''
      then executed env [''frida-ps'', ''-D'', serial] st1 else st1"
    have d: "deploy_all env (serial # rest) st = deploy_all env rest ?st2"
      using s Inr by simp
    obtain ys where ys: "trace ?st2 = trace st @ ys"
      using xs by (cases "check_tool env ''frida-ps''") simp_all
    from Cons.IH [of ?st2] obtain zs where
      "trace (snd (deploy_all env rest ?st2)) = trace ?st2 @ zs" by blast
    with ys d show ?thesis by simp
  qed
qed

lemma deploy_all_reaches_every_device:
  assumes "list_all (\<lambda>s. returncode (run env (getprop_cmd s)) = 0) serials" and "mkdir_ok env"
  shows "fst (deploy_all env serials st) = Inr () \<and>
         list_all (\<lambda>s. Run (getprop_cmd s) \<in> set (trace (snd (deploy_all env serials st)))) serials"
  using assms(1)
proof (induction serials arbitrary: st)
  case Nil
  show ?case by simp
next
  case (Cons serial rest)
  then have ok: "returncode (run env (getprop_cmd serial)) = 0"
    and rest: "list_all (\<lambda>s. returncode (run env (getprop_cmd s)) = 0) rest"
    by simp_all
  obtain r st1 where s: "setup_frida_server env serial (AUTO_DETECT_ARCH st) st = (r, st1)"
    by (cases "setup_frida_server env serial (AUTO_DETECT_ARCH st) st")
  from setup_returns [OF ok assms(2), of "AUTO_DETECT_ARCH st" st] s
  obtain a where a: "r = Inr a" by auto
  from setup_extends [of env serial "AUTO_DETECT_ARCH st" st] s
  obtain xs where xs: "trace st1 = trace st @ Run (getprop_cmd serial) # xs"
    by auto
  let ?st2 = "if check_tool env ''frida-ps''
      then executed env [''frida-ps'', ''-D'', serial] st1 else st1"
  have d: "deploy_all env (serial # rest) st = deploy_all env rest ?st2"
    using s a by simp
  have here: "Run (getprop_cmd serial) \<in> set (trace ?st2)"
    using xs by (cases "check_tool env ''frida-ps''") simp_all
  from deploy_all_extends [of env rest ?st2] obtain zs where
    zs: "trace (snd (deploy_all env rest ?st2)) = trace ?st2 @ zs" by blast
  have "Run (getprop_cmd serial) \<in> set (trace (snd (deploy_all env rest ?st2)))"
    unfolding zs using here by simp
  with Cons.IH [OF rest, of ?st2] d show ?case
    by simp
qed

section \<open>Steps of the certificate push under an interrupt\<close>

lemma begun_frame [simp]:
  "config (begun cmd st) = config st"
  "fs (begun cmd st) = fs st"
  "trace (begun cmd st) = trace st @ [Run cmd]"
  by (simp_all add: begun_def config_def fixed_config_def arch_config_def)

lemma run_command_irq_config [simp]:
  "config (snd (run_command_irq irq env cmd check st)) = config st"
  by (simp add: run_command_irq_def)

lemma run_command_irq_quiet:
  "\<not> irq cmd \<Longrightarrow> run_command_irq irq env cmd check = run_command env cmd check"
  by (simp add: run_command_irq_def fun_eq_iff)

text \<open>
  A run in which the operator interrupts none of the commands is the run described by
  \<open>convert_cert\<close>, \<open>install_cert\<close> and \<open>push_burp_cert\<close>.
\<close>

lemma convert_cert_irq_quiet:
  assumes "\<not> irq (der_cmd (CERT_FILE st))" and "\<not> irq (pem_cmd (CERT_FILE st))"
    and "\<not> irq hash_cmd"
  shows "convert_cert_irq irq env st = convert_cert env st"
  using assms
  by (simp add: convert_cert_irq_def convert_cert_def run_command_irq_quiet cong: if_cong)

lemma install_cert_irq_quiet:
  assumes "\<not> irq [''adb'', ''root'']" and "\<not> irq [''adb'', ''remount'']"
    and "\<not> irq (cert_push_cmd h)" and "\<not> irq (cert_chmod_cmd h)"
    and "\<not> irq [''adb'', ''reboot'']"
  shows "install_cert_irq irq env h = install_cert env h"
  using assms by (simp add: install_cert_irq_def install_cert_def run_command_irq_quiet)

lemma convert_cert_raises:
  assumes "convert_cert env st = (Inl e, st1)"
  shows "is_exception e"
  using assms by (auto simp: convert_cert_eq Let_def is_exception_def split: if_splits)

lemma install_cert_raises:
  assumes "install_cert env h st = (Inl e, st1)"
  shows "is_exception e"
  using assms
  by (auto simp: install_cert_eq Let_def is_exception_def split: option.splits if_splits)

lemma push_burp_cert_irq_quiet:
  "push_burp_cert_irq (\<lambda>cmd. False) env st =
     (Inr (fst (push_burp_cert env st)), snd (push_burp_cert env st))"
proof -
  have c: "convert_cert_irq (\<lambda>cmd. False) env st = convert_cert env st"
    by (rule convert_cert_irq_quiet) simp_all
  have i: "install_cert_irq (\<lambda>cmd. False) env h = install_cert env h" for h
    by (rule install_cert_irq_quiet) simp_all
  show ?thesis
    by (auto simp: push_burp_cert_irq_def push_burp_cert_def c i
        dest: convert_cert_raises install_cert_raises split: prod.splits sum.splits)
qed

text \<open>\<^verbatim>\<open>convert_cert\<close> and \<^verbatim>\<open>install_cert\<close> under an interrupt, exit by exit.\<close>

lemma convert_cert_irq_eq:
  "convert_cert_irq irq env st =
     (let der = der_cmd (CERT_FILE st); pem = pem_cmd (CERT_FILE st);
          st1 = executed env der st;
          st2 = (if returncode (run env der) \<noteq> 0 then executed env pem st1 else st1)
      in if irq der then (Inl KeyboardInterrupt, begun der st)
         else if returncode (run env der) \<noteq> 0 \<and> irq pem
         then (Inl KeyboardInterrupt, begun pem st1)
         else if returncode (run env der) \<noteq> 0 \<and> returncode (run env pem) \<noteq> 0
         then (Inl (CalledProcessError pem (returncode (run env pem))), st2)
         else if irq hash_cmd then (Inl KeyboardInterrupt, begun hash_cmd st2)
         else if returncode (run env hash_cmd) \<noteq> 0
         then (Inl (CalledProcessError hash_cmd (returncode (run env hash_cmd))),
               executed env hash_cmd st2)
         else (Inr (hd (py_split_on (CHR 0x0A) (py_strip (stdout (run env hash_cmd)))) @ ''.0''),
               executed env hash_cmd st2))"
  by (simp add: convert_cert_irq_def and_then_def run_command_irq_def run_command_checked
      return_def Let_def)

lemma install_cert_irq_eq:
  "install_cert_irq irq env h st =
     (case fs st temp_pem of
        None \<Rightarrow> (Inl OSError, st)
      | Some content \<Rightarrow>
          if \<not> rename_ok env then (Inl OSError, st)
          else
            (let st1 = st\<lparr>fs := ((fs st)(temp_pem := None))(path_str h \<mapsto> content)\<rparr>;
                 st2 = executed env [''adb'', ''root''] st1;
                 st3 = executed env [''adb'', ''remount''] st2;
                 st4 = executed env (cert_push_cmd h) st3;
                 st5 = executed env (cert_chmod_cmd h) st4;
                 st6 = unlink_if_exists (path_str h) st5
             in if irq [''adb'', ''root''] then (Inl KeyboardInterrupt, begun [''adb'', ''root''] st1)
                else if irq [''adb'', ''remount'']
                then (Inl KeyboardInterrupt, begun [''adb'', ''remount''] st2)
                else if irq (cert_push_cmd h)
                then (Inl KeyboardInterrupt, begun (cert_push_cmd h) st3)
                else if returncode (run env (cert_push_cmd h)) \<noteq> 0
                then (Inl (CalledProcessError (cert_push_cmd h)
                             (returncode (run env (cert_push_cmd h)))), st4)
                else if irq (cert_chmod_cmd h)
                then (Inl KeyboardInterrupt, begun (cert_chmod_cmd h) st4)
                else if returncode (run env (cert_chmod_cmd h)) \<noteq> 0
                then (Inl (CalledProcessError (cert_chmod_cmd h)
                             (returncode (run env (cert_chmod_cmd h)))), st5)
                else if irq [''adb'', ''reboot'']
                then (Inl KeyboardInterrupt, begun [''adb'', ''reboot''] st6)
                else if returncode (run env [''adb'', ''reboot'']) \<noteq> 0
                then (Inl (CalledProcessError [''adb'', ''reboot'']
                             (returncode (run env [''adb'', ''reboot'']))),
                      executed env [''adb'', ''reboot''] st6)
                else (Inr (), executed env [''adb'', ''reboot''] st6)))"
  by (simp add: install_cert_irq_def and_then_def rename_def run_command_irq_def
      run_command_checked return_def Let_def split: option.splits)

lemma install_cert_irq_done:
  assumes "install_cert_irq irq env h st = (Inr u, st')"
  shows "fs st' temp_pem = None" and "fs st' (path_str h) = None"
  using assms
  by (auto simp: install_cert_irq_eq Let_def cert_push_cmd_def cert_chmod_cmd_def
      split: option.splits if_splits)

text \<open>
  Whenever the operation returns, interrupted or not, it has removed its temporary files
  or has created none.
\<close>

lemma push_burp_cert_irq_returned:
  assumes "push_burp_cert_irq irq env st = (Inr r, st')"
  shows "r \<in> {NoAdb, NoOpenssl, NoCertFile} \<and> st' = st \<or>
         (r = CertInstalled \<or> (\<exists>e. r = CertFailed e)) \<and> fs st' temp_pem = None \<and>
         (\<forall>h. fst (convert_cert_irq irq env st) = Inr h \<longrightarrow> fs st' (path_str h) = None)"
proof (cases "check_tool env ''adb'' \<and> check_tool env ''openssl'' \<and>
    fs st (path_str (CERT_FILE st)) \<noteq> None")
  case False
  then show ?thesis
    using assms by (auto simp: push_burp_cert_irq_def split: if_splits)
next
  case True
  obtain r1 st1 where c: "convert_cert_irq irq env st = (r1, st1)"
    by (cases "convert_cert_irq irq env st")
  show ?thesis
  proof (cases r1)
    case (Inl e)
    then show ?thesis
      using True assms c by (auto simp: push_burp_cert_irq_def cleanup_fs split: if_splits)
  next
    case (Inr name)
    obtain r2 st2 where i: "install_cert_irq irq env name st1 = (r2, st2)"
      by (cases "install_cert_irq irq env name st1")
    show ?thesis
    proof (cases r2)
      case (Inl e)
      then show ?thesis
        using True assms c Inr i
        by (auto simp: push_burp_cert_irq_def cleanup_fs split: if_splits)
    next
      case (Inr u)
      with i have "install_cert_irq irq env name st1 = (Inr u, st2)" by simp
      from install_cert_irq_done [OF this]
      have "fs st2 temp_pem = None" "fs st2 (path_str name) = None" .
      then show ?thesis
        using True assms c \<open>r1 = Inr name\<close> i Inr
        by (auto simp: push_burp_cert_irq_def)
    qed
  qed
qed

lemma push_burp_cert_irq_config [simp]:
  "config (snd (push_burp_cert_irq irq env st)) = config st"
proof -
  have inner: "config (snd ((if c then run_command_irq irq env cmd True else return result) st))
      = config st" for c cmd result st
    by (cases c) simp_all
  have conv: "config (snd (convert_cert_irq irq env st)) = config st" for st
    unfolding convert_cert_irq_def
    apply (rule config_and_then, simp)
    apply (rule config_and_then, rule inner)
    apply (rule config_and_then, simp)
    apply simp
    done
  have inst: "config (snd (install_cert_irq irq env h st)) = config st" for h st
    unfolding install_cert_irq_def
    apply (rule config_and_then, simp)+
    apply simp
    done
  obtain r1 st1 where c: "convert_cert_irq irq env st = (r1, st1)"
    by (cases "convert_cert_irq irq env st")
  have 1: "config st1 = config st"
    using conv [of st] c by simp
  show ?thesis
  proof (cases r1)
    case (Inl e)
    then show ?thesis using c 1 by (simp add: push_burp_cert_irq_def)
  next
    case (Inr h)
    obtain r2 st2 where i: "install_cert_irq irq env h st1 = (r2, st2)"
      by (cases "install_cert_irq irq env h st1")
    have "config st2 = config st"
      using inst [of h st1] i 1 by simp
    then show ?thesis
      using c Inr i by (cases r2) (simp_all add: push_burp_cert_irq_def)
  qed
qed

section \<open>Module 3 and the menu\<close>

lemma keyed_config: "config st' = config st \<Longrightarrow> keyed st' = keyed st"
  by (simp add: config_def fixed_config_def arch_config_def keyed_def)

lemma config_parts:
  "config st' = config st \<longleftrightarrow> fixed_config st' = fixed_config st \<and> arch_config st' = arch_config st"
  by (auto simp: config_def)

lemma ask_install_config [simp]: "config (snd (ask_install st)) = config st"
  unfolding ask_install_def by (rule config_and_then) simp_all

lemma install_missing_config [simp]:
  "config (snd (install_missing env a b adb_cmd openssl_cmd st)) = config st"
proof -
  have one: "config (snd (and_then (run_command env cmd False) (\<lambda>_. return ()) st)) = config st"
    for cmd st
    by (rule config_and_then) simp_all
  have opt: "config (snd ((if c then and_then (run_command env cmd False) (\<lambda>_. return ())
      else return ()) st)) = config st" for c cmd st
    by (cases c) (simp_all add: one)
  show ?thesis
    unfolding install_missing_def by (rule config_and_then) (simp_all add: opt)
qed

lemma asked_config:
  assumes "\<And>st. config (snd (f st)) = config st"
  shows "config (snd (and_then ask_install (\<lambda>yes. if \<not> yes then return () else f) st)) = config st"
  by (rule config_and_then) (simp_all add: assms)

lemma install_tools_config [simp]: "config (snd (install_tools env st)) = config st"
proof -
  let ?missing = "install_missing env (check_tool env ''adb'') (check_tool env ''openssl'')"
  have windows: "config (snd (and_then ask_install (\<lambda>yes.
      if \<not> yes then return ()
      else if cmd = ''choco''
      then ?missing [''choco'', ''install'', ''adb'', ''-y'']
             [''choco'', ''install'', ''openssl'', ''-y'']
      else if cmd = ''scoop''
      then ?missing [''scoop'', ''install'', ''adb''] [''scoop'', ''install'', ''openssl'']
      else if cmd = ''winget''
      then ?missing [''winget'', ''install'', ''Google.AndroidStudio.PlatformTools'']
             [''winget'', ''install'', ''OpenSSL.Light'']
      else return ()) st)) = config st" for cmd st
    by (rule asked_config) simp
  have apt: "config (snd (and_then (run_command env [''sudo'', ''apt-get'', ''update''] False) (\<lambda>_.
      ?missing [''sudo'', ''apt-get'', ''install'', ''-y'', ''adb'']
        [''sudo'', ''apt-get'', ''install'', ''-y'', ''openssl'']) st)) = config st" for st
    by (rule config_and_then) simp_all
  show ?thesis
    by (simp add: install_tools_def Let_def windows apt asked_config split: list.splits)
qed

lemma show_menu_config [simp]: "config (snd (show_menu st)) = config st"
  unfolding show_menu_def by (rule config_and_then) simp_all

text \<open>The loop over the devices, with auto-detection off and in general.\<close>

lemma deploy_all_arch:
  assumes "\<not> AUTO_DETECT_ARCH st"
  shows "arch_config (snd (deploy_all env serials st)) = arch_config st"
  using assms
proof (induction serials arbitrary: st)
  case Nil
  show ?case by simp
next
  case (Cons serial rest)
  obtain r st1 where s: "setup_frida_server env serial (AUTO_DETECT_ARCH st) st = (r, st1)"
    by (cases "setup_frida_server env serial (AUTO_DETECT_ARCH st) st")
  have fixed: "fixed_config st1 = fixed_config st"
    using setup_fixed_config [of env serial "AUTO_DETECT_ARCH st" st] s by simp
  have arch: "arch_config st1 = arch_config st"
    using setup_arch_config [of env serial "AUTO_DETECT_ARCH st" st] s Cons.prems by simp
  have off: "\<not> AUTO_DETECT_ARCH st1"
    using fixed_config_fields(5) [OF fixed] Cons.prems by simp
  have off': "\<not> AUTO_DETECT_ARCH (executed env cmd st1)" for cmd
    using off by simp
  show ?case
    using s arch Cons.IH [OF off] Cons.IH [OF off']
    by (cases r) (simp_all add: check_tool_def)
qed

lemma deploy_all_keyed:
  assumes "keyed st"
  shows "keyed (snd (deploy_all env serials st))"
  using assms
proof (induction serials arbitrary: st)
  case Nil
  then show ?case by simp
next
  case (Cons serial rest)
  obtain r st1 where s: "setup_frida_server env serial (AUTO_DETECT_ARCH st) st = (r, st1)"
    by (cases "setup_frida_server env serial (AUTO_DETECT_ARCH st) st")
  have k: "keyed st1"
    using setup_keyed [OF Cons.prems, of env serial "AUTO_DETECT_ARCH st"] s by simp
  have k': "keyed (executed env cmd st1)" for cmd
    using k keyed_config [of "executed env cmd st1" st1] by simp
  show ?case
    using s k Cons.IH [OF k] Cons.IH [OF k']
    by (cases r) (simp_all add: check_tool_def)
qed

lemma run_frida_server_arch:
  assumes "\<not> AUTO_DETECT_ARCH st"
  shows "arch_config (snd (run_frida_server env st)) = arch_config st"
proof (cases "check_tool env ''adb''")
  case False
  then show ?thesis by (simp add: run_frida_server_def)
next
  case True
  obtain r st1 where c: "choose_device env st = (r, st1)"
    by (cases "choose_device env st")
  have same: "config st1 = config st"
    using choose_device_config [of env st] c by simp
  then have off: "\<not> AUTO_DETECT_ARCH st1"
    using assms fixed_config_fields(5) [of st1 st] by (simp add: config_parts)
  have "arch_config (snd (deploy_all env selected st1)) = arch_config st" for selected
    using deploy_all_arch [OF off] same by (simp add: config_parts)
  then show ?thesis
    using True c same
    by (cases r) (simp_all add: run_frida_server_def and_then_def config_parts)
qed

lemma run_frida_server_keyed:
  assumes "keyed st"
  shows "keyed (snd (run_frida_server env st))"
proof (cases "check_tool env ''adb''")
  case False
  then show ?thesis using assms by (simp add: run_frida_server_def)
next
  case True
  obtain r st1 where c: "choose_device env st = (r, st1)"
    by (cases "choose_device env st")
  have k: "keyed st1"
    using choose_device_config [of env st] c assms keyed_config [of st1 st] by simp
  then have "keyed (snd (deploy_all env selected st1))" for selected
    by (rule deploy_all_keyed)
  then show ?thesis
    using True c k by (cases r) (simp_all add: run_frida_server_def and_then_def)
qed

text \<open>
  The menu: whatever is chosen, the operation that runs is one of the three modules or
  none.
\<close>

lemma dispatch_cases:
  obtains e where "dispatch irq env st = (Inl e, snd (show_menu st))"
      and "snd (dispatch irq env st) = snd (show_menu st)"
  | "snd (dispatch irq env st) = snd (push_burp_cert_irq irq env (snd (show_menu st)))"
  | "snd (dispatch irq env st) = snd (run_frida_server env (snd (show_menu st)))"
  | "snd (dispatch irq env st) = snd (install_tools env (snd (show_menu st)))"
  | "snd (dispatch irq env st) = snd (show_menu st)"
proof (cases "show_menu st")
  case (Pair r st1)
  show ?thesis
  proof (cases r)
    case (Inl e)
    with Pair that(1) show ?thesis
      by (simp add: dispatch_def and_then_def)
  next
    case (Inr choice)
    have push: "snd (and_then (push_burp_cert_irq irq env) (\<lambda>_. return ()) st1)
        = snd (push_burp_cert_irq irq env st1)"
      by (simp add: and_then_def split: prod.splits sum.splits)
    from Pair Inr push that(2-5) show ?thesis
      by (cases "choice = ''1''"; cases "choice = ''2''"; cases "choice = ''3''")
        (simp_all add: dispatch_def and_then_def)
  qed
qed

lemma menu_frames [simp]:
  "fixed_config (snd (show_menu st)) = fixed_config st"
  "arch_config (snd (show_menu st)) = arch_config st"
  "fixed_config (snd (push_burp_cert_irq irq env st)) = fixed_config st"
  "arch_config (snd (push_burp_cert_irq irq env st)) = arch_config st"
  "fixed_config (snd (install_tools env st)) = fixed_config st"
  "arch_config (snd (install_tools env st)) = arch_config st"
  using show_menu_config [of st, unfolded config_parts]
    push_burp_cert_irq_config [of irq env st, unfolded config_parts]
    install_tools_config [of env st, unfolded config_parts]
  by simp_all

lemma dispatch_fixed [simp]: "fixed_config (snd (dispatch irq env st)) = fixed_config st"
  by (rule dispatch_cases [of irq env st]) simp_all

lemma dispatch_arch:
  assumes "\<not> AUTO_DETECT_ARCH st"
  shows "arch_config (snd (dispatch irq env st)) = arch_config st"
proof -
  have "fixed_config (snd (show_menu st)) = fixed_config st"
    by simp
  then have off: "\<not> AUTO_DETECT_ARCH (snd (show_menu st))"
    using assms fixed_config_fields(5) [of "snd (show_menu st)" st] by simp
  show ?thesis
    by (rule dispatch_cases [of irq env st]) (simp_all add: run_frida_server_arch [OF off])
qed

lemma dispatch_keyed:
  assumes "keyed st"
  shows "keyed (snd (dispatch irq env st))"
proof -
  have menu: "keyed (snd (show_menu st))"
    using assms keyed_config [of "snd (show_menu st)" st] by simp
  have push: "keyed (snd (push_burp_cert_irq irq env (snd (show_menu st))))"
    using menu keyed_config [of "snd (push_burp_cert_irq irq env (snd (show_menu st)))"
        "snd (show_menu st)"] by simp
  have tools: "keyed (snd (install_tools env (snd (show_menu st))))"
    using menu keyed_config [of "snd (install_tools env (snd (show_menu st)))"
        "snd (show_menu st)"] by simp
  show ?thesis
    by (rule dispatch_cases [of irq env st])
      (simp_all add: menu push tools run_frida_server_keyed)
qed

lemma main_eq:
  "snd (main irq env a st) =
     (if fst (configure a st) = None then snd (dispatch irq env (snd (configure a st)))
      else snd (configure a st))"
  by (simp add: main_def split: prod.splits option.splits)

text \<open>What the start-up code assigns, when both validations pass.\<close>

lemma configure_config:
  assumes "fst (configure a st) = None"
  shows "config (snd (configure a st)) =
     ((cert_file a, frida_version a,
       auto_detect_arch a \<or> frida_arch a = None \<or> frida_arch a = Some [],
       LOCAL_DIR st, LOCAL_BIN st),
      (chosen_arch a, frida_url (frida_version a) (chosen_arch a),
       path_join (LOCAL_DIR st) (xz_name (frida_version a) (chosen_arch a))))"
  using assms
  by (auto simp: configure_def config_def fixed_config_def arch_config_def chosen_arch_def
      Let_def split: if_splits option.splits)

section \<open>Interrupted runs, evaluated\<close>

lemma operator_simps [simp]:
  "no_interrupt c = False"
  "during cmd c = (c = cmd)"
  by (simp_all add: no_interrupt_def during_def)

lemma no_interrupt_eq: "no_interrupt = (\<lambda>cmd. False)"
  by (simp add: fun_eq_iff)

lemma push_burp_cert_irq_entered:
  assumes "check_tool env ''adb''" and "check_tool env ''openssl''"
    and "fs st (path_str (CERT_FILE st)) \<noteq> None"
  shows "push_burp_cert_irq irq env st =
     (case convert_cert_irq irq env st of
        (Inl e, st1) \<Rightarrow>
          if is_exception e then (Inr (CertFailed e), cleanup None st1) else (Inl e, st1)
      | (Inr hash_name, st1) \<Rightarrow>
          (case install_cert_irq irq env hash_name st1 of
             (Inl e, st2) \<Rightarrow>
               if is_exception e then (Inr (CertFailed e), cleanup (Some hash_name) st2)
               else (Inl e, st2)
           | (Inr _, st2) \<Rightarrow> (Inr CertInstalled, st2)))"
  using assms by (auto simp: push_burp_cert_irq_def)

lemma convert_cert_irq_at_hash:
  assumes "\<not> irq (der_cmd (CERT_FILE st))"
    and "returncode (run env (der_cmd (CERT_FILE st))) = 0" and "irq hash_cmd"
  shows "convert_cert_irq irq env st =
     (Inl KeyboardInterrupt, begun hash_cmd (executed env (der_cmd (CERT_FILE st)) st))"
  using assms by (simp add: convert_cert_irq_eq Let_def)

lemma install_cert_irq_at_push:
  assumes "fs st temp_pem = Some content" and "rename_ok env"
    and "\<not> irq [''adb'', ''root'']" and "\<not> irq [''adb'', ''remount'']"
    and "irq (cert_push_cmd h)"
  shows "install_cert_irq irq env h st =
     (Inl KeyboardInterrupt,
      begun (cert_push_cmd h)
        (executed env [''adb'', ''remount'']
          (executed env [''adb'', ''root'']
            (st\<lparr>fs := ((fs st)(temp_pem := None))(path_str h \<mapsto> content)\<rparr>))))"
  using assms by (simp add: install_cert_irq_eq Let_def)

lemma cert_cmd_distinct [simp]:
  "der_cmd c \<noteq> hash_cmd" "der_cmd c \<noteq> cert_push_cmd h"
  "hash_cmd \<noteq> cert_push_cmd h"
  "[''adb'', ''root''] \<noteq> cert_push_cmd h" "[''adb'', ''remount''] \<noteq> cert_push_cmd h"
  by (simp_all add: der_cmd_def pem_cmd_def hash_cmd_def cert_push_cmd_def)

text \<open>
  With the tools of \<open>env_cert_ok\<close> and the certificate \<^verbatim>\<open>./burp.cer\<close> in place: the run
  that is interrupted during the hash command, and the run that is interrupted during
  the push.
\<close>

lemma interrupted_at_hash:
  assumes "CERT_FILE st = ''./burp.cer''" and "fs st ''burp.cer'' = Some content"
  shows "fst (push_burp_cert_irq (during hash_cmd) env_cert_ok st) = Inl KeyboardInterrupt"
    and "fs (snd (push_burp_cert_irq (during hash_cmd) env_cert_ok st)) temp_pem = Some ''PEM''"
    and "trace (snd (push_burp_cert_irq (during hash_cmd) env_cert_ok st)) =
      trace st @ [Run (der_cmd ''./burp.cer''), Run hash_cmd]"
proof -
  have cert: "fs st (path_str (CERT_FILE st)) \<noteq> None"
    using assms by simp
  have c: "convert_cert_irq (during hash_cmd) env_cert_ok st =
      (Inl KeyboardInterrupt, begun hash_cmd (executed env_cert_ok (der_cmd (CERT_FILE st)) st))"
    by (rule convert_cert_irq_at_hash) (simp_all add: cert_env_simps)
  have w: "fs (executed env_cert_ok (der_cmd (CERT_FILE st)) st) temp_pem = Some ''PEM''"
    by (rule convert_cert_writes_temp(1)) (simp_all add: cert_env_simps cert_env_tools)
  have p: "push_burp_cert_irq (during hash_cmd) env_cert_ok st =
      (Inl KeyboardInterrupt, begun hash_cmd (executed env_cert_ok (der_cmd (CERT_FILE st)) st))"
    by (simp add: push_burp_cert_irq_entered [OF cert_env_tools(7) cert_env_tools(7) cert] c
        is_exception_def)
  show "fst (push_burp_cert_irq (during hash_cmd) env_cert_ok st) = Inl KeyboardInterrupt"
    by (simp add: p)
  show "fs (snd (push_burp_cert_irq (during hash_cmd) env_cert_ok st)) temp_pem = Some ''PEM''"
    using w by (simp add: p)
  show "trace (snd (push_burp_cert_irq (during hash_cmd) env_cert_ok st)) =
      trace st @ [Run (der_cmd ''./burp.cer''), Run hash_cmd]"
    by (simp add: p assms(1))
qed

lemma interrupted_at_push:
  assumes "CERT_FILE st = ''./burp.cer''" and "fs st ''burp.cer'' = Some content"
  shows "fst (push_burp_cert_irq (during (cert_push_cmd ''9a5ba575.0'')) env_cert_ok st)
      = Inl KeyboardInterrupt"
    and "fs (snd (push_burp_cert_irq (during (cert_push_cmd ''9a5ba575.0'')) env_cert_ok st))
      ''9a5ba575.0'' = Some ''PEM''"
    and "trace (snd (push_burp_cert_irq (during (cert_push_cmd ''9a5ba575.0'')) env_cert_ok st)) =
      trace st @ [Run (der_cmd ''./burp.cer''), Run hash_cmd, Run [''adb'', ''root''],
                  Run [''adb'', ''remount''], Run (cert_push_cmd ''9a5ba575.0'')]"
proof -
  let ?irq = "during (cert_push_cmd ''9a5ba575.0'')"
  let ?st1 = "snd (convert_cert env_cert_ok st)"
  have cert: "fs st (path_str (CERT_FILE st)) \<noteq> None"
    using assms by simp
  have q: "convert_cert_irq ?irq env_cert_ok st = convert_cert env_cert_ok st"
    by (rule convert_cert_irq_quiet) (simp_all add: pem_is_not_adb)
  have h: "fst (convert_cert env_cert_ok st) = Inr ''9a5ba575.0''"
    by (simp add: convert_cert_hash cert_env_simps)
  have t: "fs ?st1 temp_pem = Some ''PEM''"
    by (rule convert_cert_writes_temp(2)) (simp_all add: cert_env_simps cert_env_tools)
  have tr: "trace ?st1 = trace st @ [Run (der_cmd ''./burp.cer''), Run hash_cmd]"
    by (simp add: convert_cert_trace cert_env_simps assms(1))
  have c: "convert_cert_irq ?irq env_cert_ok st = (Inr ''9a5ba575.0'', ?st1)"
    using h by (simp add: q prod_eq_iff)
  have i: "install_cert_irq ?irq env_cert_ok ''9a5ba575.0'' ?st1 =
     (Inl KeyboardInterrupt,
      begun (cert_push_cmd ''9a5ba575.0'')
        (executed env_cert_ok [''adb'', ''remount'']
          (executed env_cert_ok [''adb'', ''root'']
            (?st1\<lparr>fs := ((fs ?st1)(temp_pem := None))(path_str ''9a5ba575.0'' \<mapsto> ''PEM'')\<rparr>))))"
    by (rule install_cert_irq_at_push [OF t cert_env_tools(9)]) simp_all
  have p: "push_burp_cert_irq ?irq env_cert_ok st =
     (Inl KeyboardInterrupt,
      begun (cert_push_cmd ''9a5ba575.0'')
        (executed env_cert_ok [''adb'', ''remount'']
          (executed env_cert_ok [''adb'', ''root'']
            (?st1\<lparr>fs := ((fs ?st1)(temp_pem := None))(path_str ''9a5ba575.0'' \<mapsto> ''PEM'')\<rparr>))))"
    by (simp add: push_burp_cert_irq_entered [OF cert_env_tools(7) cert_env_tools(7) cert] c i
        is_exception_def)
  show "fst (push_burp_cert_irq ?irq env_cert_ok st) = Inl KeyboardInterrupt"
    by (simp add: p)
  show "fs (snd (push_burp_cert_irq ?irq env_cert_ok st)) ''9a5ba575.0'' = Some ''PEM''"
    by (simp add: p)
  show "trace (snd (push_burp_cert_irq ?irq env_cert_ok st)) =
      trace st @ [Run (der_cmd ''./burp.cer''), Run hash_cmd, Run [''adb'', ''root''],
                  Run [''adb'', ''remount''], Run (cert_push_cmd ''9a5ba575.0'')]"
    by (simp add: p tr)
qed

text \<open>The menu when the operator types \<^verbatim>\<open>1\<close>, and start-up with the default arguments.\<close>

lemma dispatch_1:
  assumes "stdin st = ''1'' # rest"
  shows "snd (dispatch irq env st) =
     snd (push_burp_cert_irq irq env (st\<lparr>stdin := rest, trace := trace st @ [Input]\<rparr>))"
  using assms
  by (simp add: dispatch_def show_menu_def input_def and_then_def return_def py_strip_def
      is_space_def split: prod.splits sum.splits)

lemma configure_default_typing:
  "configure args_default (typing lines) = (None, st_default\<lparr>stdin := lines\<rparr>)"
  by (simp add: configure_def args_default_def typing_def st_loaded_def st_default_def Let_def)

lemma main_1:
  "fst (main irq env args_default (typing [''1''])) = 0"
  "snd (main irq env args_default (typing [''1''])) =
     snd (push_burp_cert_irq irq env (st_default\<lparr>stdin := [], trace := [Input]\<rparr>))"
  by (simp_all add: main_def configure_default_typing dispatch_1 [where rest = "[]"])

section \<open>The cache does not short-circuit the download (C1)\<close>

text \<open>
  C1, as stated, fails: \<^verbatim>\<open>setup_frida_server\<close> never looks whether the target file
  exists before it calls \<^verbatim>\<open>urlretrieve\<close>. With both forms of the artifact for
  \<^verbatim>\<open>("17.5.2", "android-arm64")\<close> in the cache, two successive deployments to an
  \<^verbatim>\<open>arm64-v8a\<close> device, which keep that pair, invoke the download function twice.
\<close>

theorem cache_hit_downloads_again:
  "fs st_cached (LOCAL_XZ st_cached) = Some ''xz-17.5.2-arm64'' \<and>
   fs st_cached (LOCAL_BIN st_cached) = Some ''elf-17.5.2-arm64'' \<and>
   downloads st_cached = 0 \<and>
   arch_config (snd (setup_frida_server env_two ''R58N'' True st_cached)) = arch_config st_cached \<and>
   downloads (snd (setup_frida_server env_two ''R58N'' True
                (snd (setup_frida_server env_two ''R58N'' True st_cached)))) = 2"
proof -
  have files: "fs st_cached (LOCAL_XZ st_cached) = Some ''xz-17.5.2-arm64''"
    "fs st_cached (LOCAL_BIN st_cached) = Some ''elf-17.5.2-arm64''"
    by (simp_all add: st_cached_def st_default_def path_join_def xz_name_def)
  have none: "downloads st_cached = 0"
    by (simp add: downloads_def)
  have "arch_config (snd (setup_frida_server env_two ''R58N'' True st_cached)) =
      (''android-arm64'', frida_url ''17.5.2'' ''android-arm64'',
       path_join ''/home/user/tmp'' (xz_name ''17.5.2'' ''android-arm64''))"
    by (simp add: setup_arch_config Let_def)
  also have "\<dots> = arch_config st_cached"
    by (simp add: arch_config_def st_cached_def st_default_def)
  finally have same: "arch_config (snd (setup_frida_server env_two ''R58N'' True st_cached))
      = arch_config st_cached" .
  have twice: "downloads (snd (setup_frida_server env_two ''R58N'' True
                (snd (setup_frida_server env_two ''R58N'' True st_cached)))) = 2"
    by (simp add: downloads_setup none)
  from files none same twice show ?thesis by simp
qed

text \<open>
  C1, amended. Whether or not the artifact is already in the cache, every deployment
  whose ABI query succeeds and whose cache directory can be created invokes the download
  function exactly once, so two successive such deployments invoke it exactly twice.
\<close>

theorem every_deployment_downloads:
  assumes "returncode (run env (getprop_cmd serial)) = 0" and "mkdir_ok env"
  shows "downloads (snd (setup_frida_server env serial auto_detect st)) = downloads st + 1 \<and>
         downloads (snd (setup_frida_server env serial auto_detect
                      (snd (setup_frida_server env serial auto_detect st)))) = downloads st + 2"
  using assms by (simp add: downloads_setup)

theorem every_deployment_downloads_witness:
  "returncode (run env_two (getprop_cmd ''R58N'')) = 0 \<and> mkdir_ok env_two \<and>
   fs st_cached (LOCAL_XZ st_cached) \<noteq> None \<and>
   downloads (snd (setup_frida_server env_two ''R58N'' True st_cached)) = downloads st_cached + 1 \<and>
   downloads (snd (setup_frida_server env_two ''R58N'' True
                (snd (setup_frida_server env_two ''R58N'' True st_cached)))) = downloads st_cached + 2"
proof -
  have h: "returncode (run env_two (getprop_cmd ''R58N'')) = 0" "mkdir_ok env_two"
    by simp_all
  have f: "fs st_cached (LOCAL_XZ st_cached) \<noteq> None"
    by (simp add: st_cached_def st_default_def path_join_def xz_name_def)
  from every_deployment_downloads [OF h, of True st_cached] h f show ?thesis
    by blast
qed

section \<open>One device failing, the others waiting (C2)\<close>

text \<open>
  C2, at an input where the code departs from it. Two devices are listed and the operator
  selects both; the first stops answering, so that its ABI query exits with status 1.
  That query is the one command of \<^verbatim>\<open>setup_frida_server\<close> run with the default
  \<^verbatim>\<open>check=True\<close>: \<^verbatim>\<open>CalledProcessError\<close> leaves \<^verbatim>\<open>setup_frida_server\<close>, the loop and
  \<^verbatim>\<open>run_frida_server\<close>, and no command is ever run for the second device. The claim says
  that the loop always proceeds to the next selected device.
\<close>

theorem failed_abi_query_ends_the_loop:
  "parse_devices adb_listing_two = [''emulator-5554'', ''R58N''] \<and>
   fst (run_frida_server env_first_gone (st_default\<lparr>stdin := [''0'']\<rparr>)) =
     Inl (CalledProcessError (getprop_cmd ''emulator-5554'') 1) \<and>
   trace (snd (run_frida_server env_first_gone (st_default\<lparr>stdin := [''0'']\<rparr>))) =
     [Run [''adb'', ''devices''], Input, Run (getprop_cmd ''emulator-5554'')]"
proof -
  let ?st = "st_default\<lparr>stdin := [''0'']\<rparr>"
  have run: "run env_first_gone [''adb'', ''devices''] = reply 0 adb_listing_two"
    "returncode (run env_first_gone (getprop_cmd ''emulator-5554'')) = 1"
    by (simp_all add: env_first_gone_def getprop_cmd_def)
  have tool: "check_tool env_first_gone ''adb''"
    by (simp add: check_tool_def env_first_gone_def)
  have strip: "py_strip ''0'' = ''0''"
    by (simp add: py_strip_def is_space_def)
  define st1 where "st1 = (executed env_first_gone [''adb'', ''devices''] ?st)\<lparr>stdin := [],
         trace := trace ?st @ [Run [''adb'', ''devices''], Input]\<rparr>"
  have c: "choose_device env_first_gone ?st = (Inr [''emulator-5554'', ''R58N''], st1)"
    unfolding st1_def
    by (subst choose_device_eq [where line = "''0''" and rest = "[]"])
      (simp_all add: run adb_listing_devices strip select_devices_all)
  have t1: "trace st1 = [Run [''adb'', ''devices''], Input]"
    by (simp add: st1_def)
  have d: "deploy_all env_first_gone [''emulator-5554'', ''R58N''] st1 =
      (Inl (CalledProcessError (getprop_cmd ''emulator-5554'') 1),
       executed env_first_gone (getprop_cmd ''emulator-5554'') st1)"
    by (simp add: setup_frida_server_eq run)
  have "run_frida_server env_first_gone ?st =
      deploy_all env_first_gone [''emulator-5554'', ''R58N''] st1"
    using tool by (simp add: run_frida_server_def and_then_def c del: deploy_all.simps)
  with d have "run_frida_server env_first_gone ?st =
      (Inl (CalledProcessError (getprop_cmd ''emulator-5554'') 1),
       executed env_first_gone (getprop_cmd ''emulator-5554'') st1)"
    by simp
  then show ?thesis
    by (simp add: adb_listing_devices t1)
qed

text \<open>
  What does hold of the loop: when the ABI query of every selected device succeeds and
  the cache directory can be created, no failure of a download, of an extraction, of a
  push or of any later command ends the loop, and every selected device is attempted
  (\<open>deploy_all_reaches_every_device\<close>).
\<close>

section \<open>The configuration after start-up (C3)\<close>

text \<open>
  C3, as stated, fails: \<^verbatim>\<open>setup_frida_server\<close> declares \<^verbatim>\<open>FRIDA_ARCH\<close>, \<^verbatim>\<open>FRIDA_URL\<close> and
  \<^verbatim>\<open>LOCAL_XZ\<close> global and assigns them when it detects the architecture. After start-up
  with the default arguments the architecture is \<^verbatim>\<open>android-arm64\<close> and auto-detection is
  on; the deployment to an \<^verbatim>\<open>x86\<close> device changes the architecture to \<^verbatim>\<open>android-x86\<close>.
\<close>

theorem deployment_changes_architecture:
  "configure args_default st_loaded = (None, st_default) \<and>
   FRIDA_ARCH st_default = ''android-arm64'' \<and>
   FRIDA_ARCH (snd (setup_frida_server env_two ''emulator-5554''
                      (AUTO_DETECT_ARCH st_default) st_default)) = ''android-x86''"
proof -
  have "arch_config (snd (setup_frida_server env_two ''emulator-5554'' True st_default)) =
      (''android-x86'', frida_url ''17.5.2'' ''android-x86'',
       path_join ''/home/user/tmp'' (xz_name ''17.5.2'' ''android-x86''))"
    by (simp add: setup_arch_config Let_def)
  then have "FRIDA_ARCH (snd (setup_frida_server env_two ''emulator-5554'' True st_default))
      = ''android-x86''"
    by (simp add: arch_config_def)
  then show ?thesis
    by (simp add: configure_default)
qed

text \<open>
  C3, amended. The configuration is assigned by the start-up code of \<^verbatim>\<open>main\<close>, from the
  arguments: when both validations pass, it is the certificate path, the version and the
  flag given (the flag is set as well when no architecture is given), the architecture
  given or \<^verbatim>\<open>android-arm64\<close>, and the URL and the path of the compressed artifact derived
  from the version and that architecture. After start-up, whatever the operator chooses
  from the menu and however the chosen module ends, the certificate path, the version,
  the auto-detect flag, the cache directory and the path of the decompressed binary
  (\<open>fixed_config\<close>) are as start-up left them. The architecture, the URL and the path of
  the compressed artifact (\<open>arch_config\<close>) are not read-only: they are as start-up left
  them when auto-detection is off, and with auto-detection on they remain derived from
  the version and the architecture in use (\<open>keyed\<close>). Operation by operation: the
  certificate push, interrupted or not, the tool installation and the device selection
  change nothing of the configuration; the deployment module changes nothing of
  \<open>fixed_config\<close>, and nothing of \<open>arch_config\<close> when auto-detection is off; a per-device
  deployment with auto-detection whose ABI query succeeds assigns \<open>arch_config\<close> the
  architecture mapped from the device's ABI and the URL and path derived from the version
  and that architecture, and a deployment without auto-detection or whose ABI query fails
  leaves it as it was.
\<close>

theorem configuration_after_startup:
  "(fst (configure a st) = None \<longrightarrow>
      config (snd (configure a st)) =
        ((cert_file a, frida_version a,
          auto_detect_arch a \<or> frida_arch a = None \<or> frida_arch a = Some [],
          LOCAL_DIR st, LOCAL_BIN st),
         (chosen_arch a, frida_url (frida_version a) (chosen_arch a),
          path_join (LOCAL_DIR st) (xz_name (frida_version a) (chosen_arch a)))) \<and>
      keyed (snd (main irq env a st))) \<and>
   fixed_config (snd (main irq env a st)) = fixed_config (snd (configure a st)) \<and>
   (\<not> AUTO_DETECT_ARCH (snd (configure a st)) \<longrightarrow>
      arch_config (snd (main irq env a st)) = arch_config (snd (configure a st))) \<and>
   fixed_config (snd (dispatch irq env st)) = fixed_config st \<and>
   (\<not> AUTO_DETECT_ARCH st \<longrightarrow> arch_config (snd (dispatch irq env st)) = arch_config st) \<and>
   (keyed st \<longrightarrow> keyed (snd (dispatch irq env st))) \<and>
   config (snd (push_burp_cert_irq irq env st)) = config st \<and>
   config (snd (push_burp_cert env st)) = config st \<and>
   config (snd (install_tools env st)) = config st \<and>
   config (snd (choose_device env st)) = config st \<and>
   fixed_config (snd (run_frida_server env st)) = fixed_config st \<and>
   (\<not> AUTO_DETECT_ARCH st \<longrightarrow> arch_config (snd (run_frida_server env st)) = arch_config st) \<and>
   fixed_config (snd (setup_frida_server env serial auto_detect st)) = fixed_config st \<and>
   arch_config (snd (setup_frida_server env serial auto_detect st)) =
     (if auto_detect \<and> returncode (run env (getprop_cmd serial)) = 0
      then (let arch = map_abi_to_frida_arch (py_strip (stdout (run env (getprop_cmd serial))))
            in (arch, frida_url (FRIDA_VER st) arch,
                path_join (LOCAL_DIR st) (xz_name (FRIDA_VER st) arch)))
      else arch_config st)"
proof -
  have start: "config (snd (configure a st)) =
        ((cert_file a, frida_version a,
          auto_detect_arch a \<or> frida_arch a = None \<or> frida_arch a = Some [],
          LOCAL_DIR st, LOCAL_BIN st),
         (chosen_arch a, frida_url (frida_version a) (chosen_arch a),
          path_join (LOCAL_DIR st) (xz_name (frida_version a) (chosen_arch a))))"
    and key: "keyed (snd (main irq env a st))"
    if ok: "fst (configure a st) = None"
  proof -
    show "config (snd (configure a st)) =
        ((cert_file a, frida_version a,
          auto_detect_arch a \<or> frida_arch a = None \<or> frida_arch a = Some [],
          LOCAL_DIR st, LOCAL_BIN st),
         (chosen_arch a, frida_url (frida_version a) (chosen_arch a),
          path_join (LOCAL_DIR st) (xz_name (frida_version a) (chosen_arch a))))"
      using ok by (rule configure_config)
    have "configure a st = (None, snd (configure a st))"
      using ok by (cases "configure a st") simp
    then have "keyed (snd (configure a st))"
      by (rule configure_keyed)
    then have "keyed (snd (dispatch irq env (snd (configure a st))))"
      by (rule dispatch_keyed)
    then show "keyed (snd (main irq env a st))"
      using ok by (simp add: main_eq)
  qed
  have main_fixed: "fixed_config (snd (main irq env a st)) = fixed_config (snd (configure a st))"
    by (simp add: main_eq)
  have main_arch: "arch_config (snd (main irq env a st)) = arch_config (snd (configure a st))"
    if "\<not> AUTO_DETECT_ARCH (snd (configure a st))"
    using that by (simp add: main_eq dispatch_arch)
  have menu_arch: "arch_config (snd (dispatch irq env st)) = arch_config st"
    if "\<not> AUTO_DETECT_ARCH st"
    using that by (rule dispatch_arch)
  have menu_keyed: "keyed (snd (dispatch irq env st))" if "keyed st"
    using that by (rule dispatch_keyed)
  have module2: "arch_config (snd (run_frida_server env st)) = arch_config st"
    if "\<not> AUTO_DETECT_ARCH st"
    using that by (rule run_frida_server_arch)
  have device: "arch_config (snd (setup_frida_server env serial auto_detect st)) =
     (if auto_detect \<and> returncode (run env (getprop_cmd serial)) = 0
      then (let arch = map_abi_to_frida_arch (py_strip (stdout (run env (getprop_cmd serial))))
            in (arch, frida_url (FRIDA_VER st) arch,
                path_join (LOCAL_DIR st) (xz_name (FRIDA_VER st) arch)))
      else arch_config st)"
    by (rule setup_arch_config)
  have others: "config (snd (push_burp_cert_irq irq env st)) = config st"
    "config (snd (push_burp_cert env st)) = config st"
    "config (snd (install_tools env st)) = config st"
    "config (snd (choose_device env st)) = config st"
    "fixed_config (snd (dispatch irq env st)) = fixed_config st"
    "fixed_config (snd (run_frida_server env st)) = fixed_config st"
    "fixed_config (snd (setup_frida_server env serial auto_detect st)) = fixed_config st"
    by (simp_all add: setup_fixed_config)
  from start key main_fixed main_arch menu_arch menu_keyed module2 device others
  show ?thesis
    by blast
qed

lemma args_x86_fields [simp]:
  "frida_version args_x86 = ''17.5.2''"
  "frida_arch args_x86 = Some ''android-x86''"
  "cert_file args_x86 = ''./burp.cer''"
  "\<not> auto_detect_arch args_x86"
  "chosen_arch args_x86 = ''android-x86''"
  by (simp_all add: args_x86_def args_default_def chosen_arch_def)

lemma configure_x86:
  "fst (configure args_x86 (typing lines)) = None"
  "\<not> AUTO_DETECT_ARCH (snd (configure args_x86 (typing lines)))"
  "\<not> AUTO_DETECT_ARCH (typing lines)"
  "LOCAL_DIR (typing lines) = ''/home/user/tmp''"
  "LOCAL_BIN (typing lines) = ''/home/user/tmp/frida-server''"
  by (simp_all add: configure_def Let_def validate_frida_arch_def valid_archs_def typing_def
      st_loaded_def)

theorem configuration_after_startup_witness:
  "fst (configure args_x86 (typing [''2'', ''0''])) = None \<and>
   \<not> AUTO_DETECT_ARCH (snd (configure args_x86 (typing [''2'', ''0'']))) \<and>
   config (snd (main no_interrupt env_listing args_x86 (typing [''2'', ''0'']))) =
     ((''./burp.cer'', ''17.5.2'', False, ''/home/user/tmp'', ''/home/user/tmp/frida-server''),
      (''android-x86'', frida_url ''17.5.2'' ''android-x86'',
       path_join ''/home/user/tmp'' (xz_name ''17.5.2'' ''android-x86''))) \<and>
   keyed (snd (main no_interrupt env_listing args_x86 (typing [''2'', ''0'']))) \<and>
   \<not> AUTO_DETECT_ARCH (typing [''2'', ''0'']) \<and>
   arch_config (snd (dispatch no_interrupt env_listing (typing [''2'', ''0''])))
     = arch_config (typing [''2'', ''0'']) \<and>
   arch_config (snd (run_frida_server env_listing (typing [''0''])))
     = arch_config (typing [''0'']) \<and>
   keyed st_default \<and> keyed (snd (dispatch no_interrupt env_listing st_default)) \<and>
   fixed_config (snd (setup_frida_server env_two ''emulator-5554'' True st_default))
     = fixed_config st_default \<and>
   arch_config (snd (setup_frida_server env_two ''emulator-5554'' True st_default)) =
     (''android-x86'', frida_url ''17.5.2'' ''android-x86'',
      path_join ''/home/user/tmp'' (xz_name ''17.5.2'' ''android-x86'')) \<and>
   arch_config (snd (setup_frida_server env_two ''emulator-5554'' False st_default))
     = arch_config st_default"
proof -
  note run = configuration_after_startup [where a = args_x86 and st = "typing [''2'', ''0'']"
      and irq = no_interrupt and env = env_listing and serial = "[]" and auto_detect = False]
  note module2 = configuration_after_startup [where a = args_x86 and st = "typing [''0'']"
      and irq = no_interrupt and env = env_listing and serial = "[]" and auto_detect = False]
  note menu = configuration_after_startup [where a = args_x86 and st = st_default
      and irq = no_interrupt and env = env_listing and serial = "[]" and auto_detect = False]
  note auto = configuration_after_startup [where a = args_x86 and st = st_default
      and irq = no_interrupt and env = env_two and serial = "''emulator-5554''"
      and auto_detect = True]
  note fixed = configuration_after_startup [where a = args_x86 and st = st_default
      and irq = no_interrupt and env = env_two and serial = "''emulator-5554''"
      and auto_detect = False]
  have "fixed_config (snd (main no_interrupt env_listing args_x86 (typing [''2'', ''0'']))) =
      fixed_config (snd (configure args_x86 (typing [''2'', ''0'']))) \<and>
    arch_config (snd (main no_interrupt env_listing args_x86 (typing [''2'', ''0'']))) =
      arch_config (snd (configure args_x86 (typing [''2'', ''0''])))"
    using run configure_x86(2) [of "[''2'', ''0'']"] by blast
  then have "config (snd (main no_interrupt env_listing args_x86 (typing [''2'', ''0'']))) =
      config (snd (configure args_x86 (typing [''2'', ''0''])))"
    by (simp only: config_parts)
  moreover have "config (snd (configure args_x86 (typing [''2'', ''0'']))) =
     ((''./burp.cer'', ''17.5.2'', False, ''/home/user/tmp'', ''/home/user/tmp/frida-server''),
      (''android-x86'', frida_url ''17.5.2'' ''android-x86'',
       path_join ''/home/user/tmp'' (xz_name ''17.5.2'' ''android-x86'')))"
  proof -
    from run configure_x86(1) [of "[''2'', ''0'']"]
    have "config (snd (configure args_x86 (typing [''2'', ''0'']))) =
        ((cert_file args_x86, frida_version args_x86,
          auto_detect_arch args_x86 \<or> frida_arch args_x86 = None \<or> frida_arch args_x86 = Some [],
          LOCAL_DIR (typing [''2'', ''0'']), LOCAL_BIN (typing [''2'', ''0''])),
         (chosen_arch args_x86, frida_url (frida_version args_x86) (chosen_arch args_x86),
          path_join (LOCAL_DIR (typing [''2'', ''0'']))
            (xz_name (frida_version args_x86) (chosen_arch args_x86))))"
      by blast
    then show ?thesis
      by (simp add: configure_x86)
  qed
  ultimately have 1: "config (snd (main no_interrupt env_listing args_x86 (typing [''2'', ''0'']))) =
     ((''./burp.cer'', ''17.5.2'', False, ''/home/user/tmp'', ''/home/user/tmp/frida-server''),
      (''android-x86'', frida_url ''17.5.2'' ''android-x86'',
       path_join ''/home/user/tmp'' (xz_name ''17.5.2'' ''android-x86'')))"
    by simp
  have 2: "keyed (snd (main no_interrupt env_listing args_x86 (typing [''2'', ''0''])))"
    using run configure_x86(1) [of "[''2'', ''0'']"] by blast
  have 3: "arch_config (snd (dispatch no_interrupt env_listing (typing [''2'', ''0''])))
     = arch_config (typing [''2'', ''0''])"
    using run configure_x86(3) [of "[''2'', ''0'']"] by blast
  have 4: "arch_config (snd (run_frida_server env_listing (typing [''0''])))
     = arch_config (typing [''0''])"
    using module2 configure_x86(3) [of "[''0'']"] by blast
  have 5: "keyed (snd (dispatch no_interrupt env_listing st_default))"
    using menu st_default_keyed by blast
  have 6: "fixed_config (snd (setup_frida_server env_two ''emulator-5554'' True st_default))
     = fixed_config st_default"
    using auto by blast
  have 7: "arch_config (snd (setup_frida_server env_two ''emulator-5554'' True st_default)) =
     (''android-x86'', frida_url ''17.5.2'' ''android-x86'',
      path_join ''/home/user/tmp'' (xz_name ''17.5.2'' ''android-x86''))"
    using auto by (simp add: Let_def)
  have 8: "arch_config (snd (setup_frida_server env_two ''emulator-5554'' False st_default))
     = arch_config st_default"
    using fixed by simp
  from 1 2 3 4 5 6 7 8 configure_x86 [of "[''2'', ''0'']"] st_default_keyed show ?thesis
    by simp
qed

section \<open>Temporary files of the certificate push (C4)\<close>

text \<open>
  What the code does achieve. Whenever \<^verbatim>\<open>push_burp_cert\<close> returns, the temporary files
  are gone. If it returned before the conversion, because a tool or the certificate file
  is missing, it has touched nothing: the state is the one it started from, so that a
  \<^verbatim>\<open>temp.pem\<close> absent before is absent after. Otherwise, whether the certificate was
  installed or an exception of a step was caught (a checked command exiting non-zero,
  the renaming refused), \<^verbatim>\<open>temp.pem\<close> does not exist, and the hash-named copy does not
  exist either, for whatever name the run bound to \<^verbatim>\<open>hash_name\<close>.
\<close>

lemma returned_runs_leave_no_temporary_files:
  assumes "push_burp_cert_irq irq env st = (Inr r, st')"
  shows "if r = NoAdb \<or> r = NoOpenssl \<or> r = NoCertFile then st' = st
         else fs st' temp_pem = None \<and>
              (\<forall>h. fst (convert_cert_irq irq env st) = Inr h \<longrightarrow> fs st' (path_str h) = None)"
    and "fs st temp_pem = None \<Longrightarrow> fs st' temp_pem = None"
  using push_burp_cert_irq_returned [OF assms] by auto

lemma failed_push_is_cleaned_up:
  "fst (convert_cert env_no_push st_default) = Inr ''9a5ba575.0''"
  "fst (push_burp_cert env_no_push st_default) =
     CertFailed (CalledProcessError (cert_push_cmd ''9a5ba575.0'') 1)"
  "fs (snd (push_burp_cert env_no_push st_default)) temp_pem = None"
  "fs (snd (push_burp_cert env_no_push st_default)) ''9a5ba575.0'' = None"
proof -
  have cert: "fs st_default (path_str (CERT_FILE st_default)) \<noteq> None"
    by simp
  show c: "fst (convert_cert env_no_push st_default) = Inr ''9a5ba575.0''"
    by (simp add: convert_cert_hash cert_env_simps)
  have t: "fs (snd (convert_cert env_no_push st_default)) temp_pem = Some ''PEM''"
    by (rule convert_cert_writes_temp(2)) (simp_all add: cert_env_simps cert_env_tools)
  have i: "fst (install_cert env_no_push ''9a5ba575.0'' (snd (convert_cert env_no_push st_default)))
      = Inl (CalledProcessError (cert_push_cmd ''9a5ba575.0'') 1)"
    using install_cert_push_fails [OF t cert_env_tools(6), of "''9a5ba575.0''"]
    by (simp add: cert_env_simps)
  show "fst (push_burp_cert env_no_push st_default) =
     CertFailed (CalledProcessError (cert_push_cmd ''9a5ba575.0'') 1)"
    by (simp add: push_burp_cert_fst [OF cert_env_tools(4) cert_env_tools(4) cert] c i)
  show "fs (snd (push_burp_cert env_no_push st_default)) temp_pem = None"
    by (rule push_burp_cert_clean(1) [OF cert_env_tools(4) cert_env_tools(4) cert])
  have "fs (snd (push_burp_cert env_no_push st_default)) (path_str ''9a5ba575.0'') = None"
    by (rule push_burp_cert_clean(2) [OF cert_env_tools(4) cert_env_tools(4) cert c])
  then show "fs (snd (push_burp_cert env_no_push st_default)) ''9a5ba575.0'' = None"
    by simp
qed

text \<open>
  C4 fails on the code when the operator interrupts the operation. The certificate
  \<^verbatim>\<open>burp.cer\<close> is in the working directory, every tool is installed and every command
  would succeed; neither \<^verbatim>\<open>temp.pem\<close> nor \<^verbatim>\<open>9a5ba575.0\<close> exists. \<^verbatim>\<open>KeyboardInterrupt\<close> is
  not an \<^verbatim>\<open>Exception\<close>, so the handler that removes the temporary files does not run.
  \<^item> Interrupted during the hash command, which comes after \<^verbatim>\<open>temp.pem\<close> is written and
    before it is renamed, the operation is left with \<^verbatim>\<open>temp.pem\<close> on disk.
  \<^item> Interrupted during \<^verbatim>\<open>adb push\<close>, it is left with the hash-named copy \<^verbatim>\<open>9a5ba575.0\<close>
    on disk; \<^verbatim>\<open>main\<close>, started with the default arguments by an operator who types \<^verbatim>\<open>1\<close>,
    catches the interrupt and ends with status 0 and that file on disk.
  \<^item> When the same push is not interrupted but exits with status 1, the handler runs
    and the file is removed.
\<close>

theorem interrupt_leaves_temporary_files:
  "fs st_default temp_pem = None \<and> fs st_default ''9a5ba575.0'' = None \<and>
   fst (push_burp_cert_irq (during hash_cmd) env_cert_ok st_default) = Inl KeyboardInterrupt \<and>
   new_events st_default (snd (push_burp_cert_irq (during hash_cmd) env_cert_ok st_default)) =
     [Run (der_cmd ''./burp.cer''), Run hash_cmd] \<and>
   fs (snd (push_burp_cert_irq (during hash_cmd) env_cert_ok st_default)) temp_pem
     = Some ''PEM'' \<and>
   fst (push_burp_cert_irq (during (cert_push_cmd ''9a5ba575.0'')) env_cert_ok st_default)
     = Inl KeyboardInterrupt \<and>
   new_events st_default
       (snd (push_burp_cert_irq (during (cert_push_cmd ''9a5ba575.0'')) env_cert_ok st_default)) =
     [Run (der_cmd ''./burp.cer''), Run hash_cmd, Run [''adb'', ''root''],
      Run [''adb'', ''remount''], Run (cert_push_cmd ''9a5ba575.0'')] \<and>
   fs (snd (push_burp_cert_irq (during (cert_push_cmd ''9a5ba575.0'')) env_cert_ok st_default))
     ''9a5ba575.0'' = Some ''PEM'' \<and>
   fst (main (during (cert_push_cmd ''9a5ba575.0'')) env_cert_ok args_default (typing [''1''])) = 0 \<and>
   fs (snd (main (during (cert_push_cmd ''9a5ba575.0'')) env_cert_ok args_default (typing [''1''])))
     ''9a5ba575.0'' = Some ''PEM'' \<and>
   fst (push_burp_cert_irq no_interrupt env_no_push st_default) =
     Inr (CertFailed (CalledProcessError (cert_push_cmd ''9a5ba575.0'') 1)) \<and>
   fs (snd (push_burp_cert_irq no_interrupt env_no_push st_default)) ''9a5ba575.0'' = None"
proof -
  have cert: "CERT_FILE st_default = ''./burp.cer''" "fs st_default ''burp.cer'' = Some ''DER''"
    by simp_all
  let ?menu = "st_default\<lparr>stdin := [], trace := [Input]\<rparr>"
  have cert': "CERT_FILE ?menu = ''./burp.cer''" "fs ?menu ''burp.cer'' = Some ''DER''"
    by simp_all
  have quiet: "push_burp_cert_irq no_interrupt env_no_push st_default =
      (Inr (fst (push_burp_cert env_no_push st_default)), snd (push_burp_cert env_no_push st_default))"
    unfolding no_interrupt_eq by (rule push_burp_cert_irq_quiet)
  have 1: "new_events st_default (snd (push_burp_cert_irq (during hash_cmd) env_cert_ok st_default)) =
     [Run (der_cmd ''./burp.cer''), Run hash_cmd]"
    by (rule new_events_append) (rule interrupted_at_hash(3) [OF cert])
  have 2: "new_events st_default
       (snd (push_burp_cert_irq (during (cert_push_cmd ''9a5ba575.0'')) env_cert_ok st_default)) =
     [Run (der_cmd ''./burp.cer''), Run hash_cmd, Run [''adb'', ''root''],
      Run [''adb'', ''remount''], Run (cert_push_cmd ''9a5ba575.0'')]"
    by (rule new_events_append) (rule interrupted_at_push(3) [OF cert])
  have 3: "fs (snd (main (during (cert_push_cmd ''9a5ba575.0'')) env_cert_ok args_default
      (typing [''1'']))) ''9a5ba575.0'' = Some ''PEM''"
    unfolding main_1(2) by (rule interrupted_at_push(2) [OF cert'])
  show ?thesis
    using 1 2 3 interrupted_at_hash(1,2) [OF cert] interrupted_at_push(1,2) [OF cert]
      failed_push_is_cleaned_up(2,4)
    by (simp add: main_1(1) quiet)
qed

section \<open>What the cache is keyed by (C5)\<close>

text \<open>
  C5, as stated, fails for the decompressed form: \<^verbatim>\<open>LOCAL_BIN\<close> is the one path
  \<^verbatim>\<open>LOCAL_DIR / "frida-server"\<close>, whatever the version and the architecture. The
  deployments to an \<^verbatim>\<open>arm64-v8a\<close> device and to an \<^verbatim>\<open>x86\<close> device work with the distinct
  pairs \<^verbatim>\<open>("17.5.2", "android-arm64")\<close> and \<^verbatim>\<open>("17.5.2", "android-x86")\<close>; their
  compressed cache paths differ, their decompressed cache path is the same.
\<close>

theorem decompressed_path_is_shared:
  "(FRIDA_VER st_arm64, FRIDA_ARCH st_arm64) = (''17.5.2'', ''android-arm64'') \<and>
   (FRIDA_VER st_x86, FRIDA_ARCH st_x86) = (''17.5.2'', ''android-x86'') \<and>
   LOCAL_XZ st_arm64 \<noteq> LOCAL_XZ st_x86 \<and>
   LOCAL_BIN st_arm64 = LOCAL_BIN st_x86"
proof -
  have a: "FRIDA_VER st_arm64 = ''17.5.2''" "LOCAL_BIN st_arm64 = ''/home/user/tmp/frida-server''"
    using fixed_config_fields [OF st_arm64_config(1)] by simp_all
  have b: "FRIDA_VER st_x86 = ''17.5.2''" "LOCAL_BIN st_x86 = ''/home/user/tmp/frida-server''"
    using fixed_config_fields [OF st_x86_config(1)] by simp_all
  have c: "FRIDA_ARCH st_arm64 = ''android-arm64''"
    "LOCAL_XZ st_arm64 = path_join ''/home/user/tmp'' (xz_name ''17.5.2'' ''android-arm64'')"
    using st_arm64_config(2) by (simp_all add: arch_config_def)
  have d: "FRIDA_ARCH st_x86 = ''android-x86''"
    "LOCAL_XZ st_x86 = path_join ''/home/user/tmp'' (xz_name ''17.5.2'' ''android-x86'')"
    using st_x86_config(2) by (simp_all add: arch_config_def)
  have "LOCAL_XZ st_arm64 \<noteq> LOCAL_XZ st_x86"
    by (simp add: c d path_join_def xz_name_def)
  then show ?thesis
    by (simp add: a b c d)
qed

text \<open>
  C5, amended. The cache is keyed by (version, architecture) for the compressed form
  only. The download URL and the compressed cache path are functions of the pair, and on
  versions that pass validation two pairs have the same URL, or the same compressed
  cache path, only if they are the same pair. Every per-device deployment leaves the URL
  and the compressed cache path in use the ones derived from the pair in use, and leaves
  the decompressed cache path, which is one and the same for all pairs, as it was. A
  deployment whose download returns a body stores exactly that body at the pair's
  compressed cache path, replacing what was there, and stores what the body decompresses
  to (nothing, when it does not decompress) at the shared decompressed path, replacing
  what was there. It changes no other file, so fetching a pair again adds no entry.
\<close>

theorem cache_keyed_by_pair:
  assumes "validate_frida_version v" and "validate_frida_version v'"
    and "keyed st" and "LOCAL_BIN st = path_join (LOCAL_DIR st) ''frida-server''"
    and "returncode (run env (getprop_cmd serial)) = 0" and "mkdir_ok env"
    and "setup_frida_server env serial auto_detect st = (r, st')"
    and "http_get env (FRIDA_URL st') = Body content"
  shows "(frida_url v a = frida_url v' a' \<longleftrightarrow> v = v' \<and> a = a') \<and>
         (path_join d (xz_name v a) = path_join d (xz_name v' a') \<longleftrightarrow> v = v' \<and> a = a') \<and>
         keyed st' \<and> LOCAL_BIN st' = LOCAL_BIN st \<and>
         fs st' (LOCAL_XZ st') = Some content \<and>
         fs st' (LOCAL_BIN st') =
           Some (case xz_decode env content of None \<Rightarrow> [] | Some binary \<Rightarrow> binary) \<and>
         (\<forall>p. p \<noteq> LOCAL_XZ st' \<and> p \<noteq> LOCAL_BIN st' \<longrightarrow> fs st' p = fs st p)"
proof -
  have st': "st' = snd (setup_frida_server env serial auto_detect st)"
    using assms(7) by simp
  have url: "frida_url v a = frida_url v' a' \<longleftrightarrow> v = v' \<and> a = a'"
    using frida_url_inj [OF assms(1,2)] by blast
  have xz: "path_join d (xz_name v a) = path_join d (xz_name v' a') \<longleftrightarrow> v = v' \<and> a = a'"
    using xz_name_inj [OF assms(1,2)] by (auto simp: path_join_inj)
  have k: "keyed st'"
    unfolding st' by (rule setup_keyed) (fact assms(3))
  have fixed: "LOCAL_BIN st' = LOCAL_BIN st" "LOCAL_DIR st' = LOCAL_DIR st"
    unfolding st' by (rule fixed_config_fields [OF setup_fixed_config])+
  have "LOCAL_XZ st' = path_join (LOCAL_DIR st) (xz_name (FRIDA_VER st') (FRIDA_ARCH st'))"
    using k fixed(2) by (simp add: keyed_def)
  then have differ: "LOCAL_XZ st' \<noteq> LOCAL_BIN st"
    using assms(4) by (simp add: xz_is_not_bin)
  have stored: "fs st' (LOCAL_XZ st') = Some content"
    using assms(5,6,8) differ unfolding st' by (rule setup_fs_xz)
  have "fs st' (LOCAL_BIN st) =
      Some (case xz_decode env content of None \<Rightarrow> [] | Some binary \<Rightarrow> binary)"
    using assms(5,6,8) differ unfolding st' by (rule setup_fs_bin)
  then have unpacked: "fs st' (LOCAL_BIN st') =
      Some (case xz_decode env content of None \<Rightarrow> [] | Some binary \<Rightarrow> binary)"
    by (simp only: fixed(1))
  have other: "fs st' p = fs st p" if "p \<noteq> LOCAL_XZ st'" "p \<noteq> LOCAL_BIN st'" for p
    using that unfolding st' fixed(1) [unfolded st'] by (rule setup_fs_other)
  from url xz k fixed(1) stored unpacked other show ?thesis
    by blast
qed

theorem cache_keyed_by_pair_witness:
  "validate_frida_version ''17.5.2'' \<and> validate_frida_version ''16.0.0'' \<and>
   keyed st_default \<and>
   LOCAL_BIN st_default = path_join (LOCAL_DIR st_default) ''frida-server'' \<and>
   returncode (run env_two (getprop_cmd ''emulator-5554'')) = 0 \<and> mkdir_ok env_two \<and>
   http_get env_two (FRIDA_URL st_x86) = Body (FRIDA_URL st_x86) \<and>
   frida_url ''17.5.2'' ''android-arm'' \<noteq> frida_url ''16.0.0'' ''android-arm'' \<and>
   path_join ''/home/user/tmp'' (xz_name ''17.5.2'' ''android-arm'')
     \<noteq> path_join ''/home/user/tmp'' (xz_name ''16.0.0'' ''android-arm'') \<and>
   keyed st_x86 \<and> LOCAL_BIN st_x86 = LOCAL_BIN st_default \<and>
   fs st_x86 (LOCAL_XZ st_x86) = Some (FRIDA_URL st_x86) \<and>
   xz_decode env_two (FRIDA_URL st_x86) = Some (FRIDA_URL st_x86) \<and>
   fs st_default (LOCAL_BIN st_default) = None \<and>
   fs st_x86 (LOCAL_BIN st_x86) = Some (FRIDA_URL st_x86) \<and>
   fs st_x86 ''burp.cer'' = fs st_default ''burp.cer''"
proof -
  have v: "validate_frida_version ''17.5.2''" "validate_frida_version ''16.0.0''"
    by (simp_all add: validate_frida_version_def re_digits_def re_dot_def re_dollar_def
        is_decimal_def)
  have bin: "LOCAL_BIN st_default = path_join (LOCAL_DIR st_default) ''frida-server''"
    by (simp add: path_join_def)
  have ok: "returncode (run env_two (getprop_cmd ''emulator-5554'')) = 0" "mkdir_ok env_two"
    by simp_all
  have run: "setup_frida_server env_two ''emulator-5554'' True st_default
      = (fst (setup_frida_server env_two ''emulator-5554'' True st_default), st_x86)"
    by (simp add: st_x86_def)
  have body: "http_get env_two (FRIDA_URL st_x86) = Body (FRIDA_URL st_x86)"
    by (simp add: env_two_def)
  have paths: "''burp.cer'' \<noteq> LOCAL_XZ st_x86" "''burp.cer'' \<noteq> LOCAL_BIN st_x86"
    using st_x86_config(2) fixed_config_fields(3) [OF st_x86_config(1)]
    by (auto simp: arch_config_def path_join_def)
  have decode: "xz_decode env_two (FRIDA_URL st_x86) = Some (FRIDA_URL st_x86)"
    by (simp add: env_two_def)
  have empty: "fs st_default (LOCAL_BIN st_default) = None"
    by (simp add: st_default_def)
  from cache_keyed_by_pair [OF v st_default_keyed bin ok run body,
      of "''android-arm''" "''android-arm''" "''/home/user/tmp''"]
  show ?thesis
    using v st_default_keyed bin ok body paths decode empty by auto
qed

section \<open>Listing and selecting devices (C6)\<close>

text \<open>
  C6, at an input where the code departs from it. The listing has one device ready and
  the operator answers with the superscript digit two (U+00B2). \<^verbatim>\<open>str.isdigit\<close> holds of
  that answer, so \<^verbatim>\<open>int(choice)\<close> is evaluated, and it raises \<^verbatim>\<open>ValueError\<close>:
  \<^verbatim>\<open>choose_device\<close> does not return an empty selection, it raises. The claim says that any
  choice that is neither \<^verbatim>\<open>0\<close> nor a number in range yields the empty selection and no
  hard error.
\<close>

theorem superscript_choice_raises:
  "parse_devices adb_listing = [''emulator-5554''] \<and>
   py_strip [CHR 0xB2] = [CHR 0xB2] \<and>
   fst (choose_device env_listing (st_default\<lparr>stdin := [[CHR 0xB2]]\<rparr>)) = Inl ValueError"
proof -
  have run: "run env_listing [''adb'', ''devices''] = reply 0 adb_listing"
    by (simp add: env_listing_def)
  have strip: "py_strip [CHR 0xB2] = [CHR 0xB2]"
    by (simp add: py_strip_def is_space_def)
  have "fst (choose_device env_listing (st_default\<lparr>stdin := [[CHR 0xB2]]\<rparr>))
      = select_devices (parse_devices adb_listing) (py_strip [CHR 0xB2])"
    by (subst choose_device_eq [where line = "[CHR 0xB2]" and rest = "[]"])
      (simp_all add: run adb_listing_devices)
  then show ?thesis
    by (simp add: strip adb_listing_devices select_devices_raises superscript_is_digit
        is_decimal_def)
qed

text \<open>
  The rest of C6 holds of the code. The devices listed are the serials of the lines
  after the header whose state column is \<^verbatim>\<open>device\<close>, in the order of the output
  (\<open>parse_devices_listed\<close>); the choice \<^verbatim>\<open>0\<close> selects them all, a decimal number between 1
  and their count selects the device at that index, and every other choice selects
  nothing, unless it consists of digits of which one is not decimal, which is exactly
  when the selection raises.
\<close>

lemma selection_by_choice:
  "select_devices devices choice =
     (if choice = ''0'' then Inr devices
      else if py_isdigit choice \<and> \<not> list_all is_decimal choice then Inl ValueError
      else case py_int choice of
             Inr n \<Rightarrow> if 1 \<le> n \<and> n \<le> int (length devices)
                      then Inr [devices ! nat (n - 1)] else Inr []
           | Inl _ \<Rightarrow> Inr [])"
proof (cases "choice = ''0''")
  case True
  then show ?thesis by (simp add: select_devices_all)
next
  case False
  note not0 = this
  show ?thesis
  proof (cases "py_isdigit choice \<and> \<not> list_all is_decimal choice")
    case True
    then have "select_devices devices choice = Inl ValueError"
      by (simp add: select_devices_raises)
    with not0 True show ?thesis by simp
  next
    case False
    show ?thesis
    proof (cases "py_int choice")
      case (Inl e)
      then have "\<not> py_isdigit choice"
        using False by (auto simp: py_int_Inl py_isdigit_def)
      with not0 have "select_devices devices choice = Inr []"
        by (simp add: select_devices_other)
      with not0 False Inl show ?thesis by simp
    next
      case (Inr n)
      show ?thesis
      proof (cases "1 \<le> n \<and> n \<le> int (length devices)")
        case True
        with not0 Inr have "select_devices devices choice = Inr [devices ! nat (n - 1)]"
          by (simp add: select_devices_index)
        with not0 False Inr True show ?thesis by simp
      next
        case out: False
        with not0 Inr have "select_devices devices choice = Inr []"
          by (intro select_devices_other) auto
        with not0 False Inr out show ?thesis by simp
      qed
    qed
  qed
qed

text \<open>The examples of the specification: three devices listed, the choices 0, 2 and 5.\<close>

lemma selection_examples:
  "select_devices [''emulator-5554'', ''R58N'', ''10.0.0.7:5555''] ''0''
     = Inr [''emulator-5554'', ''R58N'', ''10.0.0.7:5555'']"
  "select_devices [''emulator-5554'', ''R58N'', ''10.0.0.7:5555''] ''2'' = Inr [''R58N'']"
  "select_devices [''emulator-5554'', ''R58N'', ''10.0.0.7:5555''] ''5'' = Inr []"
  "select_devices [''emulator-5554'', ''R58N'', ''10.0.0.7:5555''] ''all'' = Inr []"
  by (simp_all add: select_devices_def py_isdigit_def py_int_def is_digit_def is_decimal_def
      digit_val_def)

section \<open>The architecture resolver (C7)\<close>

text \<open>
  C7. For every input string, \<^verbatim>\<open>map_abi_to_frida_arch\<close> returns \<^verbatim>\<open>android-arm64\<close> for
  \<^verbatim>\<open>arm64-v8a\<close>, \<^verbatim>\<open>android-arm\<close> for \<^verbatim>\<open>armeabi-v7a\<close> and \<^verbatim>\<open>armeabi\<close>, \<^verbatim>\<open>android-x86_64\<close>
  for \<^verbatim>\<open>x86_64\<close>, \<^verbatim>\<open>android-x86\<close> for \<^verbatim>\<open>x86\<close>, and the default \<^verbatim>\<open>android-arm64\<close> for
  every other string. The function is total: a dictionary lookup with a default raises
  nothing, so the result is always one of these strings and never an error.
\<close>

theorem map_abi_to_frida_arch_table:
  "map_abi_to_frida_arch abi =
     (if abi = ''arm64-v8a'' then ''android-arm64''
      else if abi = ''armeabi-v7a'' \<or> abi = ''armeabi'' then ''android-arm''
      else if abi = ''x86_64'' then ''android-x86_64''
      else if abi = ''x86'' then ''android-x86''
      else ''android-arm64'')"
  by (simp add: map_abi_to_frida_arch_def dict_get_def abi_mapping_def)

section \<open>Best-effort steps (C8)\<close>

text \<open>
  C8. Take any call of \<^verbatim>\<open>setup_frida_server\<close> that reached KillPrior (its first command,
  \<^verbatim>\<open>su -c 'pkill -f ...'\<close>, is among the events the call added to the trace) and in which
  KillPrior (both attempts), RelaxMAC (\<^verbatim>\<open>setenforce 0\<close>) and RequestRootChannel
  (\<^verbatim>\<open>adb root\<close>) all exit non-zero. Then the call returns normally, as an unverified or a
  verified attempt, and after those four failed commands it ran Launch (the elevated
  launch, followed by the plain one when the elevated one exits non-zero) and, as its
  last command, Verify (\<^verbatim>\<open>ps -A | grep -i frida-server\<close>).
\<close>

theorem best_effort_steps_do_not_abort:
  assumes run: "setup_frida_server env serial auto_detect st = (r, st')"
    and reached: "Run (kill_su_cmd serial) \<in> set (new_events st st')"
    and "returncode (run env (kill_su_cmd serial)) \<noteq> 0"
    and "returncode (run env (kill_cmd serial)) \<noteq> 0"
    and "returncode (run env (setenforce_cmd serial)) \<noteq> 0"
    and "returncode (run env (root_cmd serial)) \<noteq> 0"
  shows "(r = Inr Unverified \<or> r = Inr (Verified (py_strip (stdout (run env (ps_cmd serial)))))) \<and>
         (\<exists>before.
            new_events st st' =
              before @ [Run (kill_su_cmd serial), Run (kill_cmd serial),
                        Run (setenforce_cmd serial), Run (root_cmd serial),
                        Run (launch_su_cmd serial)]
                @ (if returncode (run env (launch_su_cmd serial)) \<noteq> 0
                   then [Run (launch_cmd serial)] else [])
                @ [Run (ps_cmd serial)])"
proof -
  have st': "st' = snd (setup_frida_server env serial auto_detect st)"
    and r: "r = fst (setup_frida_server env serial auto_detect st)"
    using run by simp_all
  let ?tail = "[Run (kill_su_cmd serial), Run (kill_cmd serial),
                        Run (setenforce_cmd serial), Run (root_cmd serial),
                        Run (launch_su_cmd serial)]
                @ (if returncode (run env (launch_su_cmd serial)) \<noteq> 0
                   then [Run (launch_cmd serial)] else [])
                @ [Run (ps_cmd serial)]"
  have ev: "new_events st st' =
      drop (length (trace st)) (trace (snd (setup_frida_server env serial auto_detect st)))"
    by (simp add: new_events_def st')
  have all: "returncode (run env (getprop_cmd serial)) = 0 \<and> mkdir_ok env \<and>
     fst (download env (resolved env serial auto_detect st)) \<and>
     fst (extract_xz env (snd (download env (resolved env serial auto_detect st)))) \<and>
     returncode (run env (push_cmd serial (LOCAL_BIN st))) = 0"
    using reached unfolding ev setup_trace
    by (auto split: if_splits)
  have "r = Inr (verdict (run env (ps_cmd serial)))"
    using all by (simp add: r setup_frida_server_eq)
  then have 1: "r = Inr Unverified \<or> r = Inr (Verified (py_strip (stdout (run env (ps_cmd serial)))))"
    by (simp add: verdict_def)
  have "new_events st st' =
      [Run (getprop_cmd serial),
       Urlretrieve (FRIDA_URL (resolved env serial auto_detect st))
         (LOCAL_XZ (resolved env serial auto_detect st)),
       Run (push_cmd serial (LOCAL_BIN st)), Run (chmod_cmd serial)] @ ?tail"
    using all unfolding ev setup_trace by simp
  then have 2: "\<exists>before. new_events st st' = before @ ?tail"
    by blast
  from 1 2 show ?thesis by blast
qed

theorem best_effort_steps_do_not_abort_witness:
  "Run (kill_su_cmd ''emulator-5554'')
     \<in> set (new_events st_default
              (snd (setup_frida_server env_unrooted ''emulator-5554'' True st_default))) \<and>
   returncode (run env_unrooted (kill_su_cmd ''emulator-5554'')) \<noteq> 0 \<and>
   returncode (run env_unrooted (kill_cmd ''emulator-5554'')) \<noteq> 0 \<and>
   returncode (run env_unrooted (setenforce_cmd ''emulator-5554'')) \<noteq> 0 \<and>
   returncode (run env_unrooted (root_cmd ''emulator-5554'')) \<noteq> 0 \<and>
   fst (setup_frida_server env_unrooted ''emulator-5554'' True st_default) = Inr Unverified \<and>
   (\<exists>before.
      new_events st_default (snd (setup_frida_server env_unrooted ''emulator-5554'' True st_default)) =
        before @ [Run (kill_su_cmd ''emulator-5554''), Run (kill_cmd ''emulator-5554''),
                  Run (setenforce_cmd ''emulator-5554''), Run (root_cmd ''emulator-5554''),
                  Run (launch_su_cmd ''emulator-5554''), Run (launch_cmd ''emulator-5554''),
                  Run (ps_cmd ''emulator-5554'')])"
proof -
  let ?run = "setup_frida_server env_unrooted ''emulator-5554'' True st_default"
  have ok: "mkdir_ok env_unrooted"
    "\<And>st. fst (download env_unrooted st)"
    "\<And>st. fst (extract_xz env_unrooted (snd (download env_unrooted st)))"
    by (simp_all add: env_unrooted_def)
  have reached: "Run (kill_su_cmd ''emulator-5554'') \<in> set (new_events st_default (snd ?run))"
    by (simp add: new_events_append [OF setup_trace] env_unrooted_run ok)
  have res: "fst ?run = Inr Unverified"
    by (simp add: setup_frida_server_eq env_unrooted_run ok verdict_def)
  have fails:
    "returncode (run env_unrooted (kill_su_cmd ''emulator-5554'')) \<noteq> 0"
    "returncode (run env_unrooted (kill_cmd ''emulator-5554'')) \<noteq> 0"
    "returncode (run env_unrooted (setenforce_cmd ''emulator-5554'')) \<noteq> 0"
    "returncode (run env_unrooted (root_cmd ''emulator-5554'')) \<noteq> 0"
    by (simp_all add: env_unrooted_run)
  have "?run = (fst ?run, snd ?run)"
    by simp
  from best_effort_steps_do_not_abort [OF this reached fails]
  show ?thesis
    using reached fails res by (simp add: env_unrooted_run)
qed

section \<open>Validation at start-up (C9)\<close>

text \<open>
  C9, at an input where the code departs from it. The version \<^verbatim>\<open>17.5.2\<close> followed by a
  newline is not of the form \<^verbatim>\<open>x.y.z\<close> that the validator documents, yet it passes:
  \<^verbatim>\<open>$\<close> also matches just before a newline that ends the string. \<^verbatim>\<open>main\<close> does not exit;
  it configures a URL with the newline in it. The claim says that exactly the strings
  of three dot-separated runs of digits are accepted.
\<close>

theorem trailing_newline_passes_validation:
  "validate_frida_version ''17.5.2\<newline>'' \<and>
   \<not> version_format ''17.5.2\<newline>'' \<and>
   fst (configure (args_default\<lparr>frida_version := ''17.5.2\<newline>''\<rparr>) st_loaded) = None \<and>
   FRIDA_URL (snd (configure (args_default\<lparr>frida_version := ''17.5.2\<newline>''\<rparr>) st_loaded)) =
     frida_url ''17.5.2\<newline>'' ''android-arm64''"
proof -
  have v: "validate_frida_version ''17.5.2\<newline>''"
    by (simp add: validate_frida_version_def re_digits_def re_dot_def re_dollar_def is_decimal_def)
  have n: "\<not> version_format ''17.5.2\<newline>''"
  proof
    assume "version_format ''17.5.2\<newline>''"
    then have "CHR 0x0A \<notin> set ''17.5.2\<newline>''"
      by (rule format_avoids) simp_all
    then show False by simp
  qed
  from v n show ?thesis
    by (simp add: configure_def args_default_def st_loaded_def Let_def)
qed

text \<open>
  The rest of C9 holds of the code: the version validator accepts a string exactly when
  it is of the form \<^verbatim>\<open>x.y.z\<close>, possibly followed by one newline; the architecture
  validator accepts exactly the four canonical names and is consulted only for an
  architecture that is given and not empty; and when a validation fails \<^verbatim>\<open>main\<close> exits
  with status 1 without having asked the operator anything.
\<close>

lemma validate_frida_version_iff:
  "validate_frida_version s \<longleftrightarrow>
     version_format s \<or> (\<exists>t. version_format t \<and> s = t @ [CHR 0x0A])"
  using format_of_validate [of s] validate_of_format by blast

lemma validate_frida_arch_iff:
  "validate_frida_arch arch \<longleftrightarrow>
     arch = ''android-arm64'' \<or> arch = ''android-arm'' \<or> arch = ''android-x86_64''
       \<or> arch = ''android-x86''"
  by (simp add: validate_frida_arch_def valid_archs_def)

lemma invalid_input_exits:
  assumes "\<not> validate_frida_version (frida_version a) \<or>
     (\<exists>arch. frida_arch a = Some arch \<and> arch \<noteq> [] \<and> \<not> validate_frida_arch arch)"
  shows "fst (main irq env a st) = 1" and "trace (snd (main irq env a st)) = trace st"
  using assms by (auto simp: main_def configure_def Let_def split: option.splits)

lemma valid_input_reaches_menu:
  assumes "validate_frida_version (frida_version a)"
    and "frida_arch a = None \<or> frida_arch a = Some [] \<or> (\<exists>arch. frida_arch a = Some arch \<and> validate_frida_arch arch)"
  shows "fst (main irq env a st) = 0" and "fst (configure a st) = None"
  using assms by (auto simp: main_def configure_def Let_def split: option.splits prod.splits)

lemma validate_frida_version_examples:
  "validate_frida_version ''17.5.2''"
  "\<not> validate_frida_version ''17.5''"
  "\<not> validate_frida_version ''17.5.2.1''"
  "\<not> validate_frida_version ''abc''"
  by (simp_all add: validate_frida_version_def re_digits_def re_dot_def re_dollar_def
      is_decimal_def)

section \<open>DER first, PEM as the fallback (C10)\<close>

text \<open>
  C10. Whenever \<^verbatim>\<open>push_burp_cert\<close> gets as far as the conversion (both tools are found
  and the certificate file exists), the first command it runs is the conversion from
  DER. When that command exits non-zero, the next command is the conversion from PEM;
  when it exits zero, the conversion from PEM is never run. When the conversion from PEM
  exits non-zero as well, nothing else is run and the operation ends with that failure.
\<close>

theorem der_first_pem_on_failure:
  assumes "check_tool env ''adb''" and "check_tool env ''openssl''"
    and "fs st (path_str (CERT_FILE st)) \<noteq> None"
    and "push_burp_cert env st = (r, st')"
  shows "\<exists>rest.
     new_events st st' = Run (der_cmd (CERT_FILE st)) # rest \<and>
     (if returncode (run env (der_cmd (CERT_FILE st))) \<noteq> 0
      then (\<exists>more. rest = Run (pem_cmd (CERT_FILE st)) # more)
      else Run (pem_cmd (CERT_FILE st)) \<notin> set rest) \<and>
     (returncode (run env (der_cmd (CERT_FILE st))) \<noteq> 0 \<and>
      returncode (run env (pem_cmd (CERT_FILE st))) \<noteq> 0 \<longrightarrow>
        rest = [Run (pem_cmd (CERT_FILE st))] \<and>
        r = CertFailed (CalledProcessError (pem_cmd (CERT_FILE st))
                          (returncode (run env (pem_cmd (CERT_FILE st))))))"
proof -
  have st': "st' = snd (push_burp_cert env st)" and r: "r = fst (push_burp_cert env st)"
    using assms(4) by simp_all
  from push_burp_cert_trace [OF assms(1-3)] obtain more where
    t: "trace st' = trace st @ Run (der_cmd (CERT_FILE st)) #
         (if returncode (run env (der_cmd (CERT_FILE st))) \<noteq> 0
          then [Run (pem_cmd (CERT_FILE st))] else []) @ more"
    and m: "Run (pem_cmd (CERT_FILE st)) \<notin> set more"
    and a: "returncode (run env (der_cmd (CERT_FILE st))) \<noteq> 0 \<and>
      returncode (run env (pem_cmd (CERT_FILE st))) \<noteq> 0 \<longrightarrow> more = []"
    unfolding st' by blast
  let ?rest = "(if returncode (run env (der_cmd (CERT_FILE st))) \<noteq> 0
          then [Run (pem_cmd (CERT_FILE st))] else []) @ more"
  have 1: "new_events st st' = Run (der_cmd (CERT_FILE st)) # ?rest"
    by (rule new_events_append) (simp add: t)
  have 2: "if returncode (run env (der_cmd (CERT_FILE st))) \<noteq> 0
      then (\<exists>more. ?rest = Run (pem_cmd (CERT_FILE st)) # more)
      else Run (pem_cmd (CERT_FILE st)) \<notin> set ?rest"
    using m by simp
  have 3: "?rest = [Run (pem_cmd (CERT_FILE st))] \<and>
        r = CertFailed (CalledProcessError (pem_cmd (CERT_FILE st))
                          (returncode (run env (pem_cmd (CERT_FILE st)))))"
    if f: "returncode (run env (der_cmd (CERT_FILE st))) \<noteq> 0 \<and>
      returncode (run env (pem_cmd (CERT_FILE st))) \<noteq> 0"
  proof -
    have "fst (convert_cert env st) =
        Inl (CalledProcessError (pem_cmd (CERT_FILE st))
            (returncode (run env (pem_cmd (CERT_FILE st)))))"
      using f by (simp add: convert_cert_abort)
    then have "r = CertFailed (CalledProcessError (pem_cmd (CERT_FILE st))
                          (returncode (run env (pem_cmd (CERT_FILE st)))))"
      unfolding r by (simp add: push_burp_cert_fst [OF assms(1-3)])
    then show ?thesis
      using f a by simp
  qed
  from 1 2 3 show ?thesis
    by blast
qed

theorem der_first_pem_on_failure_witness:
  "check_tool env_not_a_cert ''adb'' \<and> check_tool env_not_a_cert ''openssl'' \<and>
   fs st_default (path_str (CERT_FILE st_default)) \<noteq> None \<and>
   returncode (run env_not_a_cert (der_cmd ''./burp.cer'')) \<noteq> 0 \<and>
   returncode (run env_not_a_cert (pem_cmd ''./burp.cer'')) \<noteq> 0 \<and>
   new_events st_default (snd (push_burp_cert env_not_a_cert st_default)) =
     [Run (der_cmd ''./burp.cer''), Run (pem_cmd ''./burp.cer'')] \<and>
   fst (push_burp_cert env_not_a_cert st_default) =
     CertFailed (CalledProcessError (pem_cmd ''./burp.cer'') 1)"
proof -
  have tools: "check_tool env_not_a_cert ''adb''" "check_tool env_not_a_cert ''openssl''"
    by (simp_all add: check_tool_def env_not_a_cert_def)
  have cert: "fs st_default (path_str (CERT_FILE st_default)) \<noteq> None"
    by simp
  have fails: "returncode (run env_not_a_cert (der_cmd ''./burp.cer'')) = 1"
    "returncode (run env_not_a_cert (pem_cmd ''./burp.cer'')) = 1"
    by (simp_all add: env_not_a_cert_def)
  have "push_burp_cert env_not_a_cert st_default =
      (fst (push_burp_cert env_not_a_cert st_default), snd (push_burp_cert env_not_a_cert st_default))"
    by simp
  from der_first_pem_on_failure [OF tools cert this] show ?thesis
    using tools cert fails by auto
qed

end
